theory Spec2Isabelle
  imports Main "HOL-Library.Word"
begin

section \<open>Legacy status values\<close>

text \<open>
  The canonical error codes of \<^verbatim>\<open>tensorflow::error::Code\<close>.  The source builds statuses
  with \<^verbatim>\<open>errors::NotFound\<close>, \<^verbatim>\<open>errors::Internal\<close> and \<^verbatim>\<open>errors::InvalidArgument\<close> and
  tests them with \<^verbatim>\<open>ok()\<close>.
\<close>

datatype error_code =
    OK | CANCELLED | UNKNOWN | INVALID_ARGUMENT | DEADLINE_EXCEEDED | NOT_FOUND
  | ALREADY_EXISTS | PERMISSION_DENIED | UNAUTHENTICATED | RESOURCE_EXHAUSTED
  | FAILED_PRECONDITION | ABORTED | OUT_OF_RANGE | UNIMPLEMENTED | INTERNAL
  | UNAVAILABLE | DATA_LOSS

record status =
  code :: error_code
  error_message :: string

definition Status_OK :: status where
  "Status_OK = \<lparr>code = OK, error_message = []\<rparr>"

definition ok :: "status \<Rightarrow> bool" where
  "ok s = (code s = OK)"

definition NotFound :: "string \<Rightarrow> status" where
  "NotFound msg = \<lparr>code = NOT_FOUND, error_message = msg\<rparr>"

definition Internal :: "string \<Rightarrow> status" where
  "Internal msg = \<lparr>code = INTERNAL, error_message = msg\<rparr>"

definition InvalidArgument :: "string \<Rightarrow> status" where
  "InvalidArgument msg = \<lparr>code = INVALID_ARGUMENT, error_message = msg\<rparr>"

section \<open>Tensors\<close>

text \<open>
  \<^verbatim>\<open>DataType\<close> is a protobuf enum, carried here by its integer value; the content of a
  tensor is opaque to the fallback engine.  A \<^verbatim>\<open>FallbackTensor\<close> is a tensor with an
  immutability flag.
\<close>

type_synonym data_type = int

record tensor =
  dtype :: data_type
  buffer :: "int list"

record fallback_tensor =
  ft_tensor :: tensor
  is_immutable :: bool

definition FallbackTensor :: "tensor \<Rightarrow> fallback_tensor" where
  "FallbackTensor t = \<lparr>ft_tensor = t, is_immutable = False\<rparr>"

section \<open>Asynchronous values of the new runtime\<close>

text \<open>
  Modelled from the spec: the future primitives of the new runtime (\<^verbatim>\<open>AsyncValue\<close>,
  \<^verbatim>\<open>MakeUnconstructedAsyncValueRef\<close>, \<^verbatim>\<open>MakeAvailableAsyncValueRef\<close>, \<^verbatim>\<open>GetReadyChain\<close>,
  \<^verbatim>\<open>emplace\<close>, \<^verbatim>\<open>SetError\<close>, \<^verbatim>\<open>EmitError\<close>, \<^verbatim>\<open>EmitErrorAsync\<close>, \<^verbatim>\<open>EnqueueWork\<close>) are
  external collaborators with "future-with-error-or-value semantics", "an error-value
  constructor taking a classification code and message" and "an enqueue onto runtime
  thread operation".  A future is a cell of a store; a reference to it (\<^verbatim>\<open>RCReference\<close>,
  \<^verbatim>\<open>AsyncValueRef\<close>) is the address of the cell, so that two references to one future are
  equal addresses.  A cell is unconstructed, holds a value (a chain or a tensor), or holds
  an error.  The classification type of the new runtime is the type parameter \<open>'e\<close>.
\<close>

datatype payload = ChainValue | TensorValue fallback_tensor

record 'e decoded_diagnostic =
  diag_location :: string
  diag_message :: string
  diag_code :: 'e

datatype 'e async_value =
    Unconstructed
  | Concrete payload
  | Error "'e decoded_diagnostic"

type_synonym addr = nat

type_synonym 'e host_heap = "'e async_value list"

definition alloc_av :: "'e async_value \<Rightarrow> 'e host_heap \<Rightarrow> addr \<times> 'e host_heap" where
  "alloc_av v h = (length h, h @ [v])"

definition MakeUnconstructedAsyncValueRef :: "'e host_heap \<Rightarrow> addr \<times> 'e host_heap" where
  "MakeUnconstructedAsyncValueRef h = alloc_av Unconstructed h"

definition MakeAvailableAsyncValueRef :: "payload \<Rightarrow> 'e host_heap \<Rightarrow> addr \<times> 'e host_heap" where
  "MakeAvailableAsyncValueRef p h = alloc_av (Concrete p) h"

definition emplace :: "addr \<Rightarrow> payload \<Rightarrow> 'e host_heap \<Rightarrow> 'e host_heap" where
  "emplace a p h = h[a := Concrete p]"

definition SetError :: "addr \<Rightarrow> 'e decoded_diagnostic \<Rightarrow> 'e host_heap \<Rightarrow> 'e host_heap" where
  "SetError a d h = h[a := Error d]"

text \<open>What an observer holding the reference in a slot sees.\<close>

definition observe :: "'e host_heap \<Rightarrow> addr option \<Rightarrow> 'e async_value option" where
  "observe h slot =
     (case slot of
        None \<Rightarrow> None
      | Some a \<Rightarrow> if a < length h then Some (h ! a) else None)"

section \<open>Execution context\<close>

text \<open>
  The request context either holds a \<^verbatim>\<open>KernelFallbackCompatRequestState\<close> or not
  (\<^verbatim>\<open>GetDataIfExists\<close>).  Of the request state, the fields read by the code below are
  kept.
\<close>

record request_state =
  log_device_placement :: bool
  custom_device :: "string option"

record exec_ctx =
  location :: string
  fallback_request_state :: "request_state option"

definition EmitError :: "exec_ctx \<Rightarrow> string \<Rightarrow> 'e \<Rightarrow> 'e decoded_diagnostic" where
  "EmitError ctx msg c = \<lparr>diag_location = location ctx, diag_message = msg, diag_code = c\<rparr>"

definition EmitErrorAsync ::
  "exec_ctx \<Rightarrow> string \<Rightarrow> 'e \<Rightarrow> 'e host_heap \<Rightarrow> addr \<times> 'e host_heap" where
  "EmitErrorAsync ctx msg c h = alloc_av (Error (EmitError ctx msg c)) h"

section \<open>Error translation\<close>

text \<open>
  \<^verbatim>\<open>KernelFallbackEmitError\<close>.  The translation of the legacy code
  (\<^verbatim>\<open>ConvertTfErrorCodeToTfrtErrorCode\<close>) is not part of the sources and is the
  parameter \<open>conv\<close>.  \<open>op_chain\<close> is \<open>None\<close> for a null pointer and \<open>Some a\<close> for a slot
  that holds the reference \<open>a\<close>; the slot's new content is returned.
\<close>

definition KernelFallbackEmitError ::
  "(status \<Rightarrow> 'e) \<Rightarrow> exec_ctx \<Rightarrow> string \<Rightarrow> addr option \<Rightarrow> addr option list \<Rightarrow> status
     \<Rightarrow> 'e host_heap \<Rightarrow> addr option \<times> addr option list \<times> 'e host_heap" where
  "KernelFallbackEmitError conv ctx op_name op_chain results st h =
     (let (error, h') =
            EmitErrorAsync ctx
              (''error running kernel fallback kernel '' @ op_name @ '': '' @ error_message st)
              (conv st) h;
          results' = map (\<lambda>_. Some error) results
      in (case op_chain of None \<Rightarrow> None | Some _ \<Rightarrow> Some error, results', h'))"

section \<open>Input conversion and validation\<close>

text \<open>
  \<^verbatim>\<open>ConvertInputTensors\<close>.  The conversion of one argument (\<^verbatim>\<open>TFRTTensorToTFTensor\<close>) is
  not part of the sources and is the parameter \<open>to_tf\<close>; an \<^verbatim>\<open>llvm::Error\<close> is carried by
  its message.  The loop stops at the first argument whose conversion fails.
\<close>

fun ConvertInputTensors :: "('t \<Rightarrow> string + tensor) \<Rightarrow> 't list \<Rightarrow> string + tensor list" where
  "ConvertInputTensors to_tf [] = Inr []"
| "ConvertInputTensors to_tf (argument # arguments) =
     (case to_tf argument of
        Inl err \<Rightarrow> Inl err
      | Inr tf_tensor \<Rightarrow>
          (case ConvertInputTensors to_tf arguments of
             Inl err \<Rightarrow> Inl err
           | Inr input_tf_tensors \<Rightarrow> Inr (tf_tensor # input_tf_tensors)))"

text \<open>Decimal rendering of a size, as \<^verbatim>\<open>StrCat\<close> prints it.\<close>

fun show_nat :: "nat \<Rightarrow> string" where
  "show_nat n =
     (if n < 10 then [''0123456789'' ! n]
      else show_nat (n div 10) @ [''0123456789'' ! (n mod 10)])"

declare show_nat.simps [simp del]

text \<open>
  \<^verbatim>\<open>ValidateInputTypes\<close>.  \<^verbatim>\<open>DataTypeString\<close> is not part of the sources and is the
  parameter \<open>dts\<close>.  The loop runs over the indices \<open>0 ..< n_inputs\<close>, which are in range
  of both sequences once the sizes agree.
\<close>

fun ValidateInputTypes_loop ::
  "(data_type \<Rightarrow> string) \<Rightarrow> string \<Rightarrow> tensor list \<Rightarrow> data_type list \<Rightarrow> nat list \<Rightarrow> status" where
  "ValidateInputTypes_loop dts op_name input_tf_tensors input_types [] = Status_OK"
| "ValidateInputTypes_loop dts op_name input_tf_tensors input_types (i # is) =
     (if dtype (input_tf_tensors ! i) \<noteq> input_types ! i then
        InvalidArgument
          (''cannot compute '' @ op_name @ '' as input #'' @ show_nat i @ ''(zero-based)''
             @ '' was expected to be a '' @ dts (input_types ! i)
             @ '' tensor but is a '' @ dts (dtype (input_tf_tensors ! i)) @ '' tensor'')
      else ValidateInputTypes_loop dts op_name input_tf_tensors input_types is)"

definition ValidateInputTypes ::
  "(data_type \<Rightarrow> string) \<Rightarrow> string \<Rightarrow> tensor list \<Rightarrow> data_type list \<Rightarrow> status" where
  "ValidateInputTypes dts op_name input_tf_tensors input_types =
     (let n_inputs = length input_tf_tensors in
      if length input_types \<noteq> n_inputs then
        InvalidArgument
          (''expected '' @ show_nat (length input_types) @ '' inputs, got '' @ show_nat n_inputs)
      else ValidateInputTypes_loop dts op_name input_tf_tensors input_types [0..<n_inputs])"

section \<open>The kernel runner\<close>

text \<open>
  Modelled from the spec: \<^verbatim>\<open>OpKernelRunner\<close> is an external collaborator, an "opaque runner
  abstraction" with \<^verbatim>\<open>device()\<close>, \<^verbatim>\<open>op_kernel()\<close> (name, input type list, output count),
  \<^verbatim>\<open>IsAsync()\<close>, a synchronous \<^verbatim>\<open>Run\<close> and an asynchronous \<^verbatim>\<open>RunAsync\<close> whose completion
  callback is invoked "from whatever thread the legacy runtime uses".  What the legacy
  kernel leaves in its execution context, the post-call status and the output tensors, is
  the function \<open>compute\<close> of the inputs it reads; an output that the kernel did not
  produce is \<open>None\<close> (a null tensor pointer).  \<open>completes_inline\<close> tells whether
  \<^verbatim>\<open>RunAsync\<close> calls the completion callback before it returns, or keeps it for later.
\<close>

record kernel_outcome =
  out_status :: status
  out_tensors :: "nat \<Rightarrow> tensor option"

record op_kernel_runner =
  kernel_name :: string
  input_types :: "data_type list"
  num_outputs :: nat
  runner_device :: string
  IsAsync :: bool
  compute :: "tensor option list \<Rightarrow> kernel_outcome"
  completes_inline :: bool

section \<open>The thread-local run state\<close>

text \<open>
  \<^verbatim>\<open>OpKernelRunState\<close>: the owned tensor copies, the borrowed tensor-value handles and the
  parameter struct.  A handle is a pointer: into the owned sequence (by index), to the
  tensor of an argument that outlives the call, or null.  Of \<^verbatim>\<open>OpKernelContext::Params\<close> the
  device and the kernel are kept; \<^verbatim>\<open>params.inputs\<close> always points to the handle sequence of
  the same run state.
\<close>

datatype tensor_ptr = NullTensor | OwnedInput nat | ArgTensor tensor

record kernel_params =
  p_device :: string
  p_op_kernel :: string

record run_state =
  input_tf_tensors :: "tensor list"
  input_tf_tensor_values :: "tensor_ptr list"
  params :: kernel_params

text \<open>Reading through a handle; a pointer past the end of the owned sequence dangles.\<close>

definition deref :: "run_state \<Rightarrow> tensor_ptr \<Rightarrow> tensor option" where
  "deref rs p =
     (case p of
        NullTensor \<Rightarrow> None
      | OwnedInput i \<Rightarrow>
          if i < length (input_tf_tensors rs) then Some (input_tf_tensors rs ! i) else None
      | ArgTensor t \<Rightarrow> Some t)"

text \<open>\<^verbatim>\<open>InlinedVector::resize\<close>: new elements are default handles (null).\<close>

definition resize_values :: "nat \<Rightarrow> tensor_ptr list \<Rightarrow> tensor_ptr list" where
  "resize_values n vs = take n vs @ replicate (n - length vs) NullTensor"

definition SetUpParams :: "op_kernel_runner \<Rightarrow> request_state \<Rightarrow> run_state \<Rightarrow> run_state" where
  "SetUpParams runner frs rs =
     rs\<lparr>params :=
          \<lparr>p_device = (case custom_device frs of
                         Some custom \<Rightarrow> custom
                       | None \<Rightarrow> runner_device runner),
           p_op_kernel = kernel_name runner\<rparr>\<rparr>"

text \<open>
  The copying constructor of \<^verbatim>\<open>OpKernelRunState\<close> used by the asynchronous path: every
  handle is read through and the tensor copied, and the new handles point to the copies.
  Reading through a null or dangling handle is a fault.

  A fault is a step at which the code reads through a null or dangling pointer or indexes
  out of range, where the language defines no behaviour: a null or dangling input handle,
  an output the kernel left null, a result index past the result references, a key
  without a runner, an argument future that holds no tensor, a resource index never set.
  A function that reaches one returns the fault and no state.
\<close>

datatype fault =
    NullTensorDeref
  | NullOutput nat
  | ResultRefOutOfRange nat
  | MissingRunner
  | ArgumentNotAvailable nat
  | UnsetResource

definition OpKernelRunState_copy :: "run_state \<Rightarrow> fault + run_state" where
  "OpKernelRunState_copy rs =
     (case those (map (deref rs) (input_tf_tensor_values rs)) of
        None \<Rightarrow> Inl NullTensorDeref
      | Some ts \<Rightarrow>
          Inr \<lparr>input_tf_tensors = ts,
               input_tf_tensor_values = map OwnedInput [0..<length ts],
               params = params rs\<rparr>)"

section \<open>The legacy execution context and the world\<close>

text \<open>
  \<^verbatim>\<open>OpKernelContext\<close>, constructed from the parameter struct and the output count: the
  inputs are what \<^verbatim>\<open>params.inputs\<close> gives when read through, the status starts as OK and
  no output is produced yet.
\<close>

record op_kernel_context =
  ctx_inputs :: "tensor option list"
  ctx_op_kernel :: string
  ctx_num_outputs :: nat
  ctx_status :: status
  ctx_outputs :: "nat \<Rightarrow> tensor option"

definition OpKernelContext :: "run_state \<Rightarrow> nat \<Rightarrow> op_kernel_context" where
  "OpKernelContext rs n =
     \<lparr>ctx_inputs = map (deref rs) (input_tf_tensor_values rs),
      ctx_op_kernel = p_op_kernel (params rs),
      ctx_num_outputs = n,
      ctx_status = Status_OK,
      ctx_outputs = (\<lambda>_. None)\<rparr>"

text \<open>The legacy kernel runs: it leaves its status and outputs in the context.\<close>

definition kernel_runs :: "op_kernel_runner \<Rightarrow> op_kernel_context \<Rightarrow> op_kernel_context" where
  "kernel_runs runner context =
     (let out = compute runner (ctx_inputs context)
      in context\<lparr>ctx_status := out_status out, ctx_outputs := out_tensors out\<rparr>)"

text \<open>
  \<^verbatim>\<open>AsyncState\<close>, the shared state of one asynchronous invocation; the completion callback
  captures it together with the execution context.  The runner that received the callback
  is kept with it, since it is the runner that completes the context.
\<close>

record async_state =
  as_run_state :: run_state
  as_context :: op_kernel_context
  as_chain :: addr
  as_result_refs :: "addr list"

record done_closure =
  cl_async_state :: async_state
  cl_exec_ctx :: exec_ctx

text \<open>One call of an entry point of a runner, as the legacy runtime sees it.\<close>

record invocation =
  inv_kernel :: string
  inv_async :: bool
  inv_inputs :: "tensor option list"

text \<open>
  The world of one worker thread: the store of futures, the execution queue of the owning
  runtime (\<^verbatim>\<open>EnqueueWork\<close> appends the captured state of a unit of work), the completion
  callbacks the legacy runtime holds and has not called yet, the calls made to runners,
  and the thread-local run state.
\<close>

record 'e world =
  heap :: "'e host_heap"
  work_queue :: "async_state list"
  pending :: "(op_kernel_runner \<times> done_closure) list"
  invocations :: "invocation list"
  thread_run_state :: run_state

section \<open>Synchronous execution\<close>

text \<open>
  The success loop of \<^verbatim>\<open>KernelFallbackExecuteCompatSyncInternal\<close>: each output is read
  through \<^verbatim>\<open>mutable_output(i)\<close> (a fault when the kernel left it null), wrapped in the
  tensor type of the runtime and stored as a new available future in slot \<open>i\<close>.
\<close>

fun move_outputs ::
  "(nat \<Rightarrow> tensor option) \<Rightarrow> nat list \<Rightarrow> addr option list \<Rightarrow> 'e host_heap
     \<Rightarrow> fault + (addr option list \<times> 'e host_heap)" where
  "move_outputs outs [] results h = Inr (results, h)"
| "move_outputs outs (i # is) results h =
     (case outs i of
        None \<Rightarrow> Inl (NullOutput i)
      | Some t \<Rightarrow>
          (let (a, h') = MakeAvailableAsyncValueRef (TensorValue (FallbackTensor t)) h
           in move_outputs outs is (results[i := Some a]) h'))"

definition KernelFallbackExecuteCompatSyncInternal ::
  "(status \<Rightarrow> 'e) \<Rightarrow> exec_ctx \<Rightarrow> op_kernel_runner \<Rightarrow> addr option \<Rightarrow> addr option list
     \<Rightarrow> 'e world \<Rightarrow> fault + (addr option \<times> addr option list \<times> 'e world)" where
  "KernelFallbackExecuteCompatSyncInternal conv exec kernel_runner op_chain results w =
     (let context0 = OpKernelContext (thread_run_state w) (length results);
          w1 = w\<lparr>invocations := invocations w @
                    [\<lparr>inv_kernel = kernel_name kernel_runner, inv_async = False,
                      inv_inputs = ctx_inputs context0\<rparr>]\<rparr>;
          context = kernel_runs kernel_runner context0
      in if \<not> ok (ctx_status context) then
           (let (op_chain', results', h') =
                  KernelFallbackEmitError conv exec (kernel_name kernel_runner) op_chain results
                    (ctx_status context) (heap w1)
            in Inr (op_chain', results', w1\<lparr>heap := h'\<rparr>))
         else
           (case move_outputs (ctx_outputs context) [0..<ctx_num_outputs context] results
                   (heap w1) of
              Inl f \<Rightarrow> Inl f
            | Inr (results', h') \<Rightarrow>
                (case op_chain of
                   None \<Rightarrow> Inr (None, results', w1\<lparr>heap := h'\<rparr>)
                 | Some _ \<Rightarrow>
                     (let (c, h'') = MakeAvailableAsyncValueRef ChainValue h'
                      in Inr (Some c, results', w1\<lparr>heap := h''\<rparr>)))))"

section \<open>Asynchronous execution\<close>

text \<open>
  The first loop of \<^verbatim>\<open>KernelFallbackExecuteCompatAsyncInternal\<close>: one unconstructed future
  per declared result, kept in \<open>result_refs\<close> and published in the result slot.
\<close>

fun alloc_result_refs ::
  "addr option list \<Rightarrow> 'e host_heap \<Rightarrow> addr list \<times> addr option list \<times> 'e host_heap" where
  "alloc_result_refs [] h = ([], [], h)"
| "alloc_result_refs (result # results) h =
     (let (a, h') = MakeUnconstructedAsyncValueRef h;
          (result_refs, results', h'') = alloc_result_refs results h'
      in (a # result_refs, Some a # results', h''))"

text \<open>
  The constructor of \<^verbatim>\<open>AsyncState\<close> followed by the assignments of its \<^verbatim>\<open>chain\<close> and
  \<^verbatim>\<open>result_refs\<close> members.
\<close>

definition AsyncState :: "run_state \<Rightarrow> nat \<Rightarrow> addr \<Rightarrow> addr list \<Rightarrow> fault + async_state" where
  "AsyncState rs n chain result_refs =
     (case OpKernelRunState_copy rs of
        Inl f \<Rightarrow> Inl f
      | Inr rs' \<Rightarrow>
          Inr \<lparr>as_run_state = rs', as_context = OpKernelContext rs' n,
               as_chain = chain, as_result_refs = result_refs\<rparr>)"

text \<open>
  The unit of work that the completion callback enqueues on success: it moves every output
  into its future and makes the chain available.
\<close>

fun emplace_outputs ::
  "(nat \<Rightarrow> tensor option) \<Rightarrow> nat list \<Rightarrow> addr list \<Rightarrow> 'e host_heap \<Rightarrow> fault + 'e host_heap" where
  "emplace_outputs outs [] refs h = Inr h"
| "emplace_outputs outs (i # is) refs h =
     (if \<not> i < length refs then Inl (ResultRefOutOfRange i)
      else case outs i of
             None \<Rightarrow> Inl (NullOutput i)
           | Some t \<Rightarrow>
               emplace_outputs outs is refs
                 (emplace (refs ! i) (TensorValue (FallbackTensor t)) h))"

definition enqueued_work :: "async_state \<Rightarrow> 'e host_heap \<Rightarrow> fault + 'e host_heap" where
  "enqueued_work st h =
     (let context = as_context st
      in case emplace_outputs (ctx_outputs context) [0..<ctx_num_outputs context]
                (as_result_refs st) h of
           Inl f \<Rightarrow> Inl f
         | Inr h' \<Rightarrow> Inr (emplace (as_chain st) ChainValue h'))"

text \<open>The completion callback \<^verbatim>\<open>done_callback\<close>, called once the context is completed.\<close>

definition done_callback :: "(status \<Rightarrow> 'e) \<Rightarrow> done_closure \<Rightarrow> 'e world \<Rightarrow> 'e world" where
  "done_callback conv cl w =
     (let async_state = cl_async_state cl;
          context = as_context async_state
      in if \<not> ok (ctx_status context) then
           (let diag = EmitError (cl_exec_ctx cl)
                         (''error running kernel fallback kernel '' @ ctx_op_kernel context
                            @ '': '' @ error_message (ctx_status context))
                         (conv (ctx_status context));
                h1 = fold (\<lambda>result h. SetError result diag h) (as_result_refs async_state)
                       (heap w)
            in w\<lparr>heap := SetError (as_chain async_state) diag h1\<rparr>)
         else w\<lparr>work_queue := work_queue w @ [async_state]\<rparr>)"

definition completed :: "op_kernel_runner \<Rightarrow> done_closure \<Rightarrow> done_closure" where
  "completed runner cl =
     cl\<lparr>cl_async_state :=
          (cl_async_state cl)\<lparr>as_context := kernel_runs runner (as_context (cl_async_state cl))\<rparr>\<rparr>"

text \<open>
  \<^verbatim>\<open>RunAsync\<close> of the runner: the call is recorded; the legacy kernel either completes and
  calls the callback before \<^verbatim>\<open>RunAsync\<close> returns, or keeps the callback.
\<close>

definition RunAsync ::
  "(status \<Rightarrow> 'e) \<Rightarrow> op_kernel_runner \<Rightarrow> done_closure \<Rightarrow> 'e world \<Rightarrow> 'e world" where
  "RunAsync conv runner cl w =
     (let w1 = w\<lparr>invocations := invocations w @
                    [\<lparr>inv_kernel = kernel_name runner, inv_async = True,
                      inv_inputs = ctx_inputs (as_context (cl_async_state cl))\<rparr>]\<rparr>
      in if completes_inline runner then done_callback conv (completed runner cl) w1
         else w1\<lparr>pending := pending w1 @ [(runner, cl)]\<rparr>)"

text \<open>
  The part of \<^verbatim>\<open>KernelFallbackExecuteCompatAsyncInternal\<close> before the call of \<^verbatim>\<open>RunAsync\<close>:
  the futures are allocated and published, and the shared state is built.
\<close>

definition async_publish ::
  "exec_ctx \<Rightarrow> addr option \<Rightarrow> addr option list \<Rightarrow> 'e world
     \<Rightarrow> fault + (addr option \<times> addr option list \<times> done_closure \<times> 'e world)" where
  "async_publish exec op_chain results w =
     (let (chain, h1) = MakeUnconstructedAsyncValueRef (heap w);
          op_chain' = (case op_chain of None \<Rightarrow> None | Some _ \<Rightarrow> Some chain);
          (result_refs, results', h2) = alloc_result_refs results h1
      in case AsyncState (thread_run_state w) (length results) chain result_refs of
           Inl f \<Rightarrow> Inl f
         | Inr async_state \<Rightarrow>
             Inr (op_chain', results',
                  \<lparr>cl_async_state = async_state, cl_exec_ctx = exec\<rparr>,
                  w\<lparr>heap := h2\<rparr>))"

definition KernelFallbackExecuteCompatAsyncInternal ::
  "(status \<Rightarrow> 'e) \<Rightarrow> exec_ctx \<Rightarrow> op_kernel_runner \<Rightarrow> addr option \<Rightarrow> addr option list
     \<Rightarrow> 'e world \<Rightarrow> fault + (addr option \<times> addr option list \<times> 'e world)" where
  "KernelFallbackExecuteCompatAsyncInternal conv exec kernel_runner op_chain results w =
     (case async_publish exec op_chain results w of
        Inl f \<Rightarrow> Inl f
      | Inr (op_chain', results', done_cb, w') \<Rightarrow>
          Inr (op_chain', results', RunAsync conv kernel_runner done_cb w'))"

text \<open>
  The two agents that act after the dispatch has returned: the legacy runtime completes the
  \<open>k\<close>-th callback it holds, and the owning runtime runs the first unit of work of its
  queue.
\<close>

definition legacy_completes :: "(status \<Rightarrow> 'e) \<Rightarrow> nat \<Rightarrow> 'e world \<Rightarrow> 'e world" where
  "legacy_completes conv k w =
     (if k < length (pending w) then
        (let (runner, cl) = pending w ! k
         in done_callback conv (completed runner cl)
              (w\<lparr>pending := take k (pending w) @ drop (Suc k) (pending w)\<rparr>))
      else w)"

definition run_next_work :: "'e world \<Rightarrow> fault + 'e world" where
  "run_next_work w =
     (case work_queue w of
        [] \<Rightarrow> Inr w
      | st # rest \<Rightarrow>
          (case enqueued_work st (heap w) of
             Inl f \<Rightarrow> Inl f
           | Inr h' \<Rightarrow> Inr (w\<lparr>heap := h', work_queue := rest\<rparr>)))"

section \<open>Dispatch from the core runtime\<close>

text \<open>
  The cleanup object \<^verbatim>\<open>clean_up_inputs\<close> clears the owned tensor copies of the thread-local
  run state when its scope is left; \<open>with_cleanup\<close> applies it to the world a returning
  path leaves.
\<close>

definition clean_up_inputs :: "'e world \<Rightarrow> 'e world" where
  "clean_up_inputs w = w\<lparr>thread_run_state := (thread_run_state w)\<lparr>input_tf_tensors := []\<rparr>\<rparr>"

definition with_cleanup ::
  "fault + (addr option \<times> addr option list \<times> 'e world)
     \<Rightarrow> fault + (addr option \<times> addr option list \<times> 'e world)" where
  "with_cleanup r =
     (case r of
        Inl f \<Rightarrow> Inl f
      | Inr (op_chain, results, w) \<Rightarrow> Inr (op_chain, results, clean_up_inputs w))"

text \<open>The rebinding loop: handle \<open>i\<close> points to owned tensor \<open>i\<close>.\<close>

definition rebind_values :: "nat \<Rightarrow> tensor_ptr list \<Rightarrow> tensor_ptr list" where
  "rebind_values n vs = fold (\<lambda>i vs. vs[i := OwnedInput i]) [0..<n] vs"

text \<open>
  \<^verbatim>\<open>KernelFallbackExecuteCompatCoreRuntimeDispatch\<close>.  The runner cache
  (\<^verbatim>\<open>OpKernelRunnerCache::GetOrCreate\<close>) is not part of the sources and is the parameter
  \<open>get_or_create\<close>, which gives a runner or a failure status.  \<^verbatim>\<open>GetReadyChain\<close> gives a
  reference to an available chain.  The function returns the content of its local
  \<^verbatim>\<open>op_chain\<close>, the result slots and the world.  The early returns before
  \<^verbatim>\<open>clean_up_inputs\<close> is declared are outside \<open>with_cleanup\<close>; everything after it is
  inside.
\<close>

definition KernelFallbackExecuteCompatCoreRuntimeDispatch ::
  "(status \<Rightarrow> 'e) \<Rightarrow> ('t \<Rightarrow> string + tensor) \<Rightarrow> (data_type \<Rightarrow> string)
     \<Rightarrow> (string \<Rightarrow> string \<Rightarrow> string \<Rightarrow> nat \<Rightarrow> 'attrs \<Rightarrow> status + op_kernel_runner)
     \<Rightarrow> exec_ctx \<Rightarrow> string \<Rightarrow> string \<Rightarrow> 't list \<Rightarrow> addr option list \<Rightarrow> 'attrs
     \<Rightarrow> 'e world \<Rightarrow> fault + (addr option \<times> addr option list \<times> 'e world)" where
  "KernelFallbackExecuteCompatCoreRuntimeDispatch conv to_tf dts get_or_create
       exec op_name device_name arguments results attrs w =
     (let (ready, h0) = MakeAvailableAsyncValueRef ChainValue (heap w);
          w0 = w\<lparr>heap := h0\<rparr>;
          op_chain = Some ready;
          emit = (\<lambda>st w'.
                    let (op_chain', results', h') =
                          KernelFallbackEmitError conv exec op_name op_chain results st (heap w')
                    in Inr (op_chain', results', w'\<lparr>heap := h'\<rparr>))
      in case fallback_request_state exec of
           None \<Rightarrow>
             emit (NotFound ''KernelFallbackCompatRequestState not found in RequestContext.'') w0
         | Some frs \<Rightarrow>
             (case get_or_create (location exec) op_name device_name (length arguments) attrs of
                Inl st \<Rightarrow> emit st w0
              | Inr kernel_runner \<Rightarrow>
                  (case ConvertInputTensors to_tf arguments of
                     Inl err \<Rightarrow> emit (Internal err) w0
                   | Inr converted \<Rightarrow>
                       with_cleanup
                         (let rs1 = (thread_run_state w0)\<lparr>input_tf_tensors := converted\<rparr>;
                              w1 = w0\<lparr>thread_run_state := rs1\<rparr>;
                              st = ValidateInputTypes dts op_name (input_tf_tensors rs1)
                                     (input_types kernel_runner)
                          in if \<not> ok st \<and> op_name \<noteq> ''_BatchFunctionFallback'' then emit st w1
                             else
                               (let n = length (input_tf_tensors rs1);
                                    rs2 = rs1\<lparr>input_tf_tensor_values :=
                                                rebind_values n
                                                  (resize_values n (input_tf_tensor_values rs1))\<rparr>;
                                    w2 = w1\<lparr>thread_run_state := SetUpParams kernel_runner frs rs2\<rparr>
                                in if IsAsync kernel_runner then
                                     KernelFallbackExecuteCompatAsyncInternal conv exec
                                       kernel_runner op_chain results w2
                                   else
                                     KernelFallbackExecuteCompatSyncInternal conv exec
                                       kernel_runner op_chain results w2)))))"

section \<open>The runner table and the kernel that executes an op by key\<close>

text \<open>
  Modelled from the spec: \<^verbatim>\<open>OpKernelRunnerTable\<close> is not part of the sources.
  "\<^verbatim>\<open>Insert(key, runner)\<close> returns failure (false) if \<^verbatim>\<open>key\<close> already present; otherwise
  stores and returns success.  \<^verbatim>\<open>Get(key)\<close> returns the runner or a null/absent indicator
  if not present."  The key is a 64-bit integer.
\<close>

type_synonym runner_table = "64 word \<rightharpoonup> op_kernel_runner"

definition OpKernelRunnerTable_Insert ::
  "64 word \<Rightarrow> op_kernel_runner \<Rightarrow> runner_table \<Rightarrow> bool \<times> runner_table" where
  "OpKernelRunnerTable_Insert key runner tbl =
     (case tbl key of
        Some _ \<Rightarrow> (False, tbl)
      | None \<Rightarrow> (True, tbl(key \<mapsto> runner)))"

definition OpKernelRunnerTable_Get :: "64 word \<Rightarrow> runner_table \<Rightarrow> op_kernel_runner option" where
  "OpKernelRunnerTable_Get key tbl = tbl key"

text \<open>\<^verbatim>\<open>StripTfPrefix\<close>: \<^verbatim>\<open>absl::StripPrefix\<close> with the prefix \<^verbatim>\<open>tf.\<close>\<close>

definition StripTfPrefix :: "string \<Rightarrow> string" where
  "StripTfPrefix op_name = (if take 3 op_name = ''tf.'' then drop 3 op_name else op_name)"

text \<open>
  \<^verbatim>\<open>FallbackKernelAttributeFrame\<close>, and an argument of the kernel: the future that holds
  the tensor and whether the reference to it is unique.
\<close>

record attribute_frame =
  frame_device :: string
  frame_op_key :: "64 word"
  frame_op_name :: string

record kernel_arg =
  arg_value :: addr
  IsUnique :: bool

definition get_FallbackTensor :: "'e host_heap \<Rightarrow> addr \<Rightarrow> fallback_tensor option" where
  "get_FallbackTensor h a =
     (if a < length h then
        (case h ! a of Concrete (TensorValue ft) \<Rightarrow> Some ft | _ \<Rightarrow> None)
      else None)"

text \<open>The input loop of \<^verbatim>\<open>KernelFallbackExecuteOp\<close>, from index \<open>i\<close> on.\<close>

fun prepare_inputs ::
  "'e host_heap \<Rightarrow> kernel_arg list \<Rightarrow> nat \<Rightarrow> run_state \<Rightarrow> fault + run_state" where
  "prepare_inputs h [] i rs = Inr rs"
| "prepare_inputs h (arg # args) i rs =
     (case get_FallbackTensor h (arg_value arg) of
        None \<Rightarrow> Inl (ArgumentNotAvailable i)
      | Some fallback_tensor \<Rightarrow>
          (let rs1 = (if \<not> is_immutable fallback_tensor \<and> \<not> IsUnique arg
                      then rs\<lparr>input_tf_tensors :=
                                input_tf_tensors rs @ [ft_tensor fallback_tensor]\<rparr>
                      else rs);
               rs2 = rs1\<lparr>input_tf_tensor_values :=
                           (input_tf_tensor_values rs1)[i := ArgTensor (ft_tensor fallback_tensor)]\<rparr>
           in prepare_inputs h args (Suc i) rs2))"

text \<open>
  \<^verbatim>\<open>KernelFallbackExecuteOp\<close>.  The table is the one the request state points to; a key
  without a runner gives a null runner, whose use is a fault.  Tracing and logging have no
  effect on the state kept here.
\<close>

definition KernelFallbackExecuteOp ::
  "(status \<Rightarrow> 'e) \<Rightarrow> runner_table \<Rightarrow> kernel_arg list \<Rightarrow> addr option list \<Rightarrow> addr option
     \<Rightarrow> attribute_frame \<Rightarrow> exec_ctx \<Rightarrow> 'e world
     \<Rightarrow> fault + (addr option \<times> addr option list \<times> 'e world)" where
  "KernelFallbackExecuteOp conv tbl args results op_chain frame exec w =
     (case fallback_request_state exec of
        None \<Rightarrow>
          (let (op_chain', results', h') =
                 KernelFallbackEmitError conv exec (frame_op_name frame) op_chain results
                   (NotFound ''KernelFallbackCompatRequestState not found in RequestContext.'')
                   (heap w)
           in Inr (op_chain', results', w\<lparr>heap := h'\<rparr>))
      | Some frs \<Rightarrow>
          (case OpKernelRunnerTable_Get (frame_op_key frame) tbl of
             None \<Rightarrow> Inl MissingRunner
           | Some kernel_runner \<Rightarrow>
               with_cleanup
                 (let rs0 = thread_run_state w;
                      rs1 = rs0\<lparr>input_tf_tensor_values :=
                                  resize_values (length args) (input_tf_tensor_values rs0)\<rparr>
                  in case prepare_inputs (heap w) args 0 rs1 of
                       Inl f \<Rightarrow> Inl f
                     | Inr rs2 \<Rightarrow>
                         (let w1 = w\<lparr>thread_run_state := SetUpParams kernel_runner frs rs2\<rparr>
                          in if IsAsync kernel_runner then
                               KernelFallbackExecuteCompatAsyncInternal conv exec
                                 kernel_runner op_chain results w1
                             else
                               KernelFallbackExecuteCompatSyncInternal conv exec
                                 kernel_runner op_chain results w1))))"

text \<open>
  \<^verbatim>\<open>KernelFallbackCreateOp\<close>.  An \<^verbatim>\<open>llvm::Error\<close> is built from a string or from a status.
  The factory \<^verbatim>\<open>OpKernelRunner::Create\<close> is not part of the sources and is the parameter
  \<open>create\<close>, which receives the stripped op name, the device, the argument count, the two
  attribute arrays of the attribute builder and the request state.
\<close>

datatype llvm_error = StringError string | StatusError status

definition KernelFallbackCreateOp ::
  "(string \<Rightarrow> string \<Rightarrow> 64 word \<Rightarrow> 'attrs \<Rightarrow> 'attrs \<Rightarrow> request_state
       \<Rightarrow> status + op_kernel_runner)
     \<Rightarrow> string \<Rightarrow> 64 word \<Rightarrow> 'attrs \<Rightarrow> 'attrs \<Rightarrow> 64 word \<Rightarrow> string \<Rightarrow> exec_ctx
     \<Rightarrow> runner_table \<Rightarrow> (llvm_error + unit) \<times> runner_table" where
  "KernelFallbackCreateOp create device num_args op_attr_array op_func_attr_array
       op_key op_name_attr exec tbl =
     (case fallback_request_state exec of
        None \<Rightarrow>
          (Inl (StringError ''KernelFallbackCompatRequestState not found in RequestContext.''),
           tbl)
      | Some frs \<Rightarrow>
          (let op_name = StripTfPrefix op_name_attr
           in case create op_name device num_args op_attr_array op_func_attr_array frs of
                Inl st \<Rightarrow> (Inl (StatusError st), tbl)
              | Inr runner \<Rightarrow>
                  (let (inserted, tbl') = OpKernelRunnerTable_Insert op_key runner tbl
                   in if \<not> inserted then
                        (Inl (StringError
                                (''KernelFallbackCreateOp: OpKernelRunner already exists: ''
                                   @ op_name_attr)),
                         tbl')
                      else (Inr (), tbl'))))"

section \<open>The resource array\<close>

text \<open>
  Modelled from the spec: \<^verbatim>\<open>FallbackResourceArray\<close> and \<^verbatim>\<open>ImmutableTensor\<close> are not part
  of the sources.  "\<^verbatim>\<open>SetResource(index, tensor)\<close> stores an immutable wrapper of the given
  tensor at \<^verbatim>\<open>index\<close>, overwriting any previous value"; "\<^verbatim>\<open>GetResource(index)\<close> returns
  the stored value; accessing an unset index is a contract violation".  The array is an
  "ordered-by-index mapping from small integer index to an immutable tensor wrapper"; the
  stored value is handed out as a future, so an entry is the address of an available
  future that holds the wrapper.
\<close>

type_synonym resource_array = "64 word \<rightharpoonup> addr"

definition ImmutableTensor_Create :: "tensor \<Rightarrow> fallback_tensor" where
  "ImmutableTensor_Create t = \<lparr>ft_tensor = t, is_immutable = True\<rparr>"

definition SetResource ::
  "64 word \<Rightarrow> fallback_tensor \<Rightarrow> 'e host_heap \<times> resource_array
     \<Rightarrow> 'e host_heap \<times> resource_array" where
  "SetResource index t s =
     (let (a, h') = MakeAvailableAsyncValueRef (TensorValue t) (fst s)
      in (h', (snd s)(index \<mapsto> a)))"

definition GetResource :: "64 word \<Rightarrow> resource_array \<Rightarrow> addr option" where
  "GetResource index arr = arr index"

text \<open>\<^verbatim>\<open>FallbackSetResource\<close>; \<open>arg\<close> is the tensor the argument future holds.\<close>

definition FallbackSetResource ::
  "fallback_tensor \<Rightarrow> 64 word \<Rightarrow> exec_ctx \<Rightarrow> 'e host_heap \<times> resource_array
     \<Rightarrow> (llvm_error + unit) \<times> 'e host_heap \<times> resource_array" where
  "FallbackSetResource arg index_attr exec s =
     (case fallback_request_state exec of
        None \<Rightarrow>
          (Inl (StringError ''KernelFallbackCompatRequestState not found in RequestContext.''), s)
      | Some frs \<Rightarrow>
          (Inr (), SetResource index_attr (ImmutableTensor_Create (ft_tensor arg)) s))"

text \<open>
  \<^verbatim>\<open>FallbackGetResource\<close>.  The loop writes result \<open>i\<close> for index \<open>i\<close> of the attribute; the
  two-argument \<^verbatim>\<open>EmitErrorAsync\<close> uses the default classification of the runtime, the
  parameter \<open>unknown\<close>.  The function returns the output chain, the results and the store.
\<close>

fun get_resources ::
  "resource_array \<Rightarrow> 64 word list \<Rightarrow> nat \<Rightarrow> addr option list \<Rightarrow> fault + addr option list" where
  "get_resources arr [] i results = Inr results"
| "get_resources arr (index # indices) i results =
     (case GetResource index arr of
        None \<Rightarrow> Inl UnsetResource
      | Some a \<Rightarrow>
          if i < length results then get_resources arr indices (Suc i) (results[i := Some a])
          else Inl (ResultRefOutOfRange i))"

definition FallbackGetResource ::
  "'e \<Rightarrow> addr \<Rightarrow> addr option list \<Rightarrow> 64 word list \<Rightarrow> exec_ctx \<Rightarrow> 'e host_heap \<times> resource_array
     \<Rightarrow> fault + (addr \<times> addr option list \<times> 'e host_heap)" where
  "FallbackGetResource unknown in_ch results indices_attr exec s =
     (case fallback_request_state exec of
        None \<Rightarrow>
          (let (error, h') =
                 EmitErrorAsync exec
                   ''KernelFallbackCompatRequestState not found in RequestContext.'' unknown
                   (fst s)
           in Inr (error, results, h'))
      | Some frs \<Rightarrow>
          (case get_resources (snd s) indices_attr 0 results of
             Inl f \<Rightarrow> Inl f
           | Inr results' \<Rightarrow> Inr (in_ch, results', fst s)))"

section \<open>Notation for the statements\<close>

text \<open>
  The error value that error translation builds for an op name and a status, written once
  for the statements below.
\<close>

abbreviation fallback_diagnostic ::
  "(status \<Rightarrow> 'e) \<Rightarrow> exec_ctx \<Rightarrow> string \<Rightarrow> status \<Rightarrow> 'e decoded_diagnostic" where
  "fallback_diagnostic conv exec op_name st \<equiv>
     \<lparr>diag_location = location exec,
      diag_message = ''error running kernel fallback kernel '' @ op_name @ '': ''
                       @ error_message st,
      diag_code = conv st\<rparr>"

section \<open>Properties\<close>

subsection \<open>Error translation\<close>

text \<open>
  Claim C1.  \<^verbatim>\<open>KernelFallbackEmitError\<close> allocates exactly one error value; its message is
  the fixed prefix, the op name, a colon and the message of the status, and its
  classification is the translated code of the status.  Every result slot holds a
  reference to that one value, and so does the completion-token slot when there is one;
  every observer of a slot sees the same error.  The store is otherwise unchanged.
\<close>

theorem KernelFallbackEmitError_one_error_everywhere:
  "(let d = \<lparr>diag_location = location exec,
              diag_message = ''error running kernel fallback kernel '' @ op_name @ '': ''
                               @ error_message st,
              diag_code = conv st\<rparr>
    in case KernelFallbackEmitError conv exec op_name op_chain results st h of
         (op_chain', results', h') \<Rightarrow>
           h' = h @ [Error d]
         \<and> results' = replicate (length results) (Some (length h))
         \<and> op_chain' = map_option (\<lambda>_. length h) op_chain
         \<and> map (observe h') results' = replicate (length results) (Some (Error d))
         \<and> observe h' op_chain' = map_option (\<lambda>_. Error d) op_chain)"
  by (cases op_chain)
     (simp_all add: KernelFallbackEmitError_def EmitErrorAsync_def EmitError_def alloc_av_def
        Let_def map_replicate_const observe_def)

theorem KernelFallbackEmitError_one_error_everywhere_witness:
  "(case KernelFallbackEmitError code \<lparr>location = ''loc'', fallback_request_state = None\<rparr>
           ''Add'' (Some 0) [None, None] (Internal ''boom'') [Concrete ChainValue] of
      (op_chain', results', h') \<Rightarrow>
        op_chain' = Some 1 \<and> results' = [Some 1, Some 1]
      \<and> h' = [Concrete ChainValue,
               Error \<lparr>diag_location = ''loc'',
                      diag_message = ''error running kernel fallback kernel Add: boom'',
                      diag_code = INTERNAL\<rparr>]
      \<and> map (observe h') results'
          = [Some (Error \<lparr>diag_location = ''loc'',
                           diag_message = ''error running kernel fallback kernel Add: boom'',
                           diag_code = INTERNAL\<rparr>),
             Some (Error \<lparr>diag_location = ''loc'',
                           diag_message = ''error running kernel fallback kernel Add: boom'',
                           diag_code = INTERNAL\<rparr>)])"
  using KernelFallbackEmitError_one_error_everywhere
          [where conv = code and exec = "\<lparr>location = ''loc'', fallback_request_state = None\<rparr>"
             and op_name = "''Add''" and st = "Internal ''boom''" and op_chain = "Some 0"
             and results = "[None, None]" and h = "[Concrete ChainValue]"]
  by (simp add: Internal_def Let_def split: prod.splits)

subsection \<open>Lists of futures and index loops\<close>

lemma those_map_Some: "those (map Some xs) = Some xs"
  by (induction xs) simp_all

lemma length_fold_update:
  "length (fold (\<lambda>i vs. vs[g i := f i]) is vs) = length vs"
  by (induction "is" arbitrary: vs) simp_all

lemma nth_update_beyond: "\<not> j < length h \<Longrightarrow> h[a := v] ! j = h ! j"
  by (cases "a = j") (simp_all add: list_update_beyond)

lemma nth_fold_update_offset:
  "distinct is \<Longrightarrow>
   (fold (\<lambda>i h. h[m + i := f i]) is h) ! j =
     (if m \<le> j \<and> j - m \<in> set is \<and> j < length h then f (j - m) else h ! j)"
proof (induction "is" arbitrary: h)
  case Nil
  then show ?case by simp
next
  case (Cons i "is")
  then have IH: "\<And>h. (fold (\<lambda>i h. h[m + i := f i]) is h) ! j =
     (if m \<le> j \<and> j - m \<in> set is \<and> j < length h then f (j - m) else h ! j)"
    by simp
  from Cons.prems have "i \<notin> set is" by simp
  then show ?case
    by (auto simp: IH nth_list_update nth_update_beyond)
qed

lemma rebind_resize:
  "rebind_values n (resize_values n vs) = map OwnedInput [0..<n]"
proof (rule nth_equalityI)
  show "length (rebind_values n (resize_values n vs)) = length (map OwnedInput [0..<n])"
    by (simp add: rebind_values_def resize_values_def length_fold_update)
next
  fix j assume "j < length (rebind_values n (resize_values n vs))"
  then have j: "j < n"
    by (simp add: rebind_values_def resize_values_def length_fold_update)
  have "(fold (\<lambda>i vs. vs[0 + i := OwnedInput i]) [0..<n] (resize_values n vs)) ! j = OwnedInput j"
    using j by (subst nth_fold_update_offset) (simp_all add: resize_values_def min_def)
  then show "rebind_values n (resize_values n vs) ! j = map OwnedInput [0..<n] ! j"
    using j by (simp add: rebind_values_def)
qed

lemma deref_owned:
  "input_tf_tensors rs = ts \<Longrightarrow>
   map (deref rs) (map OwnedInput [0..<length ts]) = map Some ts"
  by (rule nth_equalityI) (simp_all add: deref_def)

lemma upt_head: "[a..<a + Suc n] = a # [Suc a..<Suc a + n]"
  by (simp add: upt_rec)

lemma alloc_result_refs_eq:
  "alloc_result_refs results h =
     ([length h..<length h + length results],
      map Some [length h..<length h + length results],
      h @ replicate (length results) Unconstructed)"
proof (induction results arbitrary: h)
  case Nil
  then show ?case by simp
next
  case (Cons r results)
  have "[length h..<length h + length (r # results)]
          = length h # [Suc (length h)..<Suc (length h) + length results]"
    using upt_head [of "length h" "length results"] by simp
  then show ?case
    by (simp add: Cons.IH MakeUnconstructedAsyncValueRef_def alloc_av_def
        replicate_append_same del: upt_Suc)
qed

lemma move_outputs_upt:
  "length results = i + k \<Longrightarrow> map outs [i..<i + k] = map Some ts \<Longrightarrow>
   move_outputs outs [i..<i + k] results h =
     Inr (take i results @ map Some [length h..<length h + k],
          h @ map (\<lambda>t. Concrete (TensorValue (FallbackTensor t))) ts)"
proof (induction k arbitrary: i results h ts)
  case 0
  then show ?case by simp
next
  case (Suc k)
  have upt: "[i..<i + Suc k] = i # [Suc i..<Suc i + k]" by (rule upt_head)
  from Suc.prems(2) obtain t ts' where
    ts: "ts = t # ts'" and oi: "outs i = Some t"
    and rest: "map outs [Suc i..<Suc i + k] = map Some ts'"
    unfolding upt by (cases ts) auto
  let ?c = "Concrete (TensorValue (FallbackTensor t))"
  have len: "length (results[i := Some (length h)]) = Suc i + k" using Suc.prems(1) by simp
  have IH: "move_outputs outs [Suc i..<Suc i + k] (results[i := Some (length h)]) (h @ [?c]) =
     Inr (take (Suc i) (results[i := Some (length h)])
            @ map Some [Suc (length h)..<Suc (length h) + k],
          (h @ [?c]) @ map (\<lambda>t. Concrete (TensorValue (FallbackTensor t))) ts')"
    using Suc.IH [OF len rest, of "h @ [?c]"] by simp
  have tk: "take (Suc i) (results[i := Some (length h)]) = take i results @ [Some (length h)]"
    using Suc.prems(1) by (simp add: take_Suc_conv_app_nth)
  have step: "move_outputs outs (i # [Suc i..<Suc i + k]) results h
              = move_outputs outs [Suc i..<Suc i + k] (results[i := Some (length h)]) (h @ [?c])"
    by (simp add: oi MakeAvailableAsyncValueRef_def alloc_av_def)
  show ?case
    unfolding upt step IH tk upt_head [of "length h" k] ts by simp
qed

lemma emplace_outputs_upt:
  "map outs [i..<i + k] = map Some ts \<Longrightarrow> i + k \<le> length refs \<Longrightarrow>
   map ((!) refs) [i..<i + k] = [m..<m + k] \<Longrightarrow>
   length pre = m \<Longrightarrow> length mid = k \<Longrightarrow>
   emplace_outputs outs [i..<i + k] refs (pre @ mid @ post) =
     Inr (pre @ map (\<lambda>t. Concrete (TensorValue (FallbackTensor t))) ts @ post)"
proof (induction k arbitrary: i m pre mid ts)
  case 0
  then show ?case by simp
next
  case (Suc k)
  have upt: "[i..<i + Suc k] = i # [Suc i..<Suc i + k]" by (rule upt_head)
  from Suc.prems(1) obtain t ts' where
    ts: "ts = t # ts'" and oi: "outs i = Some t"
    and rest: "map outs [Suc i..<Suc i + k] = map Some ts'"
    unfolding upt by (cases ts) auto
  let ?c = "Concrete (TensorValue (FallbackTensor t))"
  from Suc.prems(5) obtain x mid' where mid: "mid = x # mid'" and lm: "length mid' = k"
    by (cases mid) auto
  from Suc.prems(3) have ri: "refs ! i = m"
    and refs': "map ((!) refs) [Suc i..<Suc i + k] = [Suc m..<Suc m + k]"
    unfolding upt upt_head [of m k] by simp_all
  have il: "i < length refs" and le': "Suc i + k \<le> length refs" using Suc.prems(2) by simp_all
  have upd: "(pre @ mid @ post)[m := ?c] = (pre @ [?c]) @ mid' @ post"
    using Suc.prems(4) by (simp add: mid list_update_append)
  have IH: "emplace_outputs outs [Suc i..<Suc i + k] refs ((pre @ [?c]) @ mid' @ post) =
     Inr ((pre @ [?c]) @ map (\<lambda>t. Concrete (TensorValue (FallbackTensor t))) ts' @ post)"
    using Suc.IH [OF rest le' refs' _ lm, of "pre @ [?c]"] Suc.prems(4) by simp
  have step: "emplace_outputs outs (i # [Suc i..<Suc i + k]) refs (pre @ mid @ post)
              = emplace_outputs outs [Suc i..<Suc i + k] refs ((pre @ [?c]) @ mid' @ post)"
    by (simp only: emplace_outputs.simps il oi emplace_def ri upd not_True_eq_False if_False
        option.case)
  show ?case
    unfolding upt step IH ts by simp
qed

lemma fold_SetError_block:
  "length pre = m \<Longrightarrow> length mid = n \<Longrightarrow>
   fold (\<lambda>a h. SetError a d h) [m..<m + n] (pre @ mid @ post)
     = pre @ replicate n (Error d) @ post"
proof (induction n arbitrary: m pre mid)
  case 0
  then show ?case by simp
next
  case (Suc n)
  from Suc.prems(2) obtain x mid' where mid: "mid = x # mid'" and lm: "length mid' = n"
    by (cases mid) auto
  have IH: "fold (\<lambda>a h. SetError a d h) [Suc m..<Suc m + n] ((pre @ [Error d]) @ mid' @ post)
              = (pre @ [Error d]) @ replicate n (Error d) @ post"
    using Suc.IH [of "pre @ [Error d]" "Suc m" mid'] Suc.prems(1) lm by simp
  have upd: "SetError m d (pre @ mid @ post) = (pre @ [Error d]) @ mid' @ post"
    using Suc.prems(1) by (simp add: SetError_def mid list_update_append)
  have step: "fold (\<lambda>a h. SetError a d h) (m # [Suc m..<Suc m + n]) (pre @ mid @ post)
              = fold (\<lambda>a h. SetError a d h) [Suc m..<Suc m + n] ((pre @ [Error d]) @ mid' @ post)"
    by (simp only: fold_simps upd)
  show ?case
    unfolding upt_head step IH by (simp add: replicate_append_same)
qed

subsection \<open>The synchronous path\<close>

lemma observe_block:
  "length mid = n \<Longrightarrow>
   map (observe (pre @ mid @ post)) (map Some [length pre..<length pre + n]) = map Some mid"
  by (rule nth_equalityI) (simp_all add: observe_def nth_append)

lemma sync_failure:
  assumes "\<not> ok (out_status (compute kernel_runner
             (map (deref (thread_run_state w)) (input_tf_tensor_values (thread_run_state w)))))"
  shows "KernelFallbackExecuteCompatSyncInternal conv exec kernel_runner op_chain results w =
     (let ins = map (deref (thread_run_state w)) (input_tf_tensor_values (thread_run_state w));
          st = out_status (compute kernel_runner ins);
          d = \<lparr>diag_location = location exec,
               diag_message = ''error running kernel fallback kernel '' @ kernel_name kernel_runner
                                @ '': '' @ error_message st,
               diag_code = conv st\<rparr>
      in Inr (map_option (\<lambda>_. length (heap w)) op_chain,
              replicate (length results) (Some (length (heap w))),
              w\<lparr>invocations := invocations w @
                    [\<lparr>inv_kernel = kernel_name kernel_runner, inv_async = False,
                      inv_inputs = ins\<rparr>],
                heap := heap w @ [Error d]\<rparr>))"
  using assms
  by (cases op_chain)
     (simp_all add: KernelFallbackExecuteCompatSyncInternal_def OpKernelContext_def
        kernel_runs_def Let_def KernelFallbackEmitError_def EmitErrorAsync_def EmitError_def
        alloc_av_def map_replicate_const)

lemma sync_success:
  assumes "ok (out_status (compute kernel_runner
             (map (deref (thread_run_state w)) (input_tf_tensor_values (thread_run_state w)))))"
    and "map (out_tensors (compute kernel_runner
             (map (deref (thread_run_state w)) (input_tf_tensor_values (thread_run_state w)))))
           [0..<length results] = map Some produced"
  shows "KernelFallbackExecuteCompatSyncInternal conv exec kernel_runner op_chain results w =
     (let ins = map (deref (thread_run_state w)) (input_tf_tensor_values (thread_run_state w));
          n = length results;
          a = length (heap w)
      in Inr (map_option (\<lambda>_. a + n) op_chain,
              map Some [a..<a + n],
              w\<lparr>invocations := invocations w @
                    [\<lparr>inv_kernel = kernel_name kernel_runner, inv_async = False,
                      inv_inputs = ins\<rparr>],
                heap := heap w @ map (\<lambda>t. Concrete (TensorValue (FallbackTensor t))) produced
                          @ (case op_chain of None \<Rightarrow> [] | Some _ \<Rightarrow> [Concrete ChainValue])\<rparr>))"
proof -
  let ?ins = "map (deref (thread_run_state w)) (input_tf_tensor_values (thread_run_state w))"
  have len: "length produced = length results"
    using arg_cong [OF assms(2), of length] by simp
  have mv: "move_outputs (out_tensors (compute kernel_runner ?ins)) [0..<length results] results (heap w)
        = Inr (map Some [length (heap w)..<length (heap w) + length results],
               heap w @ map (\<lambda>t. Concrete (TensorValue (FallbackTensor t))) produced)"
    using move_outputs_upt [of results 0 "length results"
            "out_tensors (compute kernel_runner ?ins)" produced "heap w"] assms(2)
    by simp
  show ?thesis
    using assms(1)
    by (cases op_chain)
       (simp_all add: KernelFallbackExecuteCompatSyncInternal_def OpKernelContext_def
          kernel_runs_def Let_def mv MakeAvailableAsyncValueRef_def alloc_av_def len)
qed

text \<open>
  Claim C3.  The synchronous path calls the runner once.  If the status the kernel left in
  the context is a failure, the result is exactly what error translation gives: one error
  value, a reference to it in every output slot and in the completion-token slot, and
  nothing else is done.  If the status is success and the kernel produced every declared
  output, slot \<open>i\<close> holds a new future that is available with output \<open>i\<close>, and the
  completion-token slot (when there is one) holds a new available chain.
\<close>

theorem KernelFallbackExecuteCompatSyncInternal_all_or_error:
  "(let ins = map (deref (thread_run_state w)) (input_tf_tensor_values (thread_run_state w));
        out = compute kernel_runner ins;
        n = length results;
        a = length (heap w);
        w1 = w\<lparr>invocations := invocations w @
                  [\<lparr>inv_kernel = kernel_name kernel_runner, inv_async = False,
                    inv_inputs = ins\<rparr>]\<rparr>;
        d = \<lparr>diag_location = location exec,
             diag_message = ''error running kernel fallback kernel '' @ kernel_name kernel_runner
                              @ '': '' @ error_message (out_status out),
             diag_code = conv (out_status out)\<rparr>;
        h_ok = heap w @ map (\<lambda>t. Concrete (TensorValue (FallbackTensor t))) produced
                 @ (case op_chain of None \<Rightarrow> [] | Some _ \<Rightarrow> [Concrete ChainValue])
    in (\<not> ok (out_status out) \<longrightarrow>
          KernelFallbackExecuteCompatSyncInternal conv exec kernel_runner op_chain results w
            = Inr (map_option (\<lambda>_. a) op_chain, replicate n (Some a),
                   w1\<lparr>heap := heap w @ [Error d]\<rparr>)
        \<and> map (observe (heap w @ [Error d])) (replicate n (Some a))
            = replicate n (Some (Error d))
        \<and> observe (heap w @ [Error d]) (map_option (\<lambda>_. a) op_chain)
            = map_option (\<lambda>_. Error d) op_chain)
     \<and> (ok (out_status out) \<and> map (out_tensors out) [0..<n] = map Some produced \<longrightarrow>
          KernelFallbackExecuteCompatSyncInternal conv exec kernel_runner op_chain results w
            = Inr (map_option (\<lambda>_. a + n) op_chain, map Some [a..<a + n], w1\<lparr>heap := h_ok\<rparr>)
        \<and> map (observe h_ok) (map Some [a..<a + n])
            = map (\<lambda>t. Some (Concrete (TensorValue (FallbackTensor t)))) produced
        \<and> observe h_ok (map_option (\<lambda>_. a + n) op_chain)
            = map_option (\<lambda>_. Concrete ChainValue) op_chain))"
proof -
  let ?ins = "map (deref (thread_run_state w)) (input_tf_tensor_values (thread_run_state w))"
  let ?out = "compute kernel_runner ?ins"
  let ?n = "length results"
  let ?a = "length (heap w)"
  let ?C = "\<lambda>t. Concrete (TensorValue (FallbackTensor t))"
  let ?tail = "case op_chain of None \<Rightarrow> [] | Some _ \<Rightarrow> [Concrete ChainValue]"
  have fail: "\<not> ok (out_status ?out) \<Longrightarrow> ?thesis"
    using sync_failure [of kernel_runner w conv exec op_chain results]
    by (cases op_chain) (simp_all add: Let_def observe_def)
  have succ: "ok (out_status ?out) \<Longrightarrow> map (out_tensors ?out) [0..<?n] \<noteq> map Some produced
              \<Longrightarrow> ?thesis"
    by (simp add: Let_def)
  have succ': ?thesis
    if okk: "ok (out_status ?out)" and pr: "map (out_tensors ?out) [0..<?n] = map Some produced"
  proof -
    have len: "length (map ?C produced) = ?n"
      using arg_cong [OF pr, of length] by simp
    have obs: "map (observe (heap w @ map ?C produced @ ?tail)) (map Some [?a..<?a + ?n])
               = map Some (map ?C produced)"
      by (rule observe_block) (rule len)
    have obs_chain: "observe (heap w @ map ?C produced @ ?tail) (map_option (\<lambda>_. ?a + ?n) op_chain)
               = map_option (\<lambda>_. Concrete ChainValue) op_chain"
      using len by (cases op_chain) (simp_all add: observe_def nth_append)
    show ?thesis
      using okk pr sync_success [OF okk pr, of conv exec op_chain] obs obs_chain
      by (simp add: Let_def comp_def del: upt_Suc)
  qed
  show ?thesis
    using fail succ succ' by blast
qed

theorem KernelFallbackExecuteCompatSyncInternal_all_or_error_witness:
  "KernelFallbackExecuteCompatSyncInternal code
       \<lparr>location = ''loc'', fallback_request_state = None\<rparr>
       \<lparr>kernel_name = ''Add'', input_types = [3, 3], num_outputs = 1, runner_device = ''cpu'',
        IsAsync = False,
        compute = (\<lambda>ins. \<lparr>out_status = Status_OK,
                            out_tensors = (\<lambda>i. if i = 0 then Some \<lparr>dtype = 3, buffer = [7]\<rparr>
                                                else None)\<rparr>),
        completes_inline = False\<rparr>
       (Some 0) [None]
       \<lparr>heap = [Concrete ChainValue], work_queue = [], pending = [], invocations = [],
        thread_run_state =
          \<lparr>input_tf_tensors = [\<lparr>dtype = 3, buffer = [3]\<rparr>, \<lparr>dtype = 3, buffer = [4]\<rparr>],
           input_tf_tensor_values = [OwnedInput 0, OwnedInput 1],
           params = \<lparr>p_device = ''cpu'', p_op_kernel = ''Add''\<rparr>\<rparr>\<rparr>
     = Inr (Some 2, [Some 1],
            \<lparr>heap = [Concrete ChainValue,
                     Concrete (TensorValue \<lparr>ft_tensor = \<lparr>dtype = 3, buffer = [7]\<rparr>,
                                            is_immutable = False\<rparr>),
                     Concrete ChainValue],
             work_queue = [], pending = [],
             invocations = [\<lparr>inv_kernel = ''Add'', inv_async = False,
                             inv_inputs = [Some \<lparr>dtype = 3, buffer = [3]\<rparr>,
                                           Some \<lparr>dtype = 3, buffer = [4]\<rparr>]\<rparr>],
             thread_run_state =
               \<lparr>input_tf_tensors = [\<lparr>dtype = 3, buffer = [3]\<rparr>, \<lparr>dtype = 3, buffer = [4]\<rparr>],
                input_tf_tensor_values = [OwnedInput 0, OwnedInput 1],
                params = \<lparr>p_device = ''cpu'', p_op_kernel = ''Add''\<rparr>\<rparr>\<rparr>)
   \<and> KernelFallbackExecuteCompatSyncInternal code
       \<lparr>location = ''loc'', fallback_request_state = None\<rparr>
       \<lparr>kernel_name = ''Split'', input_types = [], num_outputs = 2, runner_device = ''cpu'',
        IsAsync = False,
        compute = (\<lambda>ins. \<lparr>out_status = Internal ''boom'', out_tensors = (\<lambda>i. None)\<rparr>),
        completes_inline = False\<rparr>
       (Some 0) [None, None]
       \<lparr>heap = [Concrete ChainValue], work_queue = [], pending = [], invocations = [],
        thread_run_state =
          \<lparr>input_tf_tensors = [], input_tf_tensor_values = [],
           params = \<lparr>p_device = ''cpu'', p_op_kernel = ''Split''\<rparr>\<rparr>\<rparr>
     = Inr (Some 1, [Some 1, Some 1],
            \<lparr>heap = [Concrete ChainValue,
                     Error \<lparr>diag_location = ''loc'',
                            diag_message = ''error running kernel fallback kernel Split: boom'',
                            diag_code = INTERNAL\<rparr>],
             work_queue = [], pending = [],
             invocations = [\<lparr>inv_kernel = ''Split'', inv_async = False, inv_inputs = []\<rparr>],
             thread_run_state =
               \<lparr>input_tf_tensors = [], input_tf_tensor_values = [],
                params = \<lparr>p_device = ''cpu'', p_op_kernel = ''Split''\<rparr>\<rparr>\<rparr>)"
  using KernelFallbackExecuteCompatSyncInternal_all_or_error
          [where conv = code and exec = "\<lparr>location = ''loc'', fallback_request_state = None\<rparr>"
             and kernel_runner =
               "\<lparr>kernel_name = ''Add'', input_types = [3, 3], num_outputs = 1,
                 runner_device = ''cpu'', IsAsync = False,
                 compute = (\<lambda>ins. \<lparr>out_status = Status_OK,
                            out_tensors = (\<lambda>i. if i = 0 then Some \<lparr>dtype = 3, buffer = [7]\<rparr>
                                                else None)\<rparr>),
                 completes_inline = False\<rparr>"
             and op_chain = "Some 0" and results = "[None]"
             and produced = "[\<lparr>dtype = 3, buffer = [7]\<rparr>]"
             and w = "\<lparr>heap = [Concrete ChainValue], work_queue = [], pending = [],
                       invocations = [],
                       thread_run_state =
                         \<lparr>input_tf_tensors = [\<lparr>dtype = 3, buffer = [3]\<rparr>,
                                              \<lparr>dtype = 3, buffer = [4]\<rparr>],
                          input_tf_tensor_values = [OwnedInput 0, OwnedInput 1],
                          params = \<lparr>p_device = ''cpu'', p_op_kernel = ''Add''\<rparr>\<rparr>\<rparr>"]
        KernelFallbackExecuteCompatSyncInternal_all_or_error
          [where conv = code and exec = "\<lparr>location = ''loc'', fallback_request_state = None\<rparr>"
             and kernel_runner =
               "\<lparr>kernel_name = ''Split'', input_types = [], num_outputs = 2,
                 runner_device = ''cpu'', IsAsync = False,
                 compute = (\<lambda>ins. \<lparr>out_status = Internal ''boom'',
                                      out_tensors = (\<lambda>i. None)\<rparr>),
                 completes_inline = False\<rparr>"
             and op_chain = "Some 0" and results = "[None, None]"
             and produced = "[]"
             and w = "\<lparr>heap = [Concrete ChainValue], work_queue = [], pending = [],
                       invocations = [],
                       thread_run_state =
                         \<lparr>input_tf_tensors = [], input_tf_tensor_values = [],
                          params = \<lparr>p_device = ''cpu'', p_op_kernel = ''Split''\<rparr>\<rparr>\<rparr>"]
  by (simp add: Let_def ok_def Status_OK_def Internal_def deref_def FallbackTensor_def)

subsection \<open>The asynchronous path\<close>

lemma async_publish_eq:
  assumes "those (map (deref (thread_run_state w)) (input_tf_tensor_values (thread_run_state w)))
             = Some ts"
  shows "async_publish exec op_chain results w =
     (let c = length (heap w);
          n = length results;
          rs' = \<lparr>input_tf_tensors = ts,
                 input_tf_tensor_values = map OwnedInput [0..<length ts],
                 params = params (thread_run_state w)\<rparr>
      in Inr (map_option (\<lambda>_. c) op_chain,
              map Some [Suc c..<Suc c + n],
              \<lparr>cl_async_state =
                 \<lparr>as_run_state = rs',
                  as_context = \<lparr>ctx_inputs = map Some ts,
                                ctx_op_kernel = p_op_kernel (params (thread_run_state w)),
                                ctx_num_outputs = n,
                                ctx_status = Status_OK,
                                ctx_outputs = (\<lambda>_. None)\<rparr>,
                  as_chain = c,
                  as_result_refs = [Suc c..<Suc c + n]\<rparr>,
               cl_exec_ctx = exec\<rparr>,
              w\<lparr>heap := heap w @ replicate (Suc n) Unconstructed\<rparr>))"
proof -
  have ctx: "map (deref \<lparr>input_tf_tensors = ts,
                 input_tf_tensor_values = map OwnedInput [0..<length ts],
                 params = params (thread_run_state w)\<rparr>) (map OwnedInput [0..<length ts])
             = map Some ts"
    by (rule deref_owned) simp
  show ?thesis
    by (cases op_chain)
       (simp_all add: async_publish_def MakeUnconstructedAsyncValueRef_def alloc_av_def
          alloc_result_refs_eq AsyncState_def OpKernelRunState_copy_def assms
          OpKernelContext_def ctx [unfolded map_map] Let_def replicate_append_same
          del: upt_Suc)
qed

lemma done_callback_success:
  "ok (ctx_status (as_context (cl_async_state cl))) \<Longrightarrow>
   done_callback conv cl w = w\<lparr>work_queue := work_queue w @ [cl_async_state cl]\<rparr>"
  by (simp add: done_callback_def Let_def)

lemma done_callback_failure:
  assumes "\<not> ok (ctx_status (as_context (cl_async_state cl)))"
    and "as_chain (cl_async_state cl) = c"
    and "as_result_refs (cl_async_state cl) = [Suc c..<Suc c + n]"
    and "heap w = pre @ replicate (Suc n) Unconstructed @ post"
    and "length pre = c"
  shows "done_callback conv cl w =
     (let context = as_context (cl_async_state cl);
          d = \<lparr>diag_location = location (cl_exec_ctx cl),
               diag_message = ''error running kernel fallback kernel '' @ ctx_op_kernel context
                                @ '': '' @ error_message (ctx_status context),
               diag_code = conv (ctx_status context)\<rparr>
      in w\<lparr>heap := pre @ replicate (Suc n) (Error d) @ post\<rparr>)"
proof -
  let ?kctx = "as_context (cl_async_state cl)"
  let ?d = "EmitError (cl_exec_ctx cl)
              (''error running kernel fallback kernel '' @ ctx_op_kernel ?kctx
                 @ '': '' @ error_message (ctx_status ?kctx))
              (conv (ctx_status ?kctx))"
  have h: "heap w = (pre @ [Unconstructed]) @ replicate n Unconstructed @ post"
    by (simp add: assms(4))
  have f: "fold (\<lambda>a h. SetError a ?d h) [Suc c..<Suc c + n] (heap w)
           = (pre @ [Unconstructed]) @ replicate n (Error ?d) @ post"
    unfolding h by (rule fold_SetError_block) (simp_all add: assms(5))
  have s: "SetError c ?d ((pre @ [Unconstructed]) @ replicate n (Error ?d) @ post)
           = pre @ replicate (Suc n) (Error ?d) @ post"
    using assms(5) by (simp add: SetError_def list_update_append)
  have "done_callback conv cl w = w\<lparr>heap := pre @ replicate (Suc n) (Error ?d) @ post\<rparr>"
    using assms(1)
    by (simp only: done_callback_def Let_def assms(2,3) f s, simp)
  then show ?thesis
    by (simp add: EmitError_def Let_def)
qed

lemma enqueued_work_eq:
  assumes "map (ctx_outputs (as_context st)) [0..<n] = map Some produced"
    and "ctx_num_outputs (as_context st) = n"
    and "as_chain st = c"
    and "as_result_refs st = [Suc c..<Suc c + n]"
    and "length pre = c"
  shows "enqueued_work st (pre @ replicate (Suc n) Unconstructed @ post) =
     Inr (pre @ [Concrete ChainValue]
            @ map (\<lambda>t. Concrete (TensorValue (FallbackTensor t))) produced @ post)"
proof -
  have refs: "map ((!) [Suc c..<Suc (c + n)]) [0..<n] = [Suc c..<Suc (c + n)]"
    using map_nth [of "[Suc c..<Suc (c + n)]"] by (simp del: upt_Suc)
  have e: "emplace_outputs (ctx_outputs (as_context st)) [0..<0 + n] [Suc c..<Suc c + n]
             ((pre @ [Unconstructed]) @ replicate n Unconstructed @ post)
           = Inr ((pre @ [Unconstructed])
                    @ map (\<lambda>t. Concrete (TensorValue (FallbackTensor t))) produced @ post)"
    by (rule emplace_outputs_upt) (simp_all add: assms refs del: upt_Suc)
  show ?thesis
    using e assms(5)
    by (simp add: enqueued_work_def Let_def assms(2,3,4) emplace_def list_update_append
        del: upt_Suc)
qed

lemma legacy_completes_last:
  "pending w' = ps @ [(runner, cl)] \<Longrightarrow>
   legacy_completes conv (length ps) w' = done_callback conv (completed runner cl) (w'\<lparr>pending := ps\<rparr>)"
  by (simp add: legacy_completes_def)

text \<open>
  Claim C4.  On the asynchronous path, with a run state whose handles can be read, the
  part of the function before the call of \<^verbatim>\<open>RunAsync\<close> allocates one unconstructed
  chain and one unconstructed future per declared output and stores references to them in
  the completion-token slot and the output slots; \<^verbatim>\<open>RunAsync\<close> is invoked on the world
  so obtained, in which every one of these futures is still unconstructed.  A runner that
  keeps the callback leaves them unconstructed when the dispatch returns.  When the
  callback runs later, in any world whose store extends the published one: on a success
  status it changes nothing but the execution queue of the owning runtime, to which it
  appends one unit of work, and it is this unit that makes the chain and the outputs
  available; on a failure status it sets the chain and every output to one and the same
  error at once, and enqueues nothing.
\<close>

theorem KernelFallbackExecuteCompatAsyncInternal_publish_then_complete:
  assumes "those (map (deref (thread_run_state w)) (input_tf_tensor_values (thread_run_state w)))
             = Some ts"
  shows
  "(let c = length (heap w);
        n = length results;
        refs = [Suc c..<Suc c + n];
        out = compute kernel_runner (map Some ts);
        called = \<lparr>inv_kernel = kernel_name kernel_runner, inv_async = True,
                  inv_inputs = map Some ts\<rparr>;
        d = \<lparr>diag_location = location exec,
             diag_message = ''error running kernel fallback kernel ''
                              @ p_op_kernel (params (thread_run_state w))
                              @ '': '' @ error_message (out_status out),
             diag_code = conv (out_status out)\<rparr>
    in case async_publish exec op_chain results w of
         Inl f \<Rightarrow> False
       | Inr (op_chain', results', done_cb, w') \<Rightarrow>
           op_chain' = map_option (\<lambda>_. c) op_chain
         \<and> results' = map Some refs
         \<and> w' = w\<lparr>heap := heap w @ replicate (Suc n) Unconstructed\<rparr>
         \<and> as_chain (cl_async_state done_cb) = c
         \<and> as_result_refs (cl_async_state done_cb) = refs
         \<and> map (observe (heap w')) results' = replicate n (Some Unconstructed)
         \<and> observe (heap w') (Some c) = Some Unconstructed
         \<and> KernelFallbackExecuteCompatAsyncInternal conv exec kernel_runner op_chain results w
             = Inr (op_chain', results', RunAsync conv kernel_runner done_cb w')
         \<and> (\<not> completes_inline kernel_runner \<longrightarrow>
               RunAsync conv kernel_runner done_cb w'
                 = w'\<lparr>invocations := invocations w @ [called],
                      pending := pending w @ [(kernel_runner, done_cb)]\<rparr>
             \<and> legacy_completes conv (length (pending w))
                   (RunAsync conv kernel_runner done_cb w')
                 = done_callback conv (completed kernel_runner done_cb)
                     (w'\<lparr>invocations := invocations w @ [called]\<rparr>))
         \<and> (completes_inline kernel_runner \<longrightarrow>
               RunAsync conv kernel_runner done_cb w'
                 = done_callback conv (completed kernel_runner done_cb)
                     (w'\<lparr>invocations := invocations w @ [called]\<rparr>))
         \<and> (\<forall>w2 extra. heap w2 = heap w' @ extra \<longrightarrow>
               (ok (out_status out) \<longrightarrow>
                  done_callback conv (completed kernel_runner done_cb) w2
                    = w2\<lparr>work_queue := work_queue w2
                                           @ [cl_async_state (completed kernel_runner done_cb)]\<rparr>)
             \<and> (ok (out_status out) \<and> map (out_tensors out) [0..<n] = map Some produced \<longrightarrow>
                  enqueued_work (cl_async_state (completed kernel_runner done_cb)) (heap w2)
                    = Inr (heap w @ [Concrete ChainValue]
                             @ map (\<lambda>t. Concrete (TensorValue (FallbackTensor t))) produced
                             @ extra))
             \<and> (\<not> ok (out_status out) \<longrightarrow>
                  done_callback conv (completed kernel_runner done_cb) w2
                    = w2\<lparr>heap := heap w @ replicate (Suc n) (Error d) @ extra\<rparr>)))"
proof -
  let ?c = "length (heap w)"
  let ?n = "length results"
  let ?refs = "[Suc ?c..<Suc ?c + ?n]"
  let ?out = "compute kernel_runner (map Some ts)"
  let ?called = "\<lparr>inv_kernel = kernel_name kernel_runner, inv_async = True,
                  inv_inputs = map Some ts\<rparr>"
  let ?w' = "w\<lparr>heap := heap w @ replicate (Suc ?n) Unconstructed\<rparr>"
  obtain cl where cl_def: "cl =
      \<lparr>cl_async_state =
         \<lparr>as_run_state = \<lparr>input_tf_tensors = ts,
                            input_tf_tensor_values = map OwnedInput [0..<length ts],
                            params = params (thread_run_state w)\<rparr>,
          as_context = \<lparr>ctx_inputs = map Some ts,
                        ctx_op_kernel = p_op_kernel (params (thread_run_state w)),
                        ctx_num_outputs = ?n,
                        ctx_status = Status_OK,
                        ctx_outputs = (\<lambda>_. None)\<rparr>,
          as_chain = ?c,
          as_result_refs = ?refs\<rparr>,
       cl_exec_ctx = exec\<rparr>"
    by simp
  have pub: "async_publish exec op_chain results w
               = Inr (map_option (\<lambda>_. ?c) op_chain, map Some ?refs, cl, ?w')"
    using async_publish_eq [OF assms, of exec op_chain results]
    by (simp add: Let_def cl_def del: upt_Suc)
  have chain: "as_chain (cl_async_state cl) = ?c"
    and refs: "as_result_refs (cl_async_state cl) = ?refs"
    and ins: "ctx_inputs (as_context (cl_async_state cl)) = map Some ts"
    by (simp_all add: cl_def)
  have obs: "map (observe (heap ?w')) (map Some ?refs) = replicate ?n (Some Unconstructed)"
    using observe_block [of "replicate ?n Unconstructed" ?n "heap w @ [Unconstructed]" "[]"]
    by (simp add: replicate_append_same del: upt_Suc)
  have obs_chain: "observe (heap ?w') (Some ?c) = Some Unconstructed"
    by (simp add: observe_def nth_append)
  have internal: "KernelFallbackExecuteCompatAsyncInternal conv exec kernel_runner op_chain results w
             = Inr (map_option (\<lambda>_. ?c) op_chain, map Some ?refs, RunAsync conv kernel_runner cl ?w')"
    by (simp add: KernelFallbackExecuteCompatAsyncInternal_def pub)
  have run_def: "\<not> completes_inline kernel_runner \<Longrightarrow>
      RunAsync conv kernel_runner cl ?w'
        = ?w'\<lparr>invocations := invocations w @ [?called],
               pending := pending w @ [(kernel_runner, cl)]\<rparr>"
    by (simp add: RunAsync_def Let_def ins)
  have run_inl: "completes_inline kernel_runner \<Longrightarrow>
      RunAsync conv kernel_runner cl ?w'
        = done_callback conv (completed kernel_runner cl)
            (?w'\<lparr>invocations := invocations w @ [?called]\<rparr>)"
    by (simp add: RunAsync_def Let_def ins)
  have later: "\<not> completes_inline kernel_runner \<Longrightarrow>
      legacy_completes conv (length (pending w)) (RunAsync conv kernel_runner cl ?w')
        = done_callback conv (completed kernel_runner cl)
            (?w'\<lparr>invocations := invocations w @ [?called]\<rparr>)"
    using legacy_completes_last
            [of "?w'\<lparr>invocations := invocations w @ [?called],
                      pending := pending w @ [(kernel_runner, cl)]\<rparr>"
                "pending w" kernel_runner cl conv]
    by (simp add: run_def del: replicate_Suc)
  have cstat: "ctx_status (as_context (cl_async_state (completed kernel_runner cl))) = out_status ?out"
    and couts: "ctx_outputs (as_context (cl_async_state (completed kernel_runner cl))) = out_tensors ?out"
    and cnum: "ctx_num_outputs (as_context (cl_async_state (completed kernel_runner cl))) = ?n"
    and cname: "ctx_op_kernel (as_context (cl_async_state (completed kernel_runner cl)))
                  = p_op_kernel (params (thread_run_state w))"
    and cchain: "as_chain (cl_async_state (completed kernel_runner cl)) = ?c"
    and crefs: "as_result_refs (cl_async_state (completed kernel_runner cl)) = ?refs"
    and cexec: "cl_exec_ctx (completed kernel_runner cl) = exec"
    by (simp_all add: completed_def kernel_runs_def Let_def cl_def)
  have succ: "done_callback conv (completed kernel_runner cl) w2
                = w2\<lparr>work_queue := work_queue w2 @ [cl_async_state (completed kernel_runner cl)]\<rparr>"
    if "ok (out_status ?out)" for w2 :: "'a world"
    using that by (simp add: done_callback_success cstat)
  have work: "enqueued_work (cl_async_state (completed kernel_runner cl)) (heap w2)
                = Inr (heap w @ [Concrete ChainValue]
                         @ map (\<lambda>t. Concrete (TensorValue (FallbackTensor t))) produced @ extra)"
    if "map (out_tensors ?out) [0..<?n] = map Some produced" and "heap w2 = heap ?w' @ extra"
    for w2 :: "'a world" and extra
    using enqueued_work_eq [of "cl_async_state (completed kernel_runner cl)" ?n produced ?c
            "heap w" extra] that
    by (simp add: couts cnum cchain crefs del: upt_Suc)
  have fail: "done_callback conv (completed kernel_runner cl) w2
                = w2\<lparr>heap := heap w @ replicate (Suc ?n)
                     (Error \<lparr>diag_location = location exec,
                        diag_message = ''error running kernel fallback kernel ''
                              @ p_op_kernel (params (thread_run_state w))
                              @ '': '' @ error_message (out_status ?out),
                        diag_code = conv (out_status ?out)\<rparr>) @ extra\<rparr>"
    if "\<not> ok (out_status ?out)" and "heap w2 = heap ?w' @ extra"
    for w2 :: "'a world" and extra
    using done_callback_failure [of "completed kernel_runner cl" ?c ?n w2 "heap w" extra conv] that
    by (simp add: cstat cchain crefs cname cexec Let_def del: upt_Suc)
  show ?thesis
    unfolding Let_def pub
    using chain refs obs obs_chain internal run_def run_inl later succ work fail
    by (simp del: upt_Suc replicate_Suc)
qed


theorem KernelFallbackExecuteCompatAsyncInternal_publish_then_complete_witness:
  "(case KernelFallbackExecuteCompatAsyncInternal code
            \<lparr>location = ''loc'', fallback_request_state = None\<rparr>
            \<lparr>kernel_name = ''Recv'', input_types = [3], num_outputs = 1, runner_device = ''cpu'',
        IsAsync = True,
        compute = (\<lambda>ins. \<lparr>out_status = Status_OK,
                            out_tensors = (\<lambda>i. if i = 0 then Some \<lparr>dtype = 3, buffer = [7]\<rparr>
                                                else None)\<rparr>),
        completes_inline = False\<rparr>
            (Some 0) [None]
            \<lparr>heap = [Concrete ChainValue], work_queue = [], pending = [], invocations = [],
        thread_run_state =
          \<lparr>input_tf_tensors = [\<lparr>dtype = 3, buffer = [3]\<rparr>],
           input_tf_tensor_values = [OwnedInput 0],
           params = \<lparr>p_device = ''cpu'', p_op_kernel = ''Recv''\<rparr>\<rparr>\<rparr> of
      Inl f \<Rightarrow> False
    | Inr (op_chain', results', w1) \<Rightarrow>
        op_chain' = Some 1 \<and> results' = [Some 2]
      \<and> heap w1 = [Concrete ChainValue, Unconstructed, Unconstructed]
      \<and> work_queue w1 = [] \<and> length (pending w1) = 1
      \<and> heap (legacy_completes code 0 w1) = [Concrete ChainValue, Unconstructed, Unconstructed]
      \<and> length (work_queue (legacy_completes code 0 w1)) = 1
      \<and> (case run_next_work (legacy_completes code 0 w1) of
            Inl f \<Rightarrow> False
          | Inr w3 \<Rightarrow>
              heap w3 = [Concrete ChainValue, Concrete ChainValue,
                         Concrete (TensorValue \<lparr>ft_tensor = \<lparr>dtype = 3, buffer = [7]\<rparr>,
                                                is_immutable = False\<rparr>)]
            \<and> work_queue w3 = []))
   \<and> (case KernelFallbackExecuteCompatAsyncInternal code
            \<lparr>location = ''loc'', fallback_request_state = None\<rparr>
            \<lparr>kernel_name = ''Recv'', input_types = [3], num_outputs = 1, runner_device = ''cpu'',
        IsAsync = True,
        compute = (\<lambda>ins. \<lparr>out_status = Internal ''boom'', out_tensors = (\<lambda>i. None)\<rparr>),
        completes_inline = True\<rparr>
            (Some 0) [None, None]
            \<lparr>heap = [Concrete ChainValue], work_queue = [], pending = [], invocations = [],
        thread_run_state =
          \<lparr>input_tf_tensors = [\<lparr>dtype = 3, buffer = [3]\<rparr>],
           input_tf_tensor_values = [OwnedInput 0],
           params = \<lparr>p_device = ''cpu'', p_op_kernel = ''Recv''\<rparr>\<rparr>\<rparr> of
      Inl f \<Rightarrow> False
    | Inr (op_chain', results', w1) \<Rightarrow>
        op_chain' = Some 1 \<and> results' = [Some 2, Some 3]
      \<and> heap w1 = [Concrete ChainValue, Error \<lparr>diag_location = ''loc'',
                     diag_message = ''error running kernel fallback kernel Recv: boom'',
                     diag_code = INTERNAL\<rparr>, Error \<lparr>diag_location = ''loc'',
                     diag_message = ''error running kernel fallback kernel Recv: boom'',
                     diag_code = INTERNAL\<rparr>, Error \<lparr>diag_location = ''loc'',
                     diag_message = ''error running kernel fallback kernel Recv: boom'',
                     diag_code = INTERNAL\<rparr>]
      \<and> work_queue w1 = [] \<and> pending w1 = [])"
  using KernelFallbackExecuteCompatAsyncInternal_publish_then_complete
          [where conv = code and exec = "\<lparr>location = ''loc'', fallback_request_state = None\<rparr>"
             and kernel_runner = "\<lparr>kernel_name = ''Recv'', input_types = [3], num_outputs = 1, runner_device = ''cpu'',
        IsAsync = True,
        compute = (\<lambda>ins. \<lparr>out_status = Status_OK,
                            out_tensors = (\<lambda>i. if i = 0 then Some \<lparr>dtype = 3, buffer = [7]\<rparr>
                                                else None)\<rparr>),
        completes_inline = False\<rparr>"
             and op_chain = "Some 0" and results = "[None]"
             and ts = "[\<lparr>dtype = 3, buffer = [3]\<rparr>]"
             and produced = "[\<lparr>dtype = 3, buffer = [7]\<rparr>]"
             and w = "\<lparr>heap = [Concrete ChainValue], work_queue = [], pending = [], invocations = [],
        thread_run_state =
          \<lparr>input_tf_tensors = [\<lparr>dtype = 3, buffer = [3]\<rparr>],
           input_tf_tensor_values = [OwnedInput 0],
           params = \<lparr>p_device = ''cpu'', p_op_kernel = ''Recv''\<rparr>\<rparr>\<rparr>"]
        KernelFallbackExecuteCompatAsyncInternal_publish_then_complete
          [where conv = code and exec = "\<lparr>location = ''loc'', fallback_request_state = None\<rparr>"
             and kernel_runner = "\<lparr>kernel_name = ''Recv'', input_types = [3], num_outputs = 1, runner_device = ''cpu'',
        IsAsync = True,
        compute = (\<lambda>ins. \<lparr>out_status = Internal ''boom'', out_tensors = (\<lambda>i. None)\<rparr>),
        completes_inline = True\<rparr>"
             and op_chain = "Some 0" and results = "[None, None]"
             and ts = "[\<lparr>dtype = 3, buffer = [3]\<rparr>]"
             and produced = "[]"
             and w = "\<lparr>heap = [Concrete ChainValue], work_queue = [], pending = [], invocations = [],
        thread_run_state =
          \<lparr>input_tf_tensors = [\<lparr>dtype = 3, buffer = [3]\<rparr>],
           input_tf_tensor_values = [OwnedInput 0],
           params = \<lparr>p_device = ''cpu'', p_op_kernel = ''Recv''\<rparr>\<rparr>\<rparr>"]
  by (simp add: Let_def ok_def Status_OK_def Internal_def deref_def FallbackTensor_def
      KernelFallbackExecuteCompatAsyncInternal_def async_publish_def
      MakeUnconstructedAsyncValueRef_def alloc_av_def AsyncState_def OpKernelRunState_copy_def
      OpKernelContext_def RunAsync_def legacy_completes_def done_callback_def completed_def
      kernel_runs_def run_next_work_def enqueued_work_def emplace_def SetError_def
      EmitError_def)

subsection \<open>What the execution paths leave unchanged\<close>

lemma those_eq_Some: "those xs = Some ts \<Longrightarrow> xs = map Some ts"
  by (induction xs arbitrary: ts) (auto split: option.splits)

lemma ok_InvalidArgument: "\<not> ok (InvalidArgument m)"
  by (simp add: ok_def InvalidArgument_def)

lemma done_callback_frame:
  "invocations (done_callback conv cl w) = invocations w"
  "thread_run_state (done_callback conv cl w) = thread_run_state w"
  "pending (done_callback conv cl w) = pending w"
  by (simp_all add: done_callback_def Let_def)

lemma RunAsync_frame:
  "invocations (RunAsync conv runner cl w) =
     invocations w @ [\<lparr>inv_kernel = kernel_name runner, inv_async = True,
                       inv_inputs = ctx_inputs (as_context (cl_async_state cl))\<rparr>]"
  "thread_run_state (RunAsync conv runner cl w) = thread_run_state w"
  by (simp_all add: RunAsync_def Let_def done_callback_frame)

lemma move_outputs_fault:
  "move_outputs outs is results h = Inl f \<Longrightarrow> \<exists>i. f = NullOutput i"
  by (induction "is" arbitrary: results h)
     (auto simp: MakeAvailableAsyncValueRef_def alloc_av_def split: option.splits)

lemma sync_returns:
  assumes "KernelFallbackExecuteCompatSyncInternal conv exec runner op_chain results w
             = Inr (c, rs, w')"
  shows "invocations w' =
           invocations w @ [\<lparr>inv_kernel = kernel_name runner, inv_async = False,
                             inv_inputs = map (deref (thread_run_state w))
                                            (input_tf_tensor_values (thread_run_state w))\<rparr>]"
    and "thread_run_state w' = thread_run_state w"
  using assms
  by (auto simp: KernelFallbackExecuteCompatSyncInternal_def Let_def OpKernelContext_def
      MakeAvailableAsyncValueRef_def alloc_av_def
      split: if_splits prod.splits sum.splits option.splits)

lemma sync_faults:
  "KernelFallbackExecuteCompatSyncInternal conv exec runner op_chain results w = Inl f
   \<Longrightarrow> \<exists>i. f = NullOutput i"
  by (auto simp: KernelFallbackExecuteCompatSyncInternal_def Let_def
      MakeAvailableAsyncValueRef_def alloc_av_def
      dest: move_outputs_fault
      split: if_splits prod.splits sum.splits option.splits)

lemma async_returns:
  assumes "KernelFallbackExecuteCompatAsyncInternal conv exec runner op_chain results w
             = Inr (c, rs, w')"
  shows "invocations w' =
           invocations w @ [\<lparr>inv_kernel = kernel_name runner, inv_async = True,
                             inv_inputs = map (deref (thread_run_state w))
                                            (input_tf_tensor_values (thread_run_state w))\<rparr>]"
    and "thread_run_state w' = thread_run_state w"
proof -
  from assms obtain ts where
    ts: "those (map (deref (thread_run_state w)) (input_tf_tensor_values (thread_run_state w)))
           = Some ts"
    by (auto simp: KernelFallbackExecuteCompatAsyncInternal_def async_publish_def AsyncState_def
        OpKernelRunState_copy_def Let_def split: prod.splits sum.splits option.splits)
  have ins: "map (deref (thread_run_state w)) (input_tf_tensor_values (thread_run_state w))
               = map Some ts"
    by (rule those_eq_Some [OF ts])
  from assms async_publish_eq [OF ts, of exec op_chain results]
  show "invocations w' =
           invocations w @ [\<lparr>inv_kernel = kernel_name runner, inv_async = True,
                             inv_inputs = map (deref (thread_run_state w))
                                            (input_tf_tensor_values (thread_run_state w))\<rparr>]"
    and "thread_run_state w' = thread_run_state w"
    by (auto simp: KernelFallbackExecuteCompatAsyncInternal_def Let_def RunAsync_frame ins
        simp del: upt_Suc replicate_Suc)
qed

lemma async_faults:
  "KernelFallbackExecuteCompatAsyncInternal conv exec runner op_chain results w = Inl f
   \<Longrightarrow> f = NullTensorDeref"
  by (auto simp: KernelFallbackExecuteCompatAsyncInternal_def async_publish_def AsyncState_def
      OpKernelRunState_copy_def Let_def split: prod.splits sum.splits option.splits)

lemma with_cleanup_Inr:
  "with_cleanup r = Inr (c, rs, w') \<Longrightarrow>
   \<exists>w1. r = Inr (c, rs, w1) \<and> w' = clean_up_inputs w1"
  by (auto simp: with_cleanup_def split: sum.splits)

lemma with_cleanup_Inl: "with_cleanup r = Inl f \<Longrightarrow> r = Inl f"
  by (auto simp: with_cleanup_def split: sum.splits)

lemma clean_up_inputs_frame:
  "input_tf_tensors (thread_run_state (clean_up_inputs w)) = []"
  "invocations (clean_up_inputs w) = invocations w"
  "heap (clean_up_inputs w) = heap w"
  "work_queue (clean_up_inputs w) = work_queue w"
  "pending (clean_up_inputs w) = pending w"
  by (simp_all add: clean_up_inputs_def)

subsection \<open>The paths of the core-runtime dispatch\<close>

lemma KernelFallbackEmitError_eq:
  "KernelFallbackEmitError conv exec op_name op_chain results st h =
     (map_option (\<lambda>_. length h) op_chain,
      replicate (length results) (Some (length h)),
      h @ [Error (fallback_diagnostic conv exec op_name st)])"
  by (cases op_chain)
     (simp_all add: KernelFallbackEmitError_def EmitErrorAsync_def EmitError_def alloc_av_def
        Let_def map_replicate_const)

lemma dispatch_no_state:
  assumes "fallback_request_state exec = None"
  shows "KernelFallbackExecuteCompatCoreRuntimeDispatch conv to_tf dts get_or_create
           exec op_name device_name arguments results attrs w =
     Inr (Some (Suc (length (heap w))),
          replicate (length results) (Some (Suc (length (heap w)))),
          w\<lparr>heap := heap w @
                 [Concrete ChainValue,
                  Error (fallback_diagnostic conv exec op_name
                    (NotFound ''KernelFallbackCompatRequestState not found in RequestContext.''))]\<rparr>)"
  using assms
  by (simp add: KernelFallbackExecuteCompatCoreRuntimeDispatch_def Let_def
      MakeAvailableAsyncValueRef_def alloc_av_def KernelFallbackEmitError_eq)

lemma dispatch_no_runner:
  assumes "fallback_request_state exec = Some frs"
    and "get_or_create (location exec) op_name device_name (length arguments) attrs = Inl st"
  shows "KernelFallbackExecuteCompatCoreRuntimeDispatch conv to_tf dts get_or_create
           exec op_name device_name arguments results attrs w =
     Inr (Some (Suc (length (heap w))),
          replicate (length results) (Some (Suc (length (heap w)))),
          w\<lparr>heap := heap w @
                 [Concrete ChainValue, Error (fallback_diagnostic conv exec op_name st)]\<rparr>)"
  using assms
  by (simp add: KernelFallbackExecuteCompatCoreRuntimeDispatch_def Let_def
      MakeAvailableAsyncValueRef_def alloc_av_def KernelFallbackEmitError_eq)

lemma dispatch_conversion_fails:
  assumes "fallback_request_state exec = Some frs"
    and "get_or_create (location exec) op_name device_name (length arguments) attrs
           = Inr kernel_runner"
    and "ConvertInputTensors to_tf arguments = Inl err"
  shows "KernelFallbackExecuteCompatCoreRuntimeDispatch conv to_tf dts get_or_create
           exec op_name device_name arguments results attrs w =
     Inr (Some (Suc (length (heap w))),
          replicate (length results) (Some (Suc (length (heap w)))),
          w\<lparr>heap := heap w @
                 [Concrete ChainValue,
                  Error (fallback_diagnostic conv exec op_name (Internal err))]\<rparr>)"
  using assms
  by (simp add: KernelFallbackExecuteCompatCoreRuntimeDispatch_def Let_def
      MakeAvailableAsyncValueRef_def alloc_av_def KernelFallbackEmitError_eq)

lemma dispatch_rejects:
  assumes "fallback_request_state exec = Some frs"
    and "get_or_create (location exec) op_name device_name (length arguments) attrs
           = Inr kernel_runner"
    and "ConvertInputTensors to_tf arguments = Inr ts"
    and "\<not> ok (ValidateInputTypes dts op_name ts (input_types kernel_runner))"
    and "op_name \<noteq> ''_BatchFunctionFallback''"
  shows "KernelFallbackExecuteCompatCoreRuntimeDispatch conv to_tf dts get_or_create
           exec op_name device_name arguments results attrs w =
     Inr (Some (Suc (length (heap w))),
          replicate (length results) (Some (Suc (length (heap w)))),
          w\<lparr>heap := heap w @
                 [Concrete ChainValue,
                  Error (fallback_diagnostic conv exec op_name
                    (ValidateInputTypes dts op_name ts (input_types kernel_runner)))],
            thread_run_state := (thread_run_state w)\<lparr>input_tf_tensors := []\<rparr>\<rparr>)"
  using assms
  by (simp add: KernelFallbackExecuteCompatCoreRuntimeDispatch_def Let_def
      MakeAvailableAsyncValueRef_def alloc_av_def KernelFallbackEmitError_eq
      with_cleanup_def clean_up_inputs_def)

lemma dispatch_executes:
  assumes "fallback_request_state exec = Some frs"
    and "get_or_create (location exec) op_name device_name (length arguments) attrs
           = Inr kernel_runner"
    and "ConvertInputTensors to_tf arguments = Inr ts"
    and "ok (ValidateInputTypes dts op_name ts (input_types kernel_runner))
         \<or> op_name = ''_BatchFunctionFallback''"
  shows "KernelFallbackExecuteCompatCoreRuntimeDispatch conv to_tf dts get_or_create
           exec op_name device_name arguments results attrs w =
     (let w2 = w\<lparr>heap := heap w @ [Concrete ChainValue],
                 thread_run_state :=
                   SetUpParams kernel_runner frs
                     ((thread_run_state w)
                        \<lparr>input_tf_tensors := ts,
                         input_tf_tensor_values := map OwnedInput [0..<length ts]\<rparr>)\<rparr>
      in with_cleanup
           (if IsAsync kernel_runner then
              KernelFallbackExecuteCompatAsyncInternal conv exec kernel_runner
                (Some (length (heap w))) results w2
            else
              KernelFallbackExecuteCompatSyncInternal conv exec kernel_runner
                (Some (length (heap w))) results w2))"
  using assms
  by (auto simp: KernelFallbackExecuteCompatCoreRuntimeDispatch_def Let_def
      MakeAvailableAsyncValueRef_def alloc_av_def rebind_resize)

lemma dispatch_kernel_inputs:
  "map (deref (SetUpParams kernel_runner frs
                 (rs\<lparr>input_tf_tensors := ts,
                     input_tf_tensor_values := map OwnedInput [0..<length ts]\<rparr>)))
       (input_tf_tensor_values
          (SetUpParams kernel_runner frs
             (rs\<lparr>input_tf_tensors := ts,
                 input_tf_tensor_values := map OwnedInput [0..<length ts]\<rparr>)))
     = map Some ts"
  by (rule nth_equalityI) (simp_all add: SetUpParams_def deref_def)

subsection \<open>Validation of the input types\<close>

lemma ValidateInputTypes_loop_first:
  "list_all (\<lambda>j. dtype (ins ! j) = tys ! j) pre \<Longrightarrow> dtype (ins ! i) \<noteq> tys ! i \<Longrightarrow>
   ValidateInputTypes_loop dts op_name ins tys (pre @ i # post) =
     InvalidArgument
       (''cannot compute '' @ op_name @ '' as input #'' @ show_nat i @ ''(zero-based)''
          @ '' was expected to be a '' @ dts (tys ! i)
          @ '' tensor but is a '' @ dts (dtype (ins ! i)) @ '' tensor'')"
  by (induction pre) simp_all

lemma ValidateInputTypes_loop_ok:
  "ok (ValidateInputTypes_loop dts op_name ins tys is)
     = list_all (\<lambda>j. dtype (ins ! j) = tys ! j) is"
  by (induction "is") (simp_all add: ok_InvalidArgument, simp add: ok_def Status_OK_def)

lemma ValidateInputTypes_count:
  "length tys \<noteq> length ins \<Longrightarrow>
   ValidateInputTypes dts op_name ins tys =
     InvalidArgument
       (''expected '' @ show_nat (length tys) @ '' inputs, got '' @ show_nat (length ins))"
  by (simp add: ValidateInputTypes_def)

lemma ValidateInputTypes_dtype:
  assumes "length tys = length ins" and "i < length ins"
    and "map dtype (take i ins) = take i tys" and "dtype (ins ! i) \<noteq> tys ! i"
  shows "ValidateInputTypes dts op_name ins tys =
     InvalidArgument
       (''cannot compute '' @ op_name @ '' as input #'' @ show_nat i @ ''(zero-based)''
          @ '' was expected to be a '' @ dts (tys ! i)
          @ '' tensor but is a '' @ dts (dtype (ins ! i)) @ '' tensor'')"
proof -
  have split: "[0..<length ins] = [0..<i] @ i # [Suc i..<length ins]"
    using assms(2) by (metis upt_conv_Cons upt_add_eq_append le_add_diff_inverse less_imp_le_nat zero_le)
  have pre: "list_all (\<lambda>j. dtype (ins ! j) = tys ! j) [0..<i]"
  proof -
    have "dtype (ins ! j) = tys ! j" if "j < i" for j
    proof -
      have "map dtype (take i ins) ! j = take i tys ! j" by (simp add: assms(3))
      then show ?thesis using that assms(1,2) by simp
    qed
    then show ?thesis by (simp add: list_all_iff)
  qed
  show ?thesis
    using assms(1) ValidateInputTypes_loop_first [OF pre assms(4), of dts op_name "[Suc i..<length ins]"]
    by (simp add: ValidateInputTypes_def split)
qed

lemma ValidateInputTypes_ok_iff:
  "ok (ValidateInputTypes dts op_name ins tys) = (map dtype ins = tys)"
proof (cases "length tys = length ins")
  case False
  then have "map dtype ins \<noteq> tys" by auto
  with False show ?thesis
    by (simp add: ValidateInputTypes_count ok_InvalidArgument)
next
  case True
  have eq: "(map dtype ins = tys) = (\<forall>j<length ins. dtype (ins ! j) = tys ! j)"
    using True by (auto simp: list_eq_iff_nth_eq)
  have all: "list_all (\<lambda>j. dtype (ins ! j) = tys ! j) [0..<length ins]
               = (\<forall>j<length ins. dtype (ins ! j) = tys ! j)"
    unfolding list_all_iff by auto
  have "ok (ValidateInputTypes dts op_name ins tys)
          = list_all (\<lambda>j. dtype (ins ! j) = tys ! j) [0..<length ins]"
    using True by (simp add: ValidateInputTypes_def ValidateInputTypes_loop_ok)
  then show ?thesis
    unfolding eq all .
qed

subsection \<open>The dispatch reaches the runner\<close>

lemma dispatch_execute_invokes:
  assumes "fallback_request_state exec = Some frs"
    and "get_or_create (location exec) op_name device_name (length arguments) attrs
           = Inr kernel_runner"
    and "ConvertInputTensors to_tf arguments = Inr ts"
    and "ok (ValidateInputTypes dts op_name ts (input_types kernel_runner))
         \<or> op_name = ''_BatchFunctionFallback''"
  shows "(case KernelFallbackExecuteCompatCoreRuntimeDispatch conv to_tf dts get_or_create
                 exec op_name device_name arguments results attrs w of
            Inl f \<Rightarrow> \<not> IsAsync kernel_runner \<and> (\<exists>i. f = NullOutput i)
          | Inr (c, rs, w') \<Rightarrow>
              invocations w' =
                invocations w @ [\<lparr>inv_kernel = kernel_name kernel_runner,
                                  inv_async = IsAsync kernel_runner,
                                  inv_inputs = map Some ts\<rparr>]
            \<and> input_tf_tensors (thread_run_state w') = [])"
proof -
  let ?rs = "SetUpParams kernel_runner frs
               ((thread_run_state w)
                  \<lparr>input_tf_tensors := ts,
                   input_tf_tensor_values := map OwnedInput [0..<length ts]\<rparr>)"
  let ?w2 = "w\<lparr>heap := heap w @ [Concrete ChainValue], thread_run_state := ?rs\<rparr>"
  let ?D = "KernelFallbackExecuteCompatCoreRuntimeDispatch conv to_tf dts get_or_create
              exec op_name device_name arguments results attrs w"
  have ins: "map (deref (thread_run_state ?w2)) (input_tf_tensor_values (thread_run_state ?w2))
               = map Some ts"
    using dispatch_kernel_inputs [where kernel_runner = kernel_runner and frs = frs
            and rs = "thread_run_state w" and ts = ts] by simp
  have D: "?D = with_cleanup
           (if IsAsync kernel_runner then
              KernelFallbackExecuteCompatAsyncInternal conv exec kernel_runner
                (Some (length (heap w))) results ?w2
            else
              KernelFallbackExecuteCompatSyncInternal conv exec kernel_runner
                (Some (length (heap w))) results ?w2)"
    using dispatch_executes [where get_or_create = get_or_create and conv = conv
            and results = results and w = w, OF assms]
    by (simp add: Let_def)
  show ?thesis
  proof (cases ?D)
    case (Inl f)
    show ?thesis
    proof (cases "IsAsync kernel_runner")
      case True
      with Inl D have "KernelFallbackExecuteCompatAsyncInternal conv exec kernel_runner
                (Some (length (heap w))) results ?w2 = Inl f"
        by (simp add: with_cleanup_Inl)
      moreover have "those (map (deref (thread_run_state ?w2))
                       (input_tf_tensor_values (thread_run_state ?w2))) = Some ts"
        unfolding ins by (rule those_map_Some)
      from async_publish_eq [OF this, of exec "Some (length (heap w))" results]
      have "\<exists>r. async_publish exec (Some (length (heap w))) results ?w2 = Inr r"
        unfolding Let_def by blast
      ultimately have False
        by (auto simp: KernelFallbackExecuteCompatAsyncInternal_def split: sum.splits)
      then show ?thesis ..
    next
      case False
      with Inl D have "KernelFallbackExecuteCompatSyncInternal conv exec kernel_runner
                (Some (length (heap w))) results ?w2 = Inl f"
        by (simp add: with_cleanup_Inl)
      from sync_faults [OF this] False Inl show ?thesis by simp
    qed
  next
    case (Inr r)
    obtain c rs w' where r: "r = (c, rs, w')" by (cases r) auto
    from Inr r D have "with_cleanup
           (if IsAsync kernel_runner then
              KernelFallbackExecuteCompatAsyncInternal conv exec kernel_runner
                (Some (length (heap w))) results ?w2
            else
              KernelFallbackExecuteCompatSyncInternal conv exec kernel_runner
                (Some (length (heap w))) results ?w2) = Inr (c, rs, w')"
      by simp
    from with_cleanup_Inr [OF this] obtain w1 where
      w1: "(if IsAsync kernel_runner then
              KernelFallbackExecuteCompatAsyncInternal conv exec kernel_runner
                (Some (length (heap w))) results ?w2
            else
              KernelFallbackExecuteCompatSyncInternal conv exec kernel_runner
                (Some (length (heap w))) results ?w2) = Inr (c, rs, w1)"
      and w': "w' = clean_up_inputs w1"
      by blast
    have "invocations w1 = invocations ?w2 @ [\<lparr>inv_kernel = kernel_name kernel_runner,
                                  inv_async = IsAsync kernel_runner,
                                  inv_inputs = map Some ts\<rparr>]"
    proof (cases "IsAsync kernel_runner")
      case True
      with w1 async_returns(1) [where conv = conv and exec = exec and runner = kernel_runner
          and op_chain = "Some (length (heap w))" and results = results and w = ?w2
          and c = c and rs = rs and w' = w1]
      show ?thesis by (simp only: ins if_True)
    next
      case False
      with w1 sync_returns(1) [where conv = conv and exec = exec and runner = kernel_runner
          and op_chain = "Some (length (heap w))" and results = results and w = ?w2
          and c = c and rs = rs and w' = w1]
      show ?thesis by (simp only: ins if_False)
    qed
    then show ?thesis
      by (simp add: Inr r w' clean_up_inputs_frame)
  qed
qed

subsection \<open>Validation in the dispatch\<close>

lemma ValidateInputTypes_loop_code:
  "code (ValidateInputTypes_loop dts op_name ins tys is) = OK
   \<or> code (ValidateInputTypes_loop dts op_name ins tys is) = INVALID_ARGUMENT"
  by (induction "is") (simp_all add: Status_OK_def InvalidArgument_def)

lemma ValidateInputTypes_code:
  "code (ValidateInputTypes dts op_name ins tys)
     = (if map dtype ins = tys then OK else INVALID_ARGUMENT)"
proof -
  have "code (ValidateInputTypes dts op_name ins tys) = OK
        \<or> code (ValidateInputTypes dts op_name ins tys) = INVALID_ARGUMENT"
    using ValidateInputTypes_loop_code [of dts op_name ins tys "[0..<length ins]"]
    by (auto simp: ValidateInputTypes_def InvalidArgument_def Let_def)
  then show ?thesis
    using ValidateInputTypes_ok_iff [of dts op_name ins tys] by (auto simp: ok_def)
qed

text \<open>
  Claim C2, as amended.  Once the request state, the runner and the converted arguments
  are there: \<^verbatim>\<open>ValidateInputTypes\<close> gives an invalid-argument status with the two counts
  when the argument count differs from the count of declared input types; when the counts
  agree it gives, for the first argument whose data type differs from the declared type at
  its position, an invalid-argument status that names the op, the zero-based index, the
  expected type and the actual type; its status is OK exactly when counts and types agree.
  For every op name other than \<^verbatim>\<open>_BatchFunctionFallback\<close> the dispatch rejects the
  invocation on a failed validation: the status is fanned out by error translation and no
  runner is called.  For the op name \<^verbatim>\<open>_BatchFunctionFallback\<close> the validation status
  as a whole, count and types, is ignored and the runner is called.
\<close>

theorem validation_rejects_unless_batch_function_fallback:
  assumes "fallback_request_state exec = Some frs"
    and "get_or_create (location exec) op_name device_name (length arguments) attrs
           = Inr kernel_runner"
    and "ConvertInputTensors to_tf arguments = Inr ts"
  shows
  "(let tys = input_types kernel_runner;
        st = ValidateInputTypes dts op_name ts tys;
        e = Suc (length (heap w));
        D = KernelFallbackExecuteCompatCoreRuntimeDispatch conv to_tf dts get_or_create
              exec op_name device_name arguments results attrs w
    in (length tys \<noteq> length ts \<longrightarrow>
          st = InvalidArgument
                 (''expected '' @ show_nat (length tys) @ '' inputs, got ''
                    @ show_nat (length ts)))
     \<and> (length tys = length ts \<and> i < length ts \<and> map dtype (take i ts) = take i tys
          \<and> dtype (ts ! i) \<noteq> tys ! i \<longrightarrow>
          st = InvalidArgument
                 (''cannot compute '' @ op_name @ '' as input #'' @ show_nat i
                    @ ''(zero-based)'' @ '' was expected to be a '' @ dts (tys ! i)
                    @ '' tensor but is a '' @ dts (dtype (ts ! i)) @ '' tensor''))
     \<and> code st = (if length tys = length ts \<and> map dtype ts = tys then OK
                   else INVALID_ARGUMENT)
     \<and> (\<not> ok st \<and> op_name \<noteq> ''_BatchFunctionFallback'' \<longrightarrow>
          D = Inr (Some e, replicate (length results) (Some e),
                   w\<lparr>heap := heap w @ [Concrete ChainValue,
                                         Error (fallback_diagnostic conv exec op_name st)],
                     thread_run_state := (thread_run_state w)\<lparr>input_tf_tensors := []\<rparr>\<rparr>))
     \<and> (op_name = ''_BatchFunctionFallback'' \<longrightarrow>
          (case D of
             Inl f \<Rightarrow> \<not> IsAsync kernel_runner \<and> (\<exists>k. f = NullOutput k)
           | Inr (c, rs, w') \<Rightarrow>
               invocations w' =
                 invocations w @ [\<lparr>inv_kernel = kernel_name kernel_runner,
                                   inv_async = IsAsync kernel_runner,
                                   inv_inputs = map Some ts\<rparr>])))"
proof -
  let ?tys = "input_types kernel_runner"
  let ?st = "ValidateInputTypes dts op_name ts ?tys"
  let ?D = "KernelFallbackExecuteCompatCoreRuntimeDispatch conv to_tf dts get_or_create
              exec op_name device_name arguments results attrs w"
  have count: "length ?tys \<noteq> length ts \<Longrightarrow>
      ?st = InvalidArgument
              (''expected '' @ show_nat (length ?tys) @ '' inputs, got '' @ show_nat (length ts))"
    by (rule ValidateInputTypes_count)
  have dt: "length ?tys = length ts \<Longrightarrow> i < length ts \<Longrightarrow>
      map dtype (take i ts) = take i ?tys \<Longrightarrow> dtype (ts ! i) \<noteq> ?tys ! i \<Longrightarrow>
      ?st = InvalidArgument
                 (''cannot compute '' @ op_name @ '' as input #'' @ show_nat i
                    @ ''(zero-based)'' @ '' was expected to be a '' @ dts (?tys ! i)
                    @ '' tensor but is a '' @ dts (dtype (ts ! i)) @ '' tensor'')"
    by (rule ValidateInputTypes_dtype)
  have cd: "code ?st = (if length ?tys = length ts \<and> map dtype ts = ?tys then OK
                        else INVALID_ARGUMENT)"
  proof -
    have "map dtype ts = ?tys \<Longrightarrow> length ?tys = length ts"
      using length_map [of dtype ts] by simp
    then show ?thesis
      by (auto simp: ValidateInputTypes_code)
  qed
  have rej: "\<not> ok ?st \<Longrightarrow> op_name \<noteq> ''_BatchFunctionFallback'' \<Longrightarrow>
      ?D = Inr (Some (Suc (length (heap w))),
                replicate (length results) (Some (Suc (length (heap w)))),
                w\<lparr>heap := heap w @ [Concrete ChainValue,
                                      Error (fallback_diagnostic conv exec op_name ?st)],
                  thread_run_state := (thread_run_state w)\<lparr>input_tf_tensors := []\<rparr>\<rparr>)"
    by (rule dispatch_rejects [where get_or_create = get_or_create, OF assms])
  have exempt: "op_name = ''_BatchFunctionFallback'' \<Longrightarrow>
      (case ?D of
         Inl f \<Rightarrow> \<not> IsAsync kernel_runner \<and> (\<exists>k. f = NullOutput k)
       | Inr (c, rs, w') \<Rightarrow>
           invocations w' =
             invocations w @ [\<lparr>inv_kernel = kernel_name kernel_runner,
                               inv_async = IsAsync kernel_runner,
                               inv_inputs = map Some ts\<rparr>])"
    using dispatch_execute_invokes
            [where get_or_create = get_or_create and conv = conv and dts = dts
               and results = results and w = w, OF assms]
    by (auto split: sum.splits)
  show ?thesis
    unfolding Let_def
    using count dt cd rej exempt by blast
qed


text \<open>
  The claim as stated fails: an invocation of \<^verbatim>\<open>_BatchFunctionFallback\<close> with one argument
  for a kernel that declares two input types is not rejected.  Validation gives the
  invalid-argument status, yet the runner is called and the completion token is an
  available chain.
\<close>

theorem count_mismatch_not_rejected_counterexample:
  "length [\<lparr>dtype = 3, buffer = [5]\<rparr>] = 1 \<and> length (input_types \<lparr>kernel_name = ''BatchFunction'', input_types = [3, 3], num_outputs = 0,
                 runner_device = ''cpu'', IsAsync = False,
                 compute = (\<lambda>ins. \<lparr>out_status = Status_OK, out_tensors = (\<lambda>i. None)\<rparr>),
                 completes_inline = False\<rparr>) = 2
   \<and> ValidateInputTypes (\<lambda>d. if d = 3 then ''int32'' else ''float'') ''_BatchFunctionFallback'' [\<lparr>dtype = 3, buffer = [5]\<rparr>] (input_types \<lparr>kernel_name = ''BatchFunction'', input_types = [3, 3], num_outputs = 0,
                 runner_device = ''cpu'', IsAsync = False,
                 compute = (\<lambda>ins. \<lparr>out_status = Status_OK, out_tensors = (\<lambda>i. None)\<rparr>),
                 completes_inline = False\<rparr>)
       = InvalidArgument ''expected 2 inputs, got 1''
   \<and> (case KernelFallbackExecuteCompatCoreRuntimeDispatch code Inr
            (\<lambda>d. if d = 3 then ''int32'' else ''float'')
            (\<lambda>loc op dev n attrs. Inr \<lparr>kernel_name = ''BatchFunction'', input_types = [3, 3], num_outputs = 0,
                 runner_device = ''cpu'', IsAsync = False,
                 compute = (\<lambda>ins. \<lparr>out_status = Status_OK, out_tensors = (\<lambda>i. None)\<rparr>),
                 completes_inline = False\<rparr>)
            \<lparr>location = ''loc'',
         fallback_request_state =
           Some \<lparr>log_device_placement = False, custom_device = None\<rparr>\<rparr>
            ''_BatchFunctionFallback'' ''cpu'' [\<lparr>dtype = 3, buffer = [5]\<rparr>] [] ()
            \<lparr>heap = [], work_queue = [], pending = [], invocations = [],
         thread_run_state =
           \<lparr>input_tf_tensors = [], input_tf_tensor_values = [],
            params = \<lparr>p_device = [], p_op_kernel = []\<rparr>\<rparr>\<rparr> of
         Inl f \<Rightarrow> False
       | Inr (c, rs, w') \<Rightarrow>
           invocations w' = [\<lparr>inv_kernel = ''BatchFunction'', inv_async = False,
                               inv_inputs = [Some \<lparr>dtype = 3, buffer = [5]\<rparr>]\<rparr>]
         \<and> observe (heap w') c = Some (Concrete ChainValue))"
  by (simp add: Let_def KernelFallbackExecuteCompatCoreRuntimeDispatch_def
      MakeAvailableAsyncValueRef_def alloc_av_def ValidateInputTypes_def InvalidArgument_def
      show_nat.simps ok_def Status_OK_def with_cleanup_def clean_up_inputs_def
      KernelFallbackEmitError_eq resize_values_def rebind_values_def SetUpParams_def
      KernelFallbackExecuteCompatSyncInternal_def OpKernelContext_def kernel_runs_def
      deref_def observe_def)

theorem validation_rejects_unless_batch_function_fallback_witness:
  "ValidateInputTypes (\<lambda>d. if d = 3 then ''int32'' else ''float'') ''Add'' [\<lparr>dtype = 3, buffer = [5]\<rparr>] (input_types \<lparr>kernel_name = ''Add'', input_types = [3, 3], num_outputs = 0,
                 runner_device = ''cpu'', IsAsync = False,
                 compute = (\<lambda>ins. \<lparr>out_status = Status_OK, out_tensors = (\<lambda>i. None)\<rparr>),
                 completes_inline = False\<rparr>)
     = InvalidArgument ''expected 2 inputs, got 1''
   \<and> (case KernelFallbackExecuteCompatCoreRuntimeDispatch code Inr
            (\<lambda>d. if d = 3 then ''int32'' else ''float'')
            (\<lambda>loc op dev n attrs. Inr \<lparr>kernel_name = ''Add'', input_types = [3, 3], num_outputs = 0,
                 runner_device = ''cpu'', IsAsync = False,
                 compute = (\<lambda>ins. \<lparr>out_status = Status_OK, out_tensors = (\<lambda>i. None)\<rparr>),
                 completes_inline = False\<rparr>)
            \<lparr>location = ''loc'',
         fallback_request_state =
           Some \<lparr>log_device_placement = False, custom_device = None\<rparr>\<rparr>
            ''Add'' ''cpu'' [\<lparr>dtype = 3, buffer = [5]\<rparr>] [] ()
            \<lparr>heap = [], work_queue = [], pending = [], invocations = [],
         thread_run_state =
           \<lparr>input_tf_tensors = [], input_tf_tensor_values = [],
            params = \<lparr>p_device = [], p_op_kernel = []\<rparr>\<rparr>\<rparr> of
         Inl f \<Rightarrow> False
       | Inr (c, rs, w') \<Rightarrow>
           invocations w' = []
         \<and> observe (heap w') c = Some (Error \<lparr>diag_location = ''loc'',
                     diag_message = ''error running kernel fallback kernel Add: expected 2 inputs, got 1'',
                     diag_code = INVALID_ARGUMENT\<rparr>))
   \<and> ValidateInputTypes (\<lambda>d. if d = 3 then ''int32'' else ''float'') ''Add'' [\<lparr>dtype = 3, buffer = [5]\<rparr>, \<lparr>dtype = 1, buffer = [5]\<rparr>] (input_types \<lparr>kernel_name = ''Add'', input_types = [3, 3], num_outputs = 0,
                 runner_device = ''cpu'', IsAsync = False,
                 compute = (\<lambda>ins. \<lparr>out_status = Status_OK, out_tensors = (\<lambda>i. None)\<rparr>),
                 completes_inline = False\<rparr>)
       = InvalidArgument
           ''cannot compute Add as input #1(zero-based) was expected to be a int32 tensor but is a float tensor''
   \<and> (case KernelFallbackExecuteCompatCoreRuntimeDispatch code Inr
            (\<lambda>d. if d = 3 then ''int32'' else ''float'')
            (\<lambda>loc op dev n attrs. Inr \<lparr>kernel_name = ''Add'', input_types = [3, 3], num_outputs = 0,
                 runner_device = ''cpu'', IsAsync = False,
                 compute = (\<lambda>ins. \<lparr>out_status = Status_OK, out_tensors = (\<lambda>i. None)\<rparr>),
                 completes_inline = False\<rparr>)
            \<lparr>location = ''loc'',
         fallback_request_state =
           Some \<lparr>log_device_placement = False, custom_device = None\<rparr>\<rparr>
            ''Add'' ''cpu'' [\<lparr>dtype = 3, buffer = [5]\<rparr>, \<lparr>dtype = 1, buffer = [5]\<rparr>] [] ()
            \<lparr>heap = [], work_queue = [], pending = [], invocations = [],
         thread_run_state =
           \<lparr>input_tf_tensors = [], input_tf_tensor_values = [],
            params = \<lparr>p_device = [], p_op_kernel = []\<rparr>\<rparr>\<rparr> of
         Inl f \<Rightarrow> False
       | Inr (c, rs, w') \<Rightarrow>
           invocations w' = []
         \<and> observe (heap w') c = Some (Error \<lparr>diag_location = ''loc'',
                     diag_message = ''error running kernel fallback kernel Add: cannot compute Add as input #1(zero-based) was expected to be a int32 tensor but is a float tensor'',
                     diag_code = INVALID_ARGUMENT\<rparr>))
   \<and> (case KernelFallbackExecuteCompatCoreRuntimeDispatch code Inr
            (\<lambda>d. if d = 3 then ''int32'' else ''float'')
            (\<lambda>loc op dev n attrs. Inr \<lparr>kernel_name = ''BatchFunction'', input_types = [3, 3], num_outputs = 0,
                 runner_device = ''cpu'', IsAsync = False,
                 compute = (\<lambda>ins. \<lparr>out_status = Status_OK, out_tensors = (\<lambda>i. None)\<rparr>),
                 completes_inline = False\<rparr>)
            \<lparr>location = ''loc'',
         fallback_request_state =
           Some \<lparr>log_device_placement = False, custom_device = None\<rparr>\<rparr>
            ''_BatchFunctionFallback'' ''cpu'' [\<lparr>dtype = 3, buffer = [5]\<rparr>] [] ()
            \<lparr>heap = [], work_queue = [], pending = [], invocations = [],
         thread_run_state =
           \<lparr>input_tf_tensors = [], input_tf_tensor_values = [],
            params = \<lparr>p_device = [], p_op_kernel = []\<rparr>\<rparr>\<rparr> of
         Inl f \<Rightarrow> False
       | Inr (c, rs, w') \<Rightarrow>
           invocations w' = [\<lparr>inv_kernel = ''BatchFunction'', inv_async = False,
                               inv_inputs = [Some \<lparr>dtype = 3, buffer = [5]\<rparr>]\<rparr>])"
  using validation_rejects_unless_batch_function_fallback
          [where conv = code and to_tf = Inr
             and dts = "(\<lambda>d. if d = 3 then ''int32'' else ''float'')"
             and get_or_create = "\<lambda>loc op dev n attrs. Inr \<lparr>kernel_name = ''Add'', input_types = [3, 3], num_outputs = 0,
                 runner_device = ''cpu'', IsAsync = False,
                 compute = (\<lambda>ins. \<lparr>out_status = Status_OK, out_tensors = (\<lambda>i. None)\<rparr>),
                 completes_inline = False\<rparr>"
             and exec = "\<lparr>location = ''loc'',
         fallback_request_state =
           Some \<lparr>log_device_placement = False, custom_device = None\<rparr>\<rparr>"
             and frs = "\<lparr>log_device_placement = False, custom_device = None\<rparr>"
             and op_name = "''Add''" and device_name = "''cpu''" and arguments = "[\<lparr>dtype = 3, buffer = [5]\<rparr>]"
             and results = "[]" and attrs = "()" and kernel_runner = "\<lparr>kernel_name = ''Add'', input_types = [3, 3], num_outputs = 0,
                 runner_device = ''cpu'', IsAsync = False,
                 compute = (\<lambda>ins. \<lparr>out_status = Status_OK, out_tensors = (\<lambda>i. None)\<rparr>),
                 completes_inline = False\<rparr>"
             and ts = "[\<lparr>dtype = 3, buffer = [5]\<rparr>]" and i = 0
             and w = "\<lparr>heap = [], work_queue = [], pending = [], invocations = [],
         thread_run_state =
           \<lparr>input_tf_tensors = [], input_tf_tensor_values = [],
            params = \<lparr>p_device = [], p_op_kernel = []\<rparr>\<rparr>\<rparr>"]
        validation_rejects_unless_batch_function_fallback
          [where conv = code and to_tf = Inr
             and dts = "(\<lambda>d. if d = 3 then ''int32'' else ''float'')"
             and get_or_create = "\<lambda>loc op dev n attrs. Inr \<lparr>kernel_name = ''Add'', input_types = [3, 3], num_outputs = 0,
                 runner_device = ''cpu'', IsAsync = False,
                 compute = (\<lambda>ins. \<lparr>out_status = Status_OK, out_tensors = (\<lambda>i. None)\<rparr>),
                 completes_inline = False\<rparr>"
             and exec = "\<lparr>location = ''loc'',
         fallback_request_state =
           Some \<lparr>log_device_placement = False, custom_device = None\<rparr>\<rparr>"
             and frs = "\<lparr>log_device_placement = False, custom_device = None\<rparr>"
             and op_name = "''Add''" and device_name = "''cpu''" and arguments = "[\<lparr>dtype = 3, buffer = [5]\<rparr>, \<lparr>dtype = 1, buffer = [5]\<rparr>]"
             and results = "[]" and attrs = "()" and kernel_runner = "\<lparr>kernel_name = ''Add'', input_types = [3, 3], num_outputs = 0,
                 runner_device = ''cpu'', IsAsync = False,
                 compute = (\<lambda>ins. \<lparr>out_status = Status_OK, out_tensors = (\<lambda>i. None)\<rparr>),
                 completes_inline = False\<rparr>"
             and ts = "[\<lparr>dtype = 3, buffer = [5]\<rparr>, \<lparr>dtype = 1, buffer = [5]\<rparr>]" and i = 1
             and w = "\<lparr>heap = [], work_queue = [], pending = [], invocations = [],
         thread_run_state =
           \<lparr>input_tf_tensors = [], input_tf_tensor_values = [],
            params = \<lparr>p_device = [], p_op_kernel = []\<rparr>\<rparr>\<rparr>"]
        validation_rejects_unless_batch_function_fallback
          [where conv = code and to_tf = Inr
             and dts = "(\<lambda>d. if d = 3 then ''int32'' else ''float'')"
             and get_or_create = "\<lambda>loc op dev n attrs. Inr \<lparr>kernel_name = ''BatchFunction'', input_types = [3, 3], num_outputs = 0,
                 runner_device = ''cpu'', IsAsync = False,
                 compute = (\<lambda>ins. \<lparr>out_status = Status_OK, out_tensors = (\<lambda>i. None)\<rparr>),
                 completes_inline = False\<rparr>"
             and exec = "\<lparr>location = ''loc'',
         fallback_request_state =
           Some \<lparr>log_device_placement = False, custom_device = None\<rparr>\<rparr>"
             and frs = "\<lparr>log_device_placement = False, custom_device = None\<rparr>"
             and op_name = "''_BatchFunctionFallback''" and device_name = "''cpu''" and arguments = "[\<lparr>dtype = 3, buffer = [5]\<rparr>]"
             and results = "[]" and attrs = "()" and kernel_runner = "\<lparr>kernel_name = ''BatchFunction'', input_types = [3, 3], num_outputs = 0,
                 runner_device = ''cpu'', IsAsync = False,
                 compute = (\<lambda>ins. \<lparr>out_status = Status_OK, out_tensors = (\<lambda>i. None)\<rparr>),
                 completes_inline = False\<rparr>"
             and ts = "[\<lparr>dtype = 3, buffer = [5]\<rparr>]" and i = 0
             and w = "\<lparr>heap = [], work_queue = [], pending = [], invocations = [],
         thread_run_state =
           \<lparr>input_tf_tensors = [], input_tf_tensor_values = [],
            params = \<lparr>p_device = [], p_op_kernel = []\<rparr>\<rparr>\<rparr>"]
  by (simp add: Let_def KernelFallbackExecuteCompatCoreRuntimeDispatch_def
      MakeAvailableAsyncValueRef_def alloc_av_def ValidateInputTypes_def InvalidArgument_def
      show_nat.simps ok_def Status_OK_def with_cleanup_def clean_up_inputs_def
      KernelFallbackEmitError_eq resize_values_def rebind_values_def SetUpParams_def
      KernelFallbackExecuteCompatSyncInternal_def OpKernelContext_def kernel_runs_def
      deref_def observe_def)

subsection \<open>The exempted op\<close>

text \<open>
  Claim C10.  For the op name \<^verbatim>\<open>_BatchFunctionFallback\<close>, once the request state, the
  runner and the converted arguments are there, a failed validation does not stop the
  dispatch, whatever made it fail; a count of arguments that differs from the count of
  declared input types is one way for it to fail.  The dispatch goes on to rebind the
  handles, set up the parameters and call the runner, synchronously or asynchronously,
  with the converted arguments as inputs.
\<close>

theorem batch_function_fallback_ignores_validation_status:
  assumes "fallback_request_state exec = Some frs"
    and "get_or_create (location exec) ''_BatchFunctionFallback'' device_name
           (length arguments) attrs = Inr kernel_runner"
    and "ConvertInputTensors to_tf arguments = Inr ts"
    and "\<not> ok (ValidateInputTypes dts ''_BatchFunctionFallback'' ts (input_types kernel_runner))"
  shows
  "(let D = KernelFallbackExecuteCompatCoreRuntimeDispatch conv to_tf dts get_or_create
              exec ''_BatchFunctionFallback'' device_name arguments results attrs w;
        w2 = w\<lparr>heap := heap w @ [Concrete ChainValue],
               thread_run_state :=
                 SetUpParams kernel_runner frs
                   ((thread_run_state w)
                      \<lparr>input_tf_tensors := ts,
                       input_tf_tensor_values := map OwnedInput [0..<length ts]\<rparr>)\<rparr>
    in (length (input_types kernel_runner) \<noteq> length ts \<longrightarrow>
          ValidateInputTypes dts ''_BatchFunctionFallback'' ts (input_types kernel_runner)
            = InvalidArgument
                (''expected '' @ show_nat (length (input_types kernel_runner))
                   @ '' inputs, got '' @ show_nat (length ts)))
     \<and> D = with_cleanup
             (if IsAsync kernel_runner then
                KernelFallbackExecuteCompatAsyncInternal conv exec kernel_runner
                  (Some (length (heap w))) results w2
              else
                KernelFallbackExecuteCompatSyncInternal conv exec kernel_runner
                  (Some (length (heap w))) results w2)
     \<and> (case D of
           Inl f \<Rightarrow> \<not> IsAsync kernel_runner \<and> (\<exists>k. f = NullOutput k)
         | Inr (c, rs, w') \<Rightarrow>
             invocations w' =
               invocations w @ [\<lparr>inv_kernel = kernel_name kernel_runner,
                                 inv_async = IsAsync kernel_runner,
                                 inv_inputs = map Some ts\<rparr>]))"
proof -
  let ?D = "KernelFallbackExecuteCompatCoreRuntimeDispatch conv to_tf dts get_or_create
              exec ''_BatchFunctionFallback'' device_name arguments results attrs w"
  have count: "length (input_types kernel_runner) \<noteq> length ts \<Longrightarrow>
      ValidateInputTypes dts ''_BatchFunctionFallback'' ts (input_types kernel_runner)
        = InvalidArgument
            (''expected '' @ show_nat (length (input_types kernel_runner))
               @ '' inputs, got '' @ show_nat (length ts))"
    by (rule ValidateInputTypes_count)
  have exempt: "ok (ValidateInputTypes dts ''_BatchFunctionFallback'' ts (input_types kernel_runner))
                \<or> ''_BatchFunctionFallback'' = ''_BatchFunctionFallback''"
    by simp
  note ex = dispatch_executes
              [where get_or_create = get_or_create and conv = conv and dts = dts
                 and results = results and w = w, OF assms(1,2,3) exempt]
  have inv: "(case ?D of
           Inl f \<Rightarrow> \<not> IsAsync kernel_runner \<and> (\<exists>k. f = NullOutput k)
         | Inr (c, rs, w') \<Rightarrow>
             invocations w' =
               invocations w @ [\<lparr>inv_kernel = kernel_name kernel_runner,
                                 inv_async = IsAsync kernel_runner,
                                 inv_inputs = map Some ts\<rparr>])"
    using dispatch_execute_invokes
            [where get_or_create = get_or_create and conv = conv and dts = dts
               and results = results and w = w, OF assms(1,2,3) exempt]
    by (auto split: sum.splits)
  show ?thesis
    unfolding Let_def
    using count ex [unfolded Let_def] inv by blast
qed


theorem batch_function_fallback_ignores_validation_status_witness:
  "ValidateInputTypes (\<lambda>d. if d = 3 then ''int32'' else ''float'') ''_BatchFunctionFallback'' [\<lparr>dtype = 3, buffer = [5]\<rparr>, \<lparr>dtype = 1, buffer = [6]\<rparr>] (input_types \<lparr>kernel_name = ''BatchFunction'', input_types = [3], num_outputs = 1,
                 runner_device = ''cpu'', IsAsync = True,
                 compute = (\<lambda>ins. \<lparr>out_status = Status_OK,
                                      out_tensors = (\<lambda>i. if i = 0 then ins ! 0 else None)\<rparr>),
                 completes_inline = False\<rparr>)
     = InvalidArgument ''expected 1 inputs, got 2''
   \<and> (case KernelFallbackExecuteCompatCoreRuntimeDispatch code Inr
            (\<lambda>d. if d = 3 then ''int32'' else ''float'')
            (\<lambda>loc op dev n attrs. Inr \<lparr>kernel_name = ''BatchFunction'', input_types = [3], num_outputs = 1,
                 runner_device = ''cpu'', IsAsync = True,
                 compute = (\<lambda>ins. \<lparr>out_status = Status_OK,
                                      out_tensors = (\<lambda>i. if i = 0 then ins ! 0 else None)\<rparr>),
                 completes_inline = False\<rparr>)
            \<lparr>location = ''loc'',
         fallback_request_state =
           Some \<lparr>log_device_placement = False, custom_device = None\<rparr>\<rparr>
            ''_BatchFunctionFallback'' ''cpu'' [\<lparr>dtype = 3, buffer = [5]\<rparr>, \<lparr>dtype = 1, buffer = [6]\<rparr>] [None] ()
            \<lparr>heap = [], work_queue = [], pending = [], invocations = [],
         thread_run_state =
           \<lparr>input_tf_tensors = [], input_tf_tensor_values = [],
            params = \<lparr>p_device = [], p_op_kernel = []\<rparr>\<rparr>\<rparr> of
         Inl f \<Rightarrow> False
       | Inr (c, rs, w') \<Rightarrow>
           invocations w' = [\<lparr>inv_kernel = ''BatchFunction'', inv_async = True,
                               inv_inputs = [Some \<lparr>dtype = 3, buffer = [5]\<rparr>, Some \<lparr>dtype = 1, buffer = [6]\<rparr>]\<rparr>]
         \<and> c = Some 1 \<and> rs = [Some 2]
         \<and> heap w' = [Concrete ChainValue, Unconstructed, Unconstructed]
         \<and> length (pending w') = 1)"
  using batch_function_fallback_ignores_validation_status
          [where conv = code and to_tf = Inr
             and dts = "(\<lambda>d. if d = 3 then ''int32'' else ''float'')"
             and get_or_create = "\<lambda>loc op dev n attrs. Inr \<lparr>kernel_name = ''BatchFunction'', input_types = [3], num_outputs = 1,
                 runner_device = ''cpu'', IsAsync = True,
                 compute = (\<lambda>ins. \<lparr>out_status = Status_OK,
                                      out_tensors = (\<lambda>i. if i = 0 then ins ! 0 else None)\<rparr>),
                 completes_inline = False\<rparr>"
             and exec = "\<lparr>location = ''loc'',
         fallback_request_state =
           Some \<lparr>log_device_placement = False, custom_device = None\<rparr>\<rparr>"
             and frs = "\<lparr>log_device_placement = False, custom_device = None\<rparr>"
             and device_name = "''cpu''" and arguments = "[\<lparr>dtype = 3, buffer = [5]\<rparr>, \<lparr>dtype = 1, buffer = [6]\<rparr>]"
             and results = "[None]" and attrs = "()" and kernel_runner = "\<lparr>kernel_name = ''BatchFunction'', input_types = [3], num_outputs = 1,
                 runner_device = ''cpu'', IsAsync = True,
                 compute = (\<lambda>ins. \<lparr>out_status = Status_OK,
                                      out_tensors = (\<lambda>i. if i = 0 then ins ! 0 else None)\<rparr>),
                 completes_inline = False\<rparr>"
             and ts = "[\<lparr>dtype = 3, buffer = [5]\<rparr>, \<lparr>dtype = 1, buffer = [6]\<rparr>]"
             and w = "\<lparr>heap = [], work_queue = [], pending = [], invocations = [],
         thread_run_state =
           \<lparr>input_tf_tensors = [], input_tf_tensor_values = [],
            params = \<lparr>p_device = [], p_op_kernel = []\<rparr>\<rparr>\<rparr>"]
  by (simp add: Let_def KernelFallbackExecuteCompatCoreRuntimeDispatch_def
      MakeAvailableAsyncValueRef_def alloc_av_def ValidateInputTypes_def InvalidArgument_def
      show_nat.simps ok_def Status_OK_def with_cleanup_def clean_up_inputs_def
      resize_values_def rebind_values_def SetUpParams_def
      KernelFallbackExecuteCompatAsyncInternal_def async_publish_def
      MakeUnconstructedAsyncValueRef_def AsyncState_def OpKernelRunState_copy_def
      OpKernelContext_def RunAsync_def deref_def)

subsection \<open>A request without compatibility state\<close>

lemma execute_op_no_state:
  assumes "fallback_request_state exec = None"
  shows "KernelFallbackExecuteOp conv tbl args results op_chain frame exec w =
     Inr (map_option (\<lambda>_. length (heap w)) op_chain,
          replicate (length results) (Some (length (heap w))),
          w\<lparr>heap := heap w @
                 [Error (fallback_diagnostic conv exec (frame_op_name frame)
                    (NotFound ''KernelFallbackCompatRequestState not found in RequestContext.''))]\<rparr>)"
  using assms
  by (simp add: KernelFallbackExecuteOp_def KernelFallbackEmitError_eq)

text \<open>
  Claim C8.  When the request context holds no \<^verbatim>\<open>KernelFallbackCompatRequestState\<close>, each
  of the two dispatch entry points builds the not-found status and returns what error
  translation gives for it: one error value, whose classification is the translation of
  the not-found status, referenced by every output slot and by the completion token.
  Nothing else of the world changes: no runner is called, no callback is handed out, no
  work is enqueued, and the thread-local run state is untouched.
\<close>

theorem missing_request_state_is_fanned_out:
  assumes "fallback_request_state exec = None"
  shows
  "(let st = NotFound ''KernelFallbackCompatRequestState not found in RequestContext.'';
        a = length (heap w);
        n = length results;
        D = KernelFallbackExecuteCompatCoreRuntimeDispatch conv to_tf dts get_or_create
              exec op_name device_name arguments results attrs w;
        E = KernelFallbackExecuteOp conv tbl args results op_chain frame exec w
    in code st = NOT_FOUND
     \<and> D = (case KernelFallbackEmitError conv exec op_name (Some a) results st
                    (heap w @ [Concrete ChainValue]) of
              (c, rs, h') \<Rightarrow> Inr (c, rs, w\<lparr>heap := h'\<rparr>))
     \<and> D = Inr (Some (Suc a), replicate n (Some (Suc a)),
                w\<lparr>heap := heap w @ [Concrete ChainValue,
                                      Error (fallback_diagnostic conv exec op_name st)]\<rparr>)
     \<and> E = (case KernelFallbackEmitError conv exec (frame_op_name frame) op_chain results st
                    (heap w) of
              (c, rs, h') \<Rightarrow> Inr (c, rs, w\<lparr>heap := h'\<rparr>))
     \<and> E = Inr (map_option (\<lambda>_. a) op_chain, replicate n (Some a),
                w\<lparr>heap := heap w @
                       [Error (fallback_diagnostic conv exec (frame_op_name frame) st)]\<rparr>)
     \<and> (case D of
           Inl f \<Rightarrow> False
         | Inr (c, rs, w') \<Rightarrow>
             invocations w' = invocations w \<and> pending w' = pending w
           \<and> work_queue w' = work_queue w \<and> thread_run_state w' = thread_run_state w
           \<and> map (observe (heap w')) rs
               = replicate n (Some (Error (fallback_diagnostic conv exec op_name st)))
           \<and> observe (heap w') c = Some (Error (fallback_diagnostic conv exec op_name st)))
     \<and> (case E of
           Inl f \<Rightarrow> False
         | Inr (c, rs, w') \<Rightarrow>
             invocations w' = invocations w \<and> pending w' = pending w
           \<and> work_queue w' = work_queue w \<and> thread_run_state w' = thread_run_state w
           \<and> map (observe (heap w')) rs
               = replicate n (Some (Error (fallback_diagnostic conv exec
                                             (frame_op_name frame) st)))
           \<and> observe (heap w') c
               = map_option (\<lambda>_. Error (fallback_diagnostic conv exec (frame_op_name frame) st))
                   op_chain))"
proof -
  let ?st = "NotFound ''KernelFallbackCompatRequestState not found in RequestContext.''"
  have D: "KernelFallbackExecuteCompatCoreRuntimeDispatch conv to_tf dts get_or_create
              exec op_name device_name arguments results attrs w
           = Inr (Some (Suc (length (heap w))),
                  replicate (length results) (Some (Suc (length (heap w)))),
                  w\<lparr>heap := heap w @ [Concrete ChainValue,
                                        Error (fallback_diagnostic conv exec op_name ?st)]\<rparr>)"
    by (rule dispatch_no_state [OF assms])
  have E: "KernelFallbackExecuteOp conv tbl args results op_chain frame exec w
           = Inr (map_option (\<lambda>_. length (heap w)) op_chain,
                  replicate (length results) (Some (length (heap w))),
                  w\<lparr>heap := heap w @
                         [Error (fallback_diagnostic conv exec (frame_op_name frame) ?st)]\<rparr>)"
    by (rule execute_op_no_state [OF assms])
  have obsD: "map (observe (heap w @ [Concrete ChainValue,
                                      Error (fallback_diagnostic conv exec op_name ?st)]))
                (replicate (length results) (Some (Suc (length (heap w)))))
              = replicate (length results)
                  (Some (Error (fallback_diagnostic conv exec op_name ?st)))"
    by (simp add: observe_def nth_append)
  have obsE: "map (observe (heap w @
                       [Error (fallback_diagnostic conv exec (frame_op_name frame) ?st)]))
                (replicate (length results) (Some (length (heap w))))
              = replicate (length results)
                  (Some (Error (fallback_diagnostic conv exec (frame_op_name frame) ?st)))"
    by (simp add: observe_def)
  show ?thesis
    unfolding Let_def D E
    using obsD obsE
    by (cases op_chain)
       (simp_all add: KernelFallbackEmitError_eq NotFound_def observe_def nth_append)
qed


theorem missing_request_state_is_fanned_out_witness:
  "KernelFallbackExecuteCompatCoreRuntimeDispatch code Inr (\<lambda>d. ''t'')
       (\<lambda>loc op dev n attrs. Inr \<lparr>kernel_name = ''Add'', input_types = [3], num_outputs = 1,
                 runner_device = ''cpu'', IsAsync = False,
                 compute = (\<lambda>ins. \<lparr>out_status = Status_OK,
                                      out_tensors = (\<lambda>i. if i = 0 then ins ! 0 else None)\<rparr>),
                 completes_inline = False\<rparr>)
       \<lparr>location = ''loc'', fallback_request_state = None\<rparr> ''tf.Add'' ''cpu'' [\<lparr>dtype = 3, buffer = [5]\<rparr>] [None, None] ()
       \<lparr>heap = [], work_queue = [], pending = [], invocations = [],
         thread_run_state =
           \<lparr>input_tf_tensors = [], input_tf_tensor_values = [],
            params = \<lparr>p_device = [], p_op_kernel = []\<rparr>\<rparr>\<rparr>
     = Inr (Some 1, [Some 1, Some 1],
            \<lparr>heap = [], work_queue = [], pending = [], invocations = [],
         thread_run_state =
           \<lparr>input_tf_tensors = [], input_tf_tensor_values = [],
            params = \<lparr>p_device = [], p_op_kernel = []\<rparr>\<rparr>\<rparr>\<lparr>heap := [Concrete ChainValue, Error \<lparr>diag_location = ''loc'',
                  diag_message = ''error running kernel fallback kernel tf.Add: KernelFallbackCompatRequestState not found in RequestContext.'',
                  diag_code = NOT_FOUND\<rparr>]\<rparr>)
   \<and> KernelFallbackExecuteOp code [7 \<mapsto> \<lparr>kernel_name = ''Add'', input_types = [3], num_outputs = 1,
                 runner_device = ''cpu'', IsAsync = False,
                 compute = (\<lambda>ins. \<lparr>out_status = Status_OK,
                                      out_tensors = (\<lambda>i. if i = 0 then ins ! 0 else None)\<rparr>),
                 completes_inline = False\<rparr>] [] [None, None] None
       \<lparr>frame_device = ''cpu'', frame_op_key = 7, frame_op_name = ''tf.Add''\<rparr> \<lparr>location = ''loc'', fallback_request_state = None\<rparr>
       \<lparr>heap = [], work_queue = [], pending = [], invocations = [],
         thread_run_state =
           \<lparr>input_tf_tensors = [], input_tf_tensor_values = [],
            params = \<lparr>p_device = [], p_op_kernel = []\<rparr>\<rparr>\<rparr>
     = Inr (None, [Some 0, Some 0],
            \<lparr>heap = [], work_queue = [], pending = [], invocations = [],
         thread_run_state =
           \<lparr>input_tf_tensors = [], input_tf_tensor_values = [],
            params = \<lparr>p_device = [], p_op_kernel = []\<rparr>\<rparr>\<rparr>\<lparr>heap := [Error \<lparr>diag_location = ''loc'',
                  diag_message = ''error running kernel fallback kernel tf.Add: KernelFallbackCompatRequestState not found in RequestContext.'',
                  diag_code = NOT_FOUND\<rparr>]\<rparr>)"
  using missing_request_state_is_fanned_out
          [where conv = code and to_tf = Inr and dts = "\<lambda>d. ''t''"
             and get_or_create = "\<lambda>loc op dev n attrs. Inr \<lparr>kernel_name = ''Add'', input_types = [3], num_outputs = 1,
                 runner_device = ''cpu'', IsAsync = False,
                 compute = (\<lambda>ins. \<lparr>out_status = Status_OK,
                                      out_tensors = (\<lambda>i. if i = 0 then ins ! 0 else None)\<rparr>),
                 completes_inline = False\<rparr>"
             and exec = "\<lparr>location = ''loc'', fallback_request_state = None\<rparr>" and op_name = "''tf.Add''" and device_name = "''cpu''"
             and arguments = "[\<lparr>dtype = 3, buffer = [5]\<rparr>]" and results = "[None, None]" and attrs = "()"
             and tbl = "[7 \<mapsto> \<lparr>kernel_name = ''Add'', input_types = [3], num_outputs = 1,
                 runner_device = ''cpu'', IsAsync = False,
                 compute = (\<lambda>ins. \<lparr>out_status = Status_OK,
                                      out_tensors = (\<lambda>i. if i = 0 then ins ! 0 else None)\<rparr>),
                 completes_inline = False\<rparr>]" and args = "[]" and op_chain = None
             and frame = "\<lparr>frame_device = ''cpu'', frame_op_key = 7, frame_op_name = ''tf.Add''\<rparr>"
             and w = "\<lparr>heap = [], work_queue = [], pending = [], invocations = [],
         thread_run_state =
           \<lparr>input_tf_tensors = [], input_tf_tensor_values = [],
            params = \<lparr>p_device = [], p_op_kernel = []\<rparr>\<rparr>\<rparr>"]
  by (simp add: Let_def NotFound_def KernelFallbackEmitError_eq)

subsection \<open>Conversion of the arguments\<close>

lemma ConvertInputTensors_all:
  "map to_tf arguments = map Inr ts \<Longrightarrow> ConvertInputTensors to_tf arguments = Inr ts"
  by (induction arguments arbitrary: ts) auto

lemma ConvertInputTensors_first_failure:
  "map to_tf pre = map Inr ts \<Longrightarrow> to_tf a = Inl err \<Longrightarrow>
   ConvertInputTensors to_tf (pre @ a # post) = Inl err"
  by (induction pre arbitrary: ts) auto

lemma dispatch_emits_before_runner:
  assumes "ConvertInputTensors to_tf arguments = Inl err"
  shows "\<exists>st. KernelFallbackExecuteCompatCoreRuntimeDispatch conv to_tf dts get_or_create
           exec op_name device_name arguments results attrs w =
     Inr (Some (Suc (length (heap w))),
          replicate (length results) (Some (Suc (length (heap w)))),
          w\<lparr>heap := heap w @
                 [Concrete ChainValue, Error (fallback_diagnostic conv exec op_name st)]\<rparr>)"
proof (cases "fallback_request_state exec")
  case None
  show ?thesis
    by (rule exI) (rule dispatch_no_state [OF None])
next
  case (Some frs)
  show ?thesis
  proof (cases "get_or_create (location exec) op_name device_name (length arguments) attrs")
    case (Inl st)
    show ?thesis
      by (rule exI)
         (rule dispatch_no_runner [where get_or_create = get_or_create, OF Some Inl])
  next
    case (Inr kernel_runner)
    show ?thesis
      by (rule exI)
         (rule dispatch_conversion_fails [where get_or_create = get_or_create, OF Some Inr assms])
  qed
qed

text \<open>
  Claim C9.  \<^verbatim>\<open>ConvertInputTensors\<close> converts every argument, in order: when every
  conversion succeeds it gives the converted tensors, and when argument \<open>k\<close> is the first
  whose conversion fails it gives the message of that failure.  In the dispatch, once the
  request state and the runner are there, a conversion failure makes the function return
  what error translation gives for the internal status built from that message.  Whenever
  a conversion fails, whatever the earlier steps gave, the dispatch returns one error in
  every output slot and in the completion token and calls no runner.  When the conversion
  succeeds and the dispatch reaches the runner, the inputs of the runner are the converted
  tensors.
\<close>

theorem conversion_failure_is_internal_and_stops_dispatch:
  "(let D = KernelFallbackExecuteCompatCoreRuntimeDispatch conv to_tf dts get_or_create
              exec op_name device_name arguments results attrs w;
        e = Suc (length (heap w));
        n = length results
    in (map to_tf arguments = map Inr ts \<longrightarrow>
          ConvertInputTensors to_tf arguments = Inr ts
        \<and> (fallback_request_state exec = Some frs
           \<and> get_or_create (location exec) op_name device_name (length arguments) attrs
               = Inr kernel_runner
           \<and> (ok (ValidateInputTypes dts op_name ts (input_types kernel_runner))
              \<or> op_name = ''_BatchFunctionFallback'') \<longrightarrow>
             (case D of
                Inl f \<Rightarrow> \<not> IsAsync kernel_runner \<and> (\<exists>i. f = NullOutput i)
              | Inr (c, rs, w') \<Rightarrow>
                  invocations w' =
                    invocations w @ [\<lparr>inv_kernel = kernel_name kernel_runner,
                                      inv_async = IsAsync kernel_runner,
                                      inv_inputs = map Some ts\<rparr>])))
     \<and> (k < length arguments \<and> map to_tf (take k arguments) = map Inr pre
          \<and> to_tf (arguments ! k) = Inl err \<longrightarrow>
          ConvertInputTensors to_tf arguments = Inl err
        \<and> code (Internal err) = INTERNAL
        \<and> (fallback_request_state exec = Some frs
           \<and> get_or_create (location exec) op_name device_name (length arguments) attrs
               = Inr kernel_runner \<longrightarrow>
             D = Inr (Some e, replicate n (Some e),
                      w\<lparr>heap := heap w @
                             [Concrete ChainValue,
                              Error (fallback_diagnostic conv exec op_name (Internal err))]\<rparr>))
        \<and> (case D of
              Inl f \<Rightarrow> False
            | Inr (c, rs, w') \<Rightarrow>
                invocations w' = invocations w \<and> pending w' = pending w
              \<and> work_queue w' = work_queue w
              \<and> c = Some e \<and> rs = replicate n (Some e)
              \<and> (\<exists>st. heap w' = heap w @ [Concrete ChainValue,
                                            Error (fallback_diagnostic conv exec op_name st)]))))"
proof -
  let ?D = "KernelFallbackExecuteCompatCoreRuntimeDispatch conv to_tf dts get_or_create
              exec op_name device_name arguments results attrs w"
  have good: "ConvertInputTensors to_tf arguments = Inr ts"
    if "map to_tf arguments = map Inr ts"
    using that by (rule ConvertInputTensors_all)
  have reach: "(case ?D of
                Inl f \<Rightarrow> \<not> IsAsync kernel_runner \<and> (\<exists>i. f = NullOutput i)
              | Inr (c, rs, w') \<Rightarrow>
                  invocations w' =
                    invocations w @ [\<lparr>inv_kernel = kernel_name kernel_runner,
                                      inv_async = IsAsync kernel_runner,
                                      inv_inputs = map Some ts\<rparr>])"
    if "map to_tf arguments = map Inr ts" and "fallback_request_state exec = Some frs"
      and "get_or_create (location exec) op_name device_name (length arguments) attrs
               = Inr kernel_runner"
      and "ok (ValidateInputTypes dts op_name ts (input_types kernel_runner))
              \<or> op_name = ''_BatchFunctionFallback''"
    using dispatch_execute_invokes
            [where get_or_create = get_or_create and conv = conv and dts = dts
               and results = results and w = w, OF that(2,3) good [OF that(1)] that(4)]
    by (auto split: sum.splits)
  have bad: "ConvertInputTensors to_tf arguments = Inl err"
    if "k < length arguments" and "map to_tf (take k arguments) = map Inr pre"
      and "to_tf (arguments ! k) = Inl err"
  proof -
    have "arguments = take k arguments @ arguments ! k # drop (Suc k) arguments"
      using that(1) by (rule id_take_nth_drop)
    then show ?thesis
      using ConvertInputTensors_first_failure [OF that(2,3), of "drop (Suc k) arguments"]
      by simp
  qed
  have internal: "?D = Inr (Some (Suc (length (heap w))),
                        replicate (length results) (Some (Suc (length (heap w)))),
                        w\<lparr>heap := heap w @
                             [Concrete ChainValue,
                              Error (fallback_diagnostic conv exec op_name (Internal err))]\<rparr>)"
    if "ConvertInputTensors to_tf arguments = Inl err"
      and "fallback_request_state exec = Some frs"
      and "get_or_create (location exec) op_name device_name (length arguments) attrs
               = Inr kernel_runner"
    by (rule dispatch_conversion_fails [where get_or_create = get_or_create, OF that(2,3,1)])
  have stop: "(case ?D of
              Inl f \<Rightarrow> False
            | Inr (c, rs, w') \<Rightarrow>
                invocations w' = invocations w \<and> pending w' = pending w
              \<and> work_queue w' = work_queue w
              \<and> c = Some (Suc (length (heap w)))
              \<and> rs = replicate (length results) (Some (Suc (length (heap w))))
              \<and> (\<exists>st. heap w' = heap w @ [Concrete ChainValue,
                                            Error (fallback_diagnostic conv exec op_name st)]))"
    if "ConvertInputTensors to_tf arguments = Inl err"
  proof -
    from dispatch_emits_before_runner [OF that, of conv dts get_or_create exec op_name
                                          device_name results attrs w]
    obtain st where "?D = Inr (Some (Suc (length (heap w))),
          replicate (length results) (Some (Suc (length (heap w)))),
          w\<lparr>heap := heap w @
                 [Concrete ChainValue, Error (fallback_diagnostic conv exec op_name st)]\<rparr>)"
      by blast
    then show ?thesis by auto
  qed
  have cd: "code (Internal err) = INTERNAL" by (simp add: Internal_def)
  show ?thesis
    unfolding Let_def
    using good reach bad internal stop cd by blast
qed


theorem conversion_failure_is_internal_and_stops_dispatch_witness:
  "ConvertInputTensors (\<lambda>x. x) [Inr \<lparr>dtype = 3, buffer = [5]\<rparr>, Inl ''unsupported tensor''] = Inl ''unsupported tensor''
   \<and> KernelFallbackExecuteCompatCoreRuntimeDispatch code (\<lambda>x. x) (\<lambda>d. ''t'')
       (\<lambda>loc op dev n attrs. Inr \<lparr>kernel_name = ''Add'', input_types = [3, 3], num_outputs = 1,
                 runner_device = ''cpu'', IsAsync = False,
                 compute = (\<lambda>ins. \<lparr>out_status = Status_OK,
                                      out_tensors = (\<lambda>i. if i = 0 then ins ! 0 else None)\<rparr>),
                 completes_inline = False\<rparr>)
       \<lparr>location = ''loc'',
         fallback_request_state =
           Some \<lparr>log_device_placement = False, custom_device = None\<rparr>\<rparr> ''Add'' ''cpu'' [Inr \<lparr>dtype = 3, buffer = [5]\<rparr>, Inl ''unsupported tensor''] [None] ()
       \<lparr>heap = [], work_queue = [], pending = [], invocations = [],
         thread_run_state =
           \<lparr>input_tf_tensors = [], input_tf_tensor_values = [],
            params = \<lparr>p_device = [], p_op_kernel = []\<rparr>\<rparr>\<rparr>
     = Inr (Some 1, [Some 1],
            \<lparr>heap = [], work_queue = [], pending = [], invocations = [],
         thread_run_state =
           \<lparr>input_tf_tensors = [], input_tf_tensor_values = [],
            params = \<lparr>p_device = [], p_op_kernel = []\<rparr>\<rparr>\<rparr>\<lparr>heap := [Concrete ChainValue, Error \<lparr>diag_location = ''loc'',
                  diag_message = ''error running kernel fallback kernel Add: unsupported tensor'',
                  diag_code = INTERNAL\<rparr>]\<rparr>)
   \<and> ConvertInputTensors (\<lambda>x. x) [Inr \<lparr>dtype = 3, buffer = [5]\<rparr>, Inr \<lparr>dtype = 3, buffer = [5]\<rparr>] = Inr [\<lparr>dtype = 3, buffer = [5]\<rparr>, \<lparr>dtype = 3, buffer = [5]\<rparr>]
   \<and> (case KernelFallbackExecuteCompatCoreRuntimeDispatch code (\<lambda>x. x) (\<lambda>d. ''t'')
       (\<lambda>loc op dev n attrs. Inr \<lparr>kernel_name = ''Add'', input_types = [3, 3], num_outputs = 1,
                 runner_device = ''cpu'', IsAsync = False,
                 compute = (\<lambda>ins. \<lparr>out_status = Status_OK,
                                      out_tensors = (\<lambda>i. if i = 0 then ins ! 0 else None)\<rparr>),
                 completes_inline = False\<rparr>)
       \<lparr>location = ''loc'',
         fallback_request_state =
           Some \<lparr>log_device_placement = False, custom_device = None\<rparr>\<rparr> ''Add'' ''cpu'' [Inr \<lparr>dtype = 3, buffer = [5]\<rparr>, Inr \<lparr>dtype = 3, buffer = [5]\<rparr>] [None] ()
       \<lparr>heap = [], work_queue = [], pending = [], invocations = [],
         thread_run_state =
           \<lparr>input_tf_tensors = [], input_tf_tensor_values = [],
            params = \<lparr>p_device = [], p_op_kernel = []\<rparr>\<rparr>\<rparr> of
         Inl f \<Rightarrow> False
       | Inr (c, rs, w') \<Rightarrow>
           invocations w' = [\<lparr>inv_kernel = ''Add'', inv_async = False,
                               inv_inputs = [Some \<lparr>dtype = 3, buffer = [5]\<rparr>, Some \<lparr>dtype = 3, buffer = [5]\<rparr>]\<rparr>])"
  using conversion_failure_is_internal_and_stops_dispatch
          [where conv = code and to_tf = "\<lambda>x. x" and dts = "\<lambda>d. ''t''"
             and get_or_create = "\<lambda>loc op dev n attrs. Inr \<lparr>kernel_name = ''Add'', input_types = [3, 3], num_outputs = 1,
                 runner_device = ''cpu'', IsAsync = False,
                 compute = (\<lambda>ins. \<lparr>out_status = Status_OK,
                                      out_tensors = (\<lambda>i. if i = 0 then ins ! 0 else None)\<rparr>),
                 completes_inline = False\<rparr>"
             and exec = "\<lparr>location = ''loc'',
         fallback_request_state =
           Some \<lparr>log_device_placement = False, custom_device = None\<rparr>\<rparr>" and op_name = "''Add''" and device_name = "''cpu''"
             and frs = "\<lparr>log_device_placement = False, custom_device = None\<rparr>"
             and kernel_runner = "\<lparr>kernel_name = ''Add'', input_types = [3, 3], num_outputs = 1,
                 runner_device = ''cpu'', IsAsync = False,
                 compute = (\<lambda>ins. \<lparr>out_status = Status_OK,
                                      out_tensors = (\<lambda>i. if i = 0 then ins ! 0 else None)\<rparr>),
                 completes_inline = False\<rparr>"
             and arguments = "[Inr \<lparr>dtype = 3, buffer = [5]\<rparr>, Inl ''unsupported tensor'']" and results = "[None]" and attrs = "()"
             and ts = "[]" and k = 1 and pre = "[\<lparr>dtype = 3, buffer = [5]\<rparr>]" and err = "''unsupported tensor''"
             and w = "\<lparr>heap = [], work_queue = [], pending = [], invocations = [],
         thread_run_state =
           \<lparr>input_tf_tensors = [], input_tf_tensor_values = [],
            params = \<lparr>p_device = [], p_op_kernel = []\<rparr>\<rparr>\<rparr>"]
        conversion_failure_is_internal_and_stops_dispatch
          [where conv = code and to_tf = "\<lambda>x. x" and dts = "\<lambda>d. ''t''"
             and get_or_create = "\<lambda>loc op dev n attrs. Inr \<lparr>kernel_name = ''Add'', input_types = [3, 3], num_outputs = 1,
                 runner_device = ''cpu'', IsAsync = False,
                 compute = (\<lambda>ins. \<lparr>out_status = Status_OK,
                                      out_tensors = (\<lambda>i. if i = 0 then ins ! 0 else None)\<rparr>),
                 completes_inline = False\<rparr>"
             and exec = "\<lparr>location = ''loc'',
         fallback_request_state =
           Some \<lparr>log_device_placement = False, custom_device = None\<rparr>\<rparr>" and op_name = "''Add''" and device_name = "''cpu''"
             and frs = "\<lparr>log_device_placement = False, custom_device = None\<rparr>"
             and kernel_runner = "\<lparr>kernel_name = ''Add'', input_types = [3, 3], num_outputs = 1,
                 runner_device = ''cpu'', IsAsync = False,
                 compute = (\<lambda>ins. \<lparr>out_status = Status_OK,
                                      out_tensors = (\<lambda>i. if i = 0 then ins ! 0 else None)\<rparr>),
                 completes_inline = False\<rparr>"
             and arguments = "[Inr \<lparr>dtype = 3, buffer = [5]\<rparr>, Inr \<lparr>dtype = 3, buffer = [5]\<rparr>]" and results = "[None]" and attrs = "()"
             and ts = "[\<lparr>dtype = 3, buffer = [5]\<rparr>, \<lparr>dtype = 3, buffer = [5]\<rparr>]" and k = 0 and pre = "[]" and err = "''none''"
             and w = "\<lparr>heap = [], work_queue = [], pending = [], invocations = [],
         thread_run_state =
           \<lparr>input_tf_tensors = [], input_tf_tensor_values = [],
            params = \<lparr>p_device = [], p_op_kernel = []\<rparr>\<rparr>\<rparr>"]
  by (simp add: Let_def Internal_def ValidateInputTypes_def ok_def Status_OK_def
      KernelFallbackExecuteCompatCoreRuntimeDispatch_def MakeAvailableAsyncValueRef_def
      alloc_av_def with_cleanup_def clean_up_inputs_def resize_values_def rebind_values_def
      SetUpParams_def KernelFallbackExecuteCompatSyncInternal_def OpKernelContext_def
      kernel_runs_def deref_def FallbackTensor_def)

subsection \<open>The runner table\<close>

text \<open>
  Claim C5.  With the table as the specification describes it: \<^verbatim>\<open>Insert\<close> with a key that
  has a runner reports failure and leaves the table as it is, \<^verbatim>\<open>Insert\<close> with a fresh key
  stores the runner, and \<^verbatim>\<open>Get\<close> for the key then gives the runner that was stored first.
  \<^verbatim>\<open>KernelFallbackCreateOp\<close> never changes the entry of a key that has a runner; when the
  request state is there and the factory has built the new runner, it returns for such a
  key the string error that starts with
  \<^verbatim>\<open>KernelFallbackCreateOp: OpKernelRunner already exists: \<close> and ends with the op name as
  given, and for a fresh key it returns success and \<^verbatim>\<open>Get\<close> then gives the new runner.
\<close>

theorem KernelFallbackCreateOp_duplicate_key_keeps_first_runner:
  "(let C = KernelFallbackCreateOp create device num_args op_attr_array op_func_attr_array
              op_key op_name_attr exec tbl
    in OpKernelRunnerTable_Insert op_key runner tbl
         = (case tbl op_key of
              Some first \<Rightarrow> (False, tbl)
            | None \<Rightarrow> (True, tbl(op_key \<mapsto> runner)))
     \<and> OpKernelRunnerTable_Get op_key (snd (OpKernelRunnerTable_Insert op_key runner tbl))
         = (case tbl op_key of Some first \<Rightarrow> Some first | None \<Rightarrow> Some runner)
     \<and> (tbl op_key = Some first \<longrightarrow>
          snd C = tbl \<and> OpKernelRunnerTable_Get op_key (snd C) = Some first)
     \<and> (tbl op_key = Some first \<and> fallback_request_state exec = Some frs
          \<and> create (StripTfPrefix op_name_attr) device num_args op_attr_array
                op_func_attr_array frs = Inr runner \<longrightarrow>
          fst C = Inl (StringError
                         (''KernelFallbackCreateOp: OpKernelRunner already exists: ''
                            @ op_name_attr)))
     \<and> (tbl op_key = None \<and> fallback_request_state exec = Some frs
          \<and> create (StripTfPrefix op_name_attr) device num_args op_attr_array
                op_func_attr_array frs = Inr runner \<longrightarrow>
          C = (Inr (), tbl(op_key \<mapsto> runner))
        \<and> OpKernelRunnerTable_Get op_key (snd C) = Some runner
        \<and> KernelFallbackCreateOp create device num_args op_attr_array op_func_attr_array
              op_key op_name_attr exec (snd C)
            = (Inl (StringError
                      (''KernelFallbackCreateOp: OpKernelRunner already exists: ''
                         @ op_name_attr)),
               snd C)))"
proof -
  let ?C = "KernelFallbackCreateOp create device num_args op_attr_array op_func_attr_array
              op_key op_name_attr exec tbl"
  have ins: "OpKernelRunnerTable_Insert op_key runner tbl
         = (case tbl op_key of
              Some first \<Rightarrow> (False, tbl)
            | None \<Rightarrow> (True, tbl(op_key \<mapsto> runner)))"
    by (simp add: OpKernelRunnerTable_Insert_def)
  have get: "OpKernelRunnerTable_Get op_key (snd (OpKernelRunnerTable_Insert op_key runner tbl))
         = (case tbl op_key of Some first \<Rightarrow> Some first | None \<Rightarrow> Some runner)"
    by (simp add: OpKernelRunnerTable_Insert_def OpKernelRunnerTable_Get_def
        split: option.splits)
  have keep: "snd ?C = tbl \<and> OpKernelRunnerTable_Get op_key (snd ?C) = Some first"
    if "tbl op_key = Some first"
    using that
    by (simp add: KernelFallbackCreateOp_def OpKernelRunnerTable_Insert_def
        OpKernelRunnerTable_Get_def Let_def split: option.splits sum.splits)
  have dup: "fst ?C = Inl (StringError
                         (''KernelFallbackCreateOp: OpKernelRunner already exists: ''
                            @ op_name_attr))"
    if "tbl op_key = Some first" and "fallback_request_state exec = Some frs"
      and "create (StripTfPrefix op_name_attr) device num_args op_attr_array
                op_func_attr_array frs = Inr runner"
    using that
    by (simp add: KernelFallbackCreateOp_def OpKernelRunnerTable_Insert_def Let_def)
  have fresh: "?C = (Inr (), tbl(op_key \<mapsto> runner))"
    if "tbl op_key = None" and "fallback_request_state exec = Some frs"
      and "create (StripTfPrefix op_name_attr) device num_args op_attr_array
                op_func_attr_array frs = Inr runner"
    using that
    by (simp add: KernelFallbackCreateOp_def OpKernelRunnerTable_Insert_def Let_def)
  have again: "KernelFallbackCreateOp create device num_args op_attr_array op_func_attr_array
              op_key op_name_attr exec (tbl(op_key \<mapsto> runner))
            = (Inl (StringError
                      (''KernelFallbackCreateOp: OpKernelRunner already exists: ''
                         @ op_name_attr)),
               tbl(op_key \<mapsto> runner))"
    if "fallback_request_state exec = Some frs"
      and "create (StripTfPrefix op_name_attr) device num_args op_attr_array
                op_func_attr_array frs = Inr runner"
    using that
    by (simp add: KernelFallbackCreateOp_def OpKernelRunnerTable_Insert_def Let_def)
  show ?thesis
    unfolding Let_def
    using ins get keep dup fresh again
    by (simp add: OpKernelRunnerTable_Get_def)
qed


theorem KernelFallbackCreateOp_duplicate_key_keeps_first_runner_witness:
  "fst (KernelFallbackCreateOp (\<lambda>name dev n a b frs. Inr \<lparr>kernel_name = name, input_types = [3, 3], num_outputs = 1,
                 runner_device = ''cpu'', IsAsync = False,
                 compute = (\<lambda>ins. \<lparr>out_status = Status_OK, out_tensors = (\<lambda>i. None)\<rparr>),
                 completes_inline = False\<rparr>) ''cpu'' 2 () () 5 ''tf.Add'' \<lparr>location = ''loc'',
         fallback_request_state =
           Some \<lparr>log_device_placement = False, custom_device = None\<rparr>\<rparr>
             (Map.empty)) = Inr ()
   \<and> OpKernelRunnerTable_Get 5 (snd (KernelFallbackCreateOp (\<lambda>name dev n a b frs. Inr \<lparr>kernel_name = name, input_types = [3, 3], num_outputs = 1,
                 runner_device = ''cpu'', IsAsync = False,
                 compute = (\<lambda>ins. \<lparr>out_status = Status_OK, out_tensors = (\<lambda>i. None)\<rparr>),
                 completes_inline = False\<rparr>) ''cpu'' 2 () () 5 ''tf.Add'' \<lparr>location = ''loc'',
         fallback_request_state =
           Some \<lparr>log_device_placement = False, custom_device = None\<rparr>\<rparr>
             (Map.empty))) = Some \<lparr>kernel_name = ''Add'', input_types = [3, 3], num_outputs = 1,
                 runner_device = ''cpu'', IsAsync = False,
                 compute = (\<lambda>ins. \<lparr>out_status = Status_OK, out_tensors = (\<lambda>i. None)\<rparr>),
                 completes_inline = False\<rparr>
   \<and> fst (KernelFallbackCreateOp (\<lambda>name dev n a b frs. Inr \<lparr>kernel_name = name, input_types = [3, 3], num_outputs = 1,
                 runner_device = ''cpu'', IsAsync = False,
                 compute = (\<lambda>ins. \<lparr>out_status = Status_OK, out_tensors = (\<lambda>i. None)\<rparr>),
                 completes_inline = False\<rparr>) ''cpu'' 2 () () 5 ''tf.Mul'' \<lparr>location = ''loc'',
         fallback_request_state =
           Some \<lparr>log_device_placement = False, custom_device = None\<rparr>\<rparr>
             (snd (KernelFallbackCreateOp (\<lambda>name dev n a b frs. Inr \<lparr>kernel_name = name, input_types = [3, 3], num_outputs = 1,
                 runner_device = ''cpu'', IsAsync = False,
                 compute = (\<lambda>ins. \<lparr>out_status = Status_OK, out_tensors = (\<lambda>i. None)\<rparr>),
                 completes_inline = False\<rparr>) ''cpu'' 2 () () 5 ''tf.Add'' \<lparr>location = ''loc'',
         fallback_request_state =
           Some \<lparr>log_device_placement = False, custom_device = None\<rparr>\<rparr>
             (Map.empty))))
       = Inl (StringError ''KernelFallbackCreateOp: OpKernelRunner already exists: tf.Mul'')
   \<and> OpKernelRunnerTable_Get 5 (snd (KernelFallbackCreateOp (\<lambda>name dev n a b frs. Inr \<lparr>kernel_name = name, input_types = [3, 3], num_outputs = 1,
                 runner_device = ''cpu'', IsAsync = False,
                 compute = (\<lambda>ins. \<lparr>out_status = Status_OK, out_tensors = (\<lambda>i. None)\<rparr>),
                 completes_inline = False\<rparr>) ''cpu'' 2 () () 5 ''tf.Mul'' \<lparr>location = ''loc'',
         fallback_request_state =
           Some \<lparr>log_device_placement = False, custom_device = None\<rparr>\<rparr>
             (snd (KernelFallbackCreateOp (\<lambda>name dev n a b frs. Inr \<lparr>kernel_name = name, input_types = [3, 3], num_outputs = 1,
                 runner_device = ''cpu'', IsAsync = False,
                 compute = (\<lambda>ins. \<lparr>out_status = Status_OK, out_tensors = (\<lambda>i. None)\<rparr>),
                 completes_inline = False\<rparr>) ''cpu'' 2 () () 5 ''tf.Add'' \<lparr>location = ''loc'',
         fallback_request_state =
           Some \<lparr>log_device_placement = False, custom_device = None\<rparr>\<rparr>
             (Map.empty))))) = Some \<lparr>kernel_name = ''Add'', input_types = [3, 3], num_outputs = 1,
                 runner_device = ''cpu'', IsAsync = False,
                 compute = (\<lambda>ins. \<lparr>out_status = Status_OK, out_tensors = (\<lambda>i. None)\<rparr>),
                 completes_inline = False\<rparr>"
  using KernelFallbackCreateOp_duplicate_key_keeps_first_runner
          [where create = "(\<lambda>name dev n a b frs. Inr \<lparr>kernel_name = name, input_types = [3, 3], num_outputs = 1,
                 runner_device = ''cpu'', IsAsync = False,
                 compute = (\<lambda>ins. \<lparr>out_status = Status_OK, out_tensors = (\<lambda>i. None)\<rparr>),
                 completes_inline = False\<rparr>)" and device = "''cpu''" and num_args = 2
             and op_attr_array = "()" and op_func_attr_array = "()" and op_key = 5
             and op_name_attr = "''tf.Add''" and exec = "\<lparr>location = ''loc'',
         fallback_request_state =
           Some \<lparr>log_device_placement = False, custom_device = None\<rparr>\<rparr>"
             and frs = "\<lparr>log_device_placement = False, custom_device = None\<rparr>"
             and tbl = "Map.empty" and runner = "\<lparr>kernel_name = ''Add'', input_types = [3, 3], num_outputs = 1,
                 runner_device = ''cpu'', IsAsync = False,
                 compute = (\<lambda>ins. \<lparr>out_status = Status_OK, out_tensors = (\<lambda>i. None)\<rparr>),
                 completes_inline = False\<rparr>" and first = "\<lparr>kernel_name = ''Add'', input_types = [3, 3], num_outputs = 1,
                 runner_device = ''cpu'', IsAsync = False,
                 compute = (\<lambda>ins. \<lparr>out_status = Status_OK, out_tensors = (\<lambda>i. None)\<rparr>),
                 completes_inline = False\<rparr>"]
        KernelFallbackCreateOp_duplicate_key_keeps_first_runner
          [where create = "(\<lambda>name dev n a b frs. Inr \<lparr>kernel_name = name, input_types = [3, 3], num_outputs = 1,
                 runner_device = ''cpu'', IsAsync = False,
                 compute = (\<lambda>ins. \<lparr>out_status = Status_OK, out_tensors = (\<lambda>i. None)\<rparr>),
                 completes_inline = False\<rparr>)" and device = "''cpu''" and num_args = 2
             and op_attr_array = "()" and op_func_attr_array = "()" and op_key = 5
             and op_name_attr = "''tf.Mul''" and exec = "\<lparr>location = ''loc'',
         fallback_request_state =
           Some \<lparr>log_device_placement = False, custom_device = None\<rparr>\<rparr>"
             and frs = "\<lparr>log_device_placement = False, custom_device = None\<rparr>"
             and tbl = "[5 \<mapsto> \<lparr>kernel_name = ''Add'', input_types = [3, 3], num_outputs = 1,
                 runner_device = ''cpu'', IsAsync = False,
                 compute = (\<lambda>ins. \<lparr>out_status = Status_OK, out_tensors = (\<lambda>i. None)\<rparr>),
                 completes_inline = False\<rparr>]" and runner = "\<lparr>kernel_name = ''Mul'', input_types = [3, 3], num_outputs = 1,
                 runner_device = ''cpu'', IsAsync = False,
                 compute = (\<lambda>ins. \<lparr>out_status = Status_OK, out_tensors = (\<lambda>i. None)\<rparr>),
                 completes_inline = False\<rparr>" and first = "\<lparr>kernel_name = ''Add'', input_types = [3, 3], num_outputs = 1,
                 runner_device = ''cpu'', IsAsync = False,
                 compute = (\<lambda>ins. \<lparr>out_status = Status_OK, out_tensors = (\<lambda>i. None)\<rparr>),
                 completes_inline = False\<rparr>"]
  by (simp add: Let_def StripTfPrefix_def OpKernelRunnerTable_Get_def
      KernelFallbackCreateOp_def OpKernelRunnerTable_Insert_def)

subsection \<open>The resource array\<close>

lemma FallbackSetResource_eq:
  "fallback_request_state exec = Some frs \<Longrightarrow>
   FallbackSetResource arg index exec s =
     (Inr (),
      fst s @ [Concrete (TensorValue \<lparr>ft_tensor = ft_tensor arg, is_immutable = True\<rparr>)],
      (snd s)(index \<mapsto> length (fst s)))"
  by (simp add: FallbackSetResource_def SetResource_def ImmutableTensor_Create_def
      MakeAvailableAsyncValueRef_def alloc_av_def)

lemma FallbackGetResource_one:
  "fallback_request_state exec = Some frs \<Longrightarrow> results \<noteq> [] \<Longrightarrow> snd s index = Some a \<Longrightarrow>
   FallbackGetResource unknown in_ch results [index] exec s
     = Inr (in_ch, results[0 := Some a], fst s)"
  by (simp add: FallbackGetResource_def GetResource_def)

lemma get_resources_general:
  "map arr indices = map Some addrs \<Longrightarrow> i + length indices \<le> length results \<Longrightarrow>
   get_resources arr indices i results =
     Inr (take i results @ map Some addrs @ drop (i + length indices) results)"
proof (induction indices arbitrary: i results addrs)
  case Nil
  then show ?case by simp
next
  case (Cons index indices)
  from Cons.prems(1) obtain a addrs' where
    addrs: "addrs = a # addrs'" and ai: "arr index = Some a"
    and rest: "map arr indices = map Some addrs'"
    by (cases addrs) auto
  have lt: "i < length results" using Cons.prems(2) by simp
  have len: "Suc i + length indices \<le> length (results[i := Some a])"
    using Cons.prems(2) by simp
  have tk: "take (Suc i) (results[i := Some a]) = take i results @ [Some a]"
    using lt by (simp add: take_Suc_conv_app_nth)
  have dr: "drop (Suc i + length indices) (results[i := Some a])
              = drop (Suc i + length indices) results"
    by simp
  have step: "get_resources arr (index # indices) i results
                = get_resources arr indices (Suc i) (results[i := Some a])"
    using lt by (simp add: GetResource_def ai)
  show ?case
    unfolding step Cons.IH [OF rest len] tk dr addrs by simp
qed

lemma FallbackGetResource_list:
  "fallback_request_state exec = Some frs \<Longrightarrow> map (snd s) indices = map Some addrs \<Longrightarrow>
   length indices \<le> length results \<Longrightarrow>
   FallbackGetResource unknown in_ch results indices exec s
     = Inr (in_ch, map Some addrs @ drop (length indices) results, fst s)"
  using get_resources_general [of "snd s" indices addrs 0 results]
  by (simp add: FallbackGetResource_def)

text \<open>
  Claim C6.  With the resource array as the specification describes it and the request
  state in place: \<^verbatim>\<open>FallbackSetResource\<close> at an index stores a new available future that
  holds the immutable wrapper of the tensor of its argument, binds the index to it and
  leaves every other index as it was.  \<^verbatim>\<open>FallbackGetResource\<close> for any list of indices
  that are all set, with a result slot for each, then puts in result \<open>j\<close> a reference to
  the future bound to the \<open>j\<close>-th requested index, passes the chain through and leaves the
  store and the array unchanged: wherever the index just set is requested, the tensor
  read is the tensor that was set, and a repeated get gives the same.  A second set at the
  same index binds the index to the wrapper of the second tensor, which is what a later
  get gives, while the future handed out before still holds the first tensor.
\<close>

theorem FallbackSetResource_then_FallbackGetResource:
  assumes "fallback_request_state exec = Some frs"
  shows
  "(let a = length (fst s);
        stored = Concrete (TensorValue \<lparr>ft_tensor = ft_tensor arg, is_immutable = True\<rparr>);
        stored_b = Concrete (TensorValue \<lparr>ft_tensor = ft_tensor arg_b, is_immutable = True\<rparr>);
        s1 = snd (FallbackSetResource arg index exec s);
        s2 = snd (FallbackSetResource arg_b index exec s1)
    in FallbackSetResource arg index exec s
         = (Inr (), fst s @ [stored], (snd s)(index \<mapsto> a))
     \<and> observe (fst s1) (Some a) = Some stored
     \<and> get_FallbackTensor (fst s1) a
         = Some \<lparr>ft_tensor = ft_tensor arg, is_immutable = True\<rparr>
     \<and> (length indices \<le> length results
          \<and> map ((snd s)(index \<mapsto> a)) indices = map Some addrs \<longrightarrow>
          FallbackGetResource unknown in_ch results indices exec s1
            = Inr (in_ch, map Some addrs @ drop (length indices) results, fst s1)
        \<and> (j < length indices \<and> indices ! j = index \<longrightarrow>
             (map Some addrs @ drop (length indices) results) ! j = Some a
           \<and> observe (fst s1) ((map Some addrs @ drop (length indices) results) ! j)
               = Some stored)
        \<and> (j < length indices \<and> indices ! j \<noteq> index \<longrightarrow>
             (map Some addrs @ drop (length indices) results) ! j = snd s (indices ! j)))
     \<and> (results \<noteq> [] \<longrightarrow>
          FallbackGetResource unknown in_ch results [index] exec s1
            = Inr (in_ch, results[0 := Some a], fst s1))
     \<and> FallbackSetResource arg_b index exec s1
         = (Inr (), fst s @ [stored, stored_b], (snd s)(index \<mapsto> Suc a))
     \<and> (length indices \<le> length results
          \<and> map ((snd s)(index \<mapsto> Suc a)) indices = map Some addrs_b \<longrightarrow>
          FallbackGetResource unknown in_ch results indices exec s2
            = Inr (in_ch, map Some addrs_b @ drop (length indices) results, fst s2)
        \<and> (j < length indices \<and> indices ! j = index \<longrightarrow>
             (map Some addrs_b @ drop (length indices) results) ! j = Some (Suc a)
           \<and> observe (fst s2) ((map Some addrs_b @ drop (length indices) results) ! j)
               = Some stored_b))
     \<and> (results \<noteq> [] \<longrightarrow>
          FallbackGetResource unknown in_ch results [index] exec s2
            = Inr (in_ch, results[0 := Some (Suc a)], fst s2))
     \<and> observe (fst s2) (Some (Suc a)) = Some stored_b
     \<and> observe (fst s2) (Some a) = Some stored)"
proof -
  let ?a = "length (fst s)"
  let ?stored = "Concrete (TensorValue \<lparr>ft_tensor = ft_tensor arg, is_immutable = True\<rparr>)"
  let ?stored_b = "Concrete (TensorValue \<lparr>ft_tensor = ft_tensor arg_b, is_immutable = True\<rparr>)"
  let ?s1 = "(fst s @ [?stored], (snd s)(index \<mapsto> ?a))"
  let ?s2 = "(fst s @ [?stored, ?stored_b], (snd s)(index \<mapsto> Suc ?a))"
  have set1: "FallbackSetResource arg index exec s = (Inr (), ?s1)"
    by (rule FallbackSetResource_eq [OF assms])
  have set2: "FallbackSetResource arg_b index exec ?s1 = (Inr (), ?s2)"
    using FallbackSetResource_eq [OF assms, of arg_b index ?s1] by simp
  have pos: "(map Some xs @ drop (length indices) results) ! j = arr (indices ! j)"
    if "map arr indices = map Some xs" and "j < length indices"
    for arr :: "64 word \<Rightarrow> addr option" and xs
  proof -
    have l: "length xs = length indices" using arg_cong [OF that(1), of length] by simp
    have "map arr indices ! j = map Some xs ! j" by (simp add: that(1))
    then show ?thesis using that(2) l by (simp add: nth_append)
  qed
  have get1: "FallbackGetResource unknown in_ch results indices exec ?s1
            = Inr (in_ch, map Some addrs @ drop (length indices) results, fst ?s1)"
    if "length indices \<le> length results"
      and "map ((snd s)(index \<mapsto> ?a)) indices = map Some addrs"
    using FallbackGetResource_list [OF assms, of ?s1 indices addrs results unknown in_ch] that
    by simp
  have get2: "FallbackGetResource unknown in_ch results indices exec ?s2
            = Inr (in_ch, map Some addrs_b @ drop (length indices) results, fst ?s2)"
    if "length indices \<le> length results"
      and "map ((snd s)(index \<mapsto> Suc ?a)) indices = map Some addrs_b"
    using FallbackGetResource_list [OF assms, of ?s2 indices addrs_b results unknown in_ch] that
    by simp
  have one1: "FallbackGetResource unknown in_ch results [index] exec ?s1
            = Inr (in_ch, results[0 := Some ?a], fst ?s1)" if "results \<noteq> []"
    using FallbackGetResource_one [OF assms that, of ?s1 index ?a] by simp
  have one2: "FallbackGetResource unknown in_ch results [index] exec ?s2
            = Inr (in_ch, results[0 := Some (Suc ?a)], fst ?s2)" if "results \<noteq> []"
    using FallbackGetResource_one [OF assms that, of ?s2 index "Suc ?a"] by simp
  have hit1: "(map Some addrs @ drop (length indices) results) ! j = Some ?a"
    if "map ((snd s)(index \<mapsto> ?a)) indices = map Some addrs"
      and "j < length indices" and "indices ! j = index"
    using pos [OF that(1,2)] that(3) by simp
  have miss1: "(map Some addrs @ drop (length indices) results) ! j = snd s (indices ! j)"
    if "map ((snd s)(index \<mapsto> ?a)) indices = map Some addrs"
      and "j < length indices" and "indices ! j \<noteq> index"
    using pos [OF that(1,2)] that(3) by simp
  have hit2: "(map Some addrs_b @ drop (length indices) results) ! j = Some (Suc ?a)"
    if "map ((snd s)(index \<mapsto> Suc ?a)) indices = map Some addrs_b"
      and "j < length indices" and "indices ! j = index"
    using pos [OF that(1,2)] that(3) by simp
  have obs: "observe (fst ?s1) (Some ?a) = Some ?stored"
    "observe (fst ?s2) (Some (Suc ?a)) = Some ?stored_b"
    "observe (fst ?s2) (Some ?a) = Some ?stored"
    "get_FallbackTensor (fst ?s1) ?a = Some \<lparr>ft_tensor = ft_tensor arg, is_immutable = True\<rparr>"
    by (simp_all add: observe_def get_FallbackTensor_def nth_append)
  show ?thesis
    unfolding Let_def set1 snd_conv set2
    using get1 get2 one1 one2 hit1 miss1 hit2 obs
    by (simp del: fun_upd_apply)
qed


theorem FallbackSetResource_then_FallbackGetResource_witness:
  "fst (FallbackSetResource \<lparr>ft_tensor = \<lparr>dtype = 1, buffer = [4, 2]\<rparr>, is_immutable = False\<rparr> 2 \<lparr>location = ''loc'',
         fallback_request_state =
           Some \<lparr>log_device_placement = False, custom_device = None\<rparr>\<rparr> (snd (FallbackSetResource \<lparr>ft_tensor = \<lparr>dtype = 1, buffer = [7]\<rparr>, is_immutable = False\<rparr> 3 \<lparr>location = ''loc'',
         fallback_request_state =
           Some \<lparr>log_device_placement = False, custom_device = None\<rparr>\<rparr> ([Concrete ChainValue], Map.empty)))) = Inr ()
   \<and> FallbackGetResource UNKNOWN 0 [None, None] [3, 2] \<lparr>location = ''loc'',
         fallback_request_state =
           Some \<lparr>log_device_placement = False, custom_device = None\<rparr>\<rparr>
       (snd (FallbackSetResource \<lparr>ft_tensor = \<lparr>dtype = 1, buffer = [4, 2]\<rparr>, is_immutable = False\<rparr> 2 \<lparr>location = ''loc'',
         fallback_request_state =
           Some \<lparr>log_device_placement = False, custom_device = None\<rparr>\<rparr>
          (snd (FallbackSetResource \<lparr>ft_tensor = \<lparr>dtype = 1, buffer = [7]\<rparr>, is_immutable = False\<rparr> 3 \<lparr>location = ''loc'',
         fallback_request_state =
           Some \<lparr>log_device_placement = False, custom_device = None\<rparr>\<rparr> ([Concrete ChainValue], Map.empty)))))
     = Inr (0, [Some 1, Some 2],
            [Concrete ChainValue, Concrete (TensorValue \<lparr>ft_tensor = \<lparr>dtype = 1, buffer = [7]\<rparr>, is_immutable = True\<rparr>), Concrete (TensorValue \<lparr>ft_tensor = \<lparr>dtype = 1, buffer = [4, 2]\<rparr>, is_immutable = True\<rparr>)])
   \<and> FallbackGetResource UNKNOWN 0 [None, None] [2] \<lparr>location = ''loc'',
         fallback_request_state =
           Some \<lparr>log_device_placement = False, custom_device = None\<rparr>\<rparr>
       (snd (FallbackSetResource \<lparr>ft_tensor = \<lparr>dtype = 1, buffer = [4, 2]\<rparr>, is_immutable = False\<rparr> 2 \<lparr>location = ''loc'',
         fallback_request_state =
           Some \<lparr>log_device_placement = False, custom_device = None\<rparr>\<rparr>
          (snd (FallbackSetResource \<lparr>ft_tensor = \<lparr>dtype = 1, buffer = [7]\<rparr>, is_immutable = False\<rparr> 3 \<lparr>location = ''loc'',
         fallback_request_state =
           Some \<lparr>log_device_placement = False, custom_device = None\<rparr>\<rparr> ([Concrete ChainValue], Map.empty)))))
     = Inr (0, [Some 2, None],
            [Concrete ChainValue, Concrete (TensorValue \<lparr>ft_tensor = \<lparr>dtype = 1, buffer = [7]\<rparr>, is_immutable = True\<rparr>), Concrete (TensorValue \<lparr>ft_tensor = \<lparr>dtype = 1, buffer = [4, 2]\<rparr>, is_immutable = True\<rparr>)])
   \<and> FallbackGetResource UNKNOWN 0 [None, None] [3, 2] \<lparr>location = ''loc'',
         fallback_request_state =
           Some \<lparr>log_device_placement = False, custom_device = None\<rparr>\<rparr>
       (snd (FallbackSetResource \<lparr>ft_tensor = \<lparr>dtype = 1, buffer = [9]\<rparr>, is_immutable = False\<rparr> 2 \<lparr>location = ''loc'',
         fallback_request_state =
           Some \<lparr>log_device_placement = False, custom_device = None\<rparr>\<rparr>
          (snd (FallbackSetResource \<lparr>ft_tensor = \<lparr>dtype = 1, buffer = [4, 2]\<rparr>, is_immutable = False\<rparr> 2 \<lparr>location = ''loc'',
         fallback_request_state =
           Some \<lparr>log_device_placement = False, custom_device = None\<rparr>\<rparr>
          (snd (FallbackSetResource \<lparr>ft_tensor = \<lparr>dtype = 1, buffer = [7]\<rparr>, is_immutable = False\<rparr> 3 \<lparr>location = ''loc'',
         fallback_request_state =
           Some \<lparr>log_device_placement = False, custom_device = None\<rparr>\<rparr> ([Concrete ChainValue], Map.empty)))))))
     = Inr (0, [Some 1, Some 3],
            [Concrete ChainValue, Concrete (TensorValue \<lparr>ft_tensor = \<lparr>dtype = 1, buffer = [7]\<rparr>, is_immutable = True\<rparr>), Concrete (TensorValue \<lparr>ft_tensor = \<lparr>dtype = 1, buffer = [4, 2]\<rparr>, is_immutable = True\<rparr>), Concrete (TensorValue \<lparr>ft_tensor = \<lparr>dtype = 1, buffer = [9]\<rparr>, is_immutable = True\<rparr>)])"
  using FallbackSetResource_then_FallbackGetResource
          [where exec = "\<lparr>location = ''loc'',
         fallback_request_state =
           Some \<lparr>log_device_placement = False, custom_device = None\<rparr>\<rparr>"
             and frs = "\<lparr>log_device_placement = False, custom_device = None\<rparr>"
             and results = "[None, None]"
             and s = "(snd (FallbackSetResource \<lparr>ft_tensor = \<lparr>dtype = 1, buffer = [7]\<rparr>, is_immutable = False\<rparr> 3 \<lparr>location = ''loc'',
         fallback_request_state =
           Some \<lparr>log_device_placement = False, custom_device = None\<rparr>\<rparr> ([Concrete ChainValue], Map.empty)))"
             and arg = "\<lparr>ft_tensor = \<lparr>dtype = 1, buffer = [4, 2]\<rparr>, is_immutable = False\<rparr>" and arg_b = "\<lparr>ft_tensor = \<lparr>dtype = 1, buffer = [9]\<rparr>, is_immutable = False\<rparr>"
             and index = 2 and indices = "[3, 2]" and addrs = "[1, 2]" and addrs_b = "[1, 3]"
             and j = 1 and unknown = UNKNOWN and in_ch = 0]
        FallbackSetResource_then_FallbackGetResource
          [where exec = "\<lparr>location = ''loc'',
         fallback_request_state =
           Some \<lparr>log_device_placement = False, custom_device = None\<rparr>\<rparr>"
             and frs = "\<lparr>log_device_placement = False, custom_device = None\<rparr>"
             and results = "[None, None]"
             and s = "(snd (FallbackSetResource \<lparr>ft_tensor = \<lparr>dtype = 1, buffer = [7]\<rparr>, is_immutable = False\<rparr> 3 \<lparr>location = ''loc'',
         fallback_request_state =
           Some \<lparr>log_device_placement = False, custom_device = None\<rparr>\<rparr> ([Concrete ChainValue], Map.empty)))"
             and arg = "\<lparr>ft_tensor = \<lparr>dtype = 1, buffer = [4, 2]\<rparr>, is_immutable = False\<rparr>" and arg_b = "\<lparr>ft_tensor = \<lparr>dtype = 1, buffer = [9]\<rparr>, is_immutable = False\<rparr>"
             and index = 2 and indices = "[3, 2]" and addrs = "[1, 2]" and addrs_b = "[1, 3]"
             and j = 0 and unknown = UNKNOWN and in_ch = 0]
  by (simp add: Let_def FallbackSetResource_def SetResource_def ImmutableTensor_Create_def
      MakeAvailableAsyncValueRef_def alloc_av_def FallbackGetResource_def GetResource_def)

subsection \<open>The thread-local run state across invocations\<close>

lemma length_resize_values: "length (resize_values n vs) = n"
  by (simp add: resize_values_def)

lemma prepare_inputs_values:
  "prepare_inputs h args i rs = Inr rs' \<Longrightarrow>
   length (input_tf_tensor_values rs) = i + length args \<Longrightarrow>
   \<exists>fts. map (\<lambda>a. get_FallbackTensor h (arg_value a)) args = map Some fts
       \<and> input_tf_tensor_values rs'
           = take i (input_tf_tensor_values rs) @ map (\<lambda>ft. ArgTensor (ft_tensor ft)) fts"
proof (induction args arbitrary: i rs)
  case Nil
  then show ?case by simp
next
  case (Cons arg args)
  from Cons.prems(1) obtain ft where
    ft: "get_FallbackTensor h (arg_value arg) = Some ft"
    by (auto split: option.splits)
  define rs1 where "rs1 = (if \<not> is_immutable ft \<and> \<not> IsUnique arg
                      then rs\<lparr>input_tf_tensors := input_tf_tensors rs @ [ft_tensor ft]\<rparr>
                      else rs)"
  define rs2 where "rs2 = rs1\<lparr>input_tf_tensor_values :=
                           (input_tf_tensor_values rs1)[i := ArgTensor (ft_tensor ft)]\<rparr>"
  have v1: "input_tf_tensor_values rs1 = input_tf_tensor_values rs"
    by (simp add: rs1_def)
  have step: "prepare_inputs h args (Suc i) rs2 = Inr rs'"
    using Cons.prems(1) by (simp add: ft rs1_def rs2_def Let_def)
  have len: "length (input_tf_tensor_values rs2) = Suc i + length args"
    using Cons.prems(2) by (simp add: rs2_def v1)
  from Cons.IH [OF step len] obtain fts where
    fts: "map (\<lambda>a. get_FallbackTensor h (arg_value a)) args = map Some fts"
    and vals: "input_tf_tensor_values rs'
           = take (Suc i) (input_tf_tensor_values rs2) @ map (\<lambda>ft. ArgTensor (ft_tensor ft)) fts"
    by blast
  have tk: "take (Suc i) (input_tf_tensor_values rs2)
              = take i (input_tf_tensor_values rs) @ [ArgTensor (ft_tensor ft)]"
    using Cons.prems(2) by (simp add: rs2_def v1 take_Suc_conv_app_nth)
  show ?case
    by (rule exI [of _ "ft # fts"]) (simp add: ft fts vals tk)
qed

lemma deref_ArgTensor:
  "map (deref rs) (map (\<lambda>ft. ArgTensor (ft_tensor ft)) fts) = map (\<lambda>ft. Some (ft_tensor ft)) fts"
  by (simp add: deref_def)

lemma SetUpParams_frame:
  "input_tf_tensor_values (SetUpParams runner frs rs) = input_tf_tensor_values rs"
  "input_tf_tensors (SetUpParams runner frs rs) = input_tf_tensors rs"
  by (simp_all add: SetUpParams_def)

lemma deref_SetUpParams: "deref (SetUpParams runner frs rs) p = deref rs p"
  by (cases p) (simp_all add: deref_def SetUpParams_def)

lemma execute_op_returns:
  assumes "KernelFallbackExecuteOp conv tbl args results op_chain frame exec w = Inr (c, rs, w')"
    and "fallback_request_state exec = Some frs"
  shows "input_tf_tensors (thread_run_state w') = []
       \<and> (\<exists>runner fts.
            tbl (frame_op_key frame) = Some runner
          \<and> map (\<lambda>a. get_FallbackTensor (heap w) (arg_value a)) args = map Some fts
          \<and> invocations w' =
              invocations w @ [\<lparr>inv_kernel = kernel_name runner, inv_async = IsAsync runner,
                                inv_inputs = map (\<lambda>ft. Some (ft_tensor ft)) fts\<rparr>])"
proof -
  from assms obtain runner where runner: "tbl (frame_op_key frame) = Some runner"
    by (auto simp: KernelFallbackExecuteOp_def OpKernelRunnerTable_Get_def split: option.splits)
  define rs1 where "rs1 = (thread_run_state w)\<lparr>input_tf_tensor_values :=
                      resize_values (length args) (input_tf_tensor_values (thread_run_state w))\<rparr>"
  from assms runner obtain rs2 where
    prep: "prepare_inputs (heap w) args 0 rs1 = Inr rs2"
    by (auto simp: KernelFallbackExecuteOp_def OpKernelRunnerTable_Get_def rs1_def Let_def
        with_cleanup_def split: sum.splits)
  define w1 where "w1 = w\<lparr>thread_run_state := SetUpParams runner frs rs2\<rparr>"
  have E: "with_cleanup
             (if IsAsync runner then
                KernelFallbackExecuteCompatAsyncInternal conv exec runner op_chain results w1
              else
                KernelFallbackExecuteCompatSyncInternal conv exec runner op_chain results w1)
           = Inr (c, rs, w')"
    using assms runner prep
    by (cases "IsAsync runner")
       (simp_all add: KernelFallbackExecuteOp_def OpKernelRunnerTable_Get_def
          rs1_def [symmetric] Let_def w1_def)
  from with_cleanup_Inr [OF E] obtain wr where
    wr: "(if IsAsync runner then
                KernelFallbackExecuteCompatAsyncInternal conv exec runner op_chain results w1
              else
                KernelFallbackExecuteCompatSyncInternal conv exec runner op_chain results w1)
         = Inr (c, rs, wr)"
    and w': "w' = clean_up_inputs wr"
    by blast
  have "length (input_tf_tensor_values rs1) = 0 + length args"
    by (simp add: rs1_def length_resize_values)
  from prepare_inputs_values [OF prep this] obtain fts where
    fts: "map (\<lambda>a. get_FallbackTensor (heap w) (arg_value a)) args = map Some fts"
    and vals: "input_tf_tensor_values rs2 = map (\<lambda>ft. ArgTensor (ft_tensor ft)) fts"
    by auto
  have ins: "map (deref (thread_run_state w1)) (input_tf_tensor_values (thread_run_state w1))
               = map (\<lambda>ft. Some (ft_tensor ft)) fts"
    by (simp add: w1_def SetUpParams_frame vals deref_SetUpParams deref_def comp_def)
  have "invocations wr = invocations w1 @ [\<lparr>inv_kernel = kernel_name runner,
                                  inv_async = IsAsync runner,
                                  inv_inputs = map (\<lambda>ft. Some (ft_tensor ft)) fts\<rparr>]"
  proof (cases "IsAsync runner")
    case True
    with wr async_returns(1) [where conv = conv and exec = exec and runner = runner
          and op_chain = op_chain and results = results and w = w1
          and c = c and rs = rs and w' = wr]
    show ?thesis by (simp only: ins if_True)
  next
    case False
    with wr sync_returns(1) [where conv = conv and exec = exec and runner = runner
          and op_chain = op_chain and results = results and w = w1
          and c = c and rs = rs and w' = wr]
    show ?thesis by (simp only: ins if_False)
  qed
  then have "invocations w' = invocations w @ [\<lparr>inv_kernel = kernel_name runner,
                                  inv_async = IsAsync runner,
                                  inv_inputs = map (\<lambda>ft. Some (ft_tensor ft)) fts\<rparr>]"
    by (simp add: w' clean_up_inputs_frame w1_def)
  moreover have "input_tf_tensors (thread_run_state w') = []"
    by (simp add: w' clean_up_inputs_frame)
  ultimately show ?thesis
    using runner fts by blast
qed

lemma dispatch_returns:
  assumes "KernelFallbackExecuteCompatCoreRuntimeDispatch conv to_tf dts get_or_create
             exec op_name device_name arguments results attrs w = Inr (c, rs, w')"
  shows "(thread_run_state w' = thread_run_state w \<and> invocations w' = invocations w
          \<and> (fallback_request_state exec = None
             \<or> (\<exists>st. get_or_create (location exec) op_name device_name (length arguments) attrs
                       = Inl st)
             \<or> (\<exists>err. ConvertInputTensors to_tf arguments = Inl err)))
       \<or> (input_tf_tensors (thread_run_state w') = []
          \<and> (invocations w' = invocations w
             \<or> (\<exists>(runner :: op_kernel_runner) ts.
                  ConvertInputTensors to_tf arguments = Inr ts
                \<and> invocations w' =
                    invocations w @ [\<lparr>inv_kernel = kernel_name runner,
                                      inv_async = IsAsync runner,
                                      inv_inputs = map Some ts\<rparr>])))"
proof (cases "fallback_request_state exec")
  case None
  from dispatch_no_state [OF None, of conv to_tf dts get_or_create op_name device_name
                            arguments results attrs w] assms None
  show ?thesis by auto
next
  case (Some frs)
  show ?thesis
  proof (cases "get_or_create (location exec) op_name device_name (length arguments) attrs")
    case (Inl st)
    from dispatch_no_runner [where get_or_create = get_or_create, OF Some Inl,
                             of conv to_tf dts results w] assms Inl
    show ?thesis by auto
  next
    case (Inr kernel_runner)
    show ?thesis
    proof (cases "ConvertInputTensors to_tf arguments")
      case (Inl err)
      from dispatch_conversion_fails [where get_or_create = get_or_create, OF Some Inr Inl,
                                      of conv dts results w] assms Inl
      show ?thesis by auto
    next
      case cv: (Inr ts)
      show ?thesis
      proof (cases "\<not> ok (ValidateInputTypes dts op_name ts (input_types kernel_runner))
                    \<and> op_name \<noteq> ''_BatchFunctionFallback''")
        case True
        then have nok: "\<not> ok (ValidateInputTypes dts op_name ts (input_types kernel_runner))"
          and nb: "op_name \<noteq> ''_BatchFunctionFallback''" by simp_all
        from dispatch_rejects [where get_or_create = get_or_create, OF Some Inr cv nok nb,
                               of conv results w] assms
        show ?thesis by auto
      next
        case False
        then have ex: "ok (ValidateInputTypes dts op_name ts (input_types kernel_runner))
                       \<or> op_name = ''_BatchFunctionFallback''" by blast
        have both: "invocations w' =
                invocations w @ [\<lparr>inv_kernel = kernel_name kernel_runner,
                                  inv_async = IsAsync kernel_runner,
                                  inv_inputs = map Some ts\<rparr>]
            \<and> input_tf_tensors (thread_run_state w') = []"
          using dispatch_execute_invokes
               [where get_or_create = get_or_create and conv = conv and dts = dts
                  and results = results and w = w, OF Some Inr cv ex] assms
          by simp
        have called: "\<exists>(runner :: op_kernel_runner) ts.
                  ConvertInputTensors to_tf arguments = Inr ts
                \<and> invocations w' =
                    invocations w @ [\<lparr>inv_kernel = kernel_name runner,
                                      inv_async = IsAsync runner,
                                      inv_inputs = map Some ts\<rparr>]"
        proof (intro exI)
          show "ConvertInputTensors to_tf arguments = Inr ts
                \<and> invocations w' =
                    invocations w @ [\<lparr>inv_kernel = kernel_name kernel_runner,
                                      inv_async = IsAsync kernel_runner,
                                      inv_inputs = map Some ts\<rparr>]"
            using both cv by simp
        qed
        from both have "input_tf_tensors (thread_run_state w') = []" by simp
        with called show ?thesis by simp
      qed
    qed
  qed
qed

text \<open>
  Claim C7.  Whenever one of the two dispatch entry points returns, the owned tensor copies
  of the thread-local run state are empty, provided they were empty when it was entered,
  as they are at first and hence after every earlier invocation.  The exits taken before
  the cleanup object exists (no request state, no runner, a failed conversion) leave the
  run state as it was; once the cleanup object exists, every exit, the validation error
  included, clears the copies whatever they were.  And whenever a runner is called, the
  inputs it reads are those of this invocation, its converted arguments or the tensors of
  its argument futures, whatever an earlier invocation left in the run state.
\<close>

theorem scratch_tensors_cleared_between_invocations:
  "(case KernelFallbackExecuteCompatCoreRuntimeDispatch conv to_tf dts get_or_create
           exec op_name device_name arguments results attrs w of
      Inl f \<Rightarrow> True
    | Inr (c, rs, w') \<Rightarrow>
        (input_tf_tensors (thread_run_state w) = [] \<longrightarrow>
           input_tf_tensors (thread_run_state w') = [])
      \<and> (fallback_request_state exec = Some frs
         \<and> get_or_create (location exec) op_name device_name (length arguments) attrs
             = Inr kernel_runner
         \<and> ConvertInputTensors to_tf arguments = Inr ts \<longrightarrow>
           input_tf_tensors (thread_run_state w') = [])
      \<and> (invocations w' = invocations w
         \<or> (\<exists>(runner :: op_kernel_runner) ts.
               ConvertInputTensors to_tf arguments = Inr ts
             \<and> invocations w' =
                 invocations w @ [\<lparr>inv_kernel = kernel_name runner,
                                   inv_async = IsAsync runner,
                                   inv_inputs = map Some ts\<rparr>])))
   \<and> (case KernelFallbackExecuteOp conv tbl args results op_chain frame exec w of
      Inl f \<Rightarrow> True
    | Inr (c, rs, w') \<Rightarrow>
        (input_tf_tensors (thread_run_state w) = [] \<longrightarrow>
           input_tf_tensors (thread_run_state w') = [])
      \<and> (fallback_request_state exec = Some frs \<longrightarrow>
           input_tf_tensors (thread_run_state w') = [])
      \<and> (invocations w' = invocations w
         \<or> (\<exists>runner fts.
               tbl (frame_op_key frame) = Some runner
             \<and> map (\<lambda>a. get_FallbackTensor (heap w) (arg_value a)) args = map Some fts
             \<and> invocations w' =
                 invocations w @ [\<lparr>inv_kernel = kernel_name runner,
                                   inv_async = IsAsync runner,
                                   inv_inputs = map (\<lambda>ft. Some (ft_tensor ft)) fts\<rparr>])))"
proof -
  let ?D = "KernelFallbackExecuteCompatCoreRuntimeDispatch conv to_tf dts get_or_create
           exec op_name device_name arguments results attrs w"
  let ?E = "KernelFallbackExecuteOp conv tbl args results op_chain frame exec w"
  have D: "(input_tf_tensors (thread_run_state w) = [] \<longrightarrow>
              input_tf_tensors (thread_run_state w') = [])
      \<and> (fallback_request_state exec = Some frs
         \<and> get_or_create (location exec) op_name device_name (length arguments) attrs
             = Inr kernel_runner
         \<and> ConvertInputTensors to_tf arguments = Inr ts \<longrightarrow>
           input_tf_tensors (thread_run_state w') = [])
      \<and> (invocations w' = invocations w
         \<or> (\<exists>(runner :: op_kernel_runner) ts.
               ConvertInputTensors to_tf arguments = Inr ts
             \<and> invocations w' =
                 invocations w @ [\<lparr>inv_kernel = kernel_name runner,
                                   inv_async = IsAsync runner,
                                   inv_inputs = map Some ts\<rparr>]))"
    if "?D = Inr (c, rs, w')" for c rs w'
    using dispatch_returns [OF that] by auto
  have E: "(input_tf_tensors (thread_run_state w) = [] \<longrightarrow>
              input_tf_tensors (thread_run_state w') = [])
      \<and> (fallback_request_state exec = Some frs \<longrightarrow>
           input_tf_tensors (thread_run_state w') = [])
      \<and> (invocations w' = invocations w
         \<or> (\<exists>runner fts.
               tbl (frame_op_key frame) = Some runner
             \<and> map (\<lambda>a. get_FallbackTensor (heap w) (arg_value a)) args = map Some fts
             \<and> invocations w' =
                 invocations w @ [\<lparr>inv_kernel = kernel_name runner,
                                   inv_async = IsAsync runner,
                                   inv_inputs = map (\<lambda>ft. Some (ft_tensor ft)) fts\<rparr>]))"
    if ret: "?E = Inr (c, rs, w')" for c rs w'
  proof (cases "fallback_request_state exec")
    case None
    from execute_op_no_state [OF None, of conv tbl args results op_chain frame w] ret None
    show ?thesis by auto
  next
    case (Some frs')
    from execute_op_returns [OF ret Some] Some
    show ?thesis by simp
  qed
  show ?thesis
    using D E by (auto split: sum.splits)
qed

theorem scratch_tensors_cleared_between_invocations_witness:
  "(case KernelFallbackExecuteOp code [7 \<mapsto> \<lparr>kernel_name = ''Identity'', input_types = [1], num_outputs = 1,
                 runner_device = ''cpu'', IsAsync = False,
                 compute = (\<lambda>ins. \<lparr>out_status = Status_OK,
                                      out_tensors = (\<lambda>i. if i = 0 then ins ! 0 else None)\<rparr>),
                 completes_inline = False\<rparr>]
           [\<lparr>arg_value = 0, IsUnique = False\<rparr>] [None] None
           \<lparr>frame_device = ''cpu'', frame_op_key = 7, frame_op_name = ''tf.Identity''\<rparr> \<lparr>location = ''loc'',
         fallback_request_state =
           Some \<lparr>log_device_placement = False, custom_device = None\<rparr>\<rparr>
           \<lparr>heap = [Concrete (TensorValue \<lparr>ft_tensor = \<lparr>dtype = 1, buffer = [3]\<rparr>, is_immutable = False\<rparr>)],
         work_queue = [], pending = [], invocations = [],
         thread_run_state =
           \<lparr>input_tf_tensors = [], input_tf_tensor_values = [],
            params = \<lparr>p_device = [], p_op_kernel = []\<rparr>\<rparr>\<rparr> of
      Inl f \<Rightarrow> False
    | Inr (c, rs, w1) \<Rightarrow>
        input_tf_tensors (thread_run_state w1) = []
      \<and> invocations w1 = [\<lparr>inv_kernel = ''Identity'', inv_async = False,
                             inv_inputs = [Some \<lparr>dtype = 1, buffer = [3]\<rparr>]\<rparr>]
      \<and> (case KernelFallbackExecuteCompatCoreRuntimeDispatch code Inr (\<lambda>d. ''t'')
                 (\<lambda>loc op dev n attrs. Inr \<lparr>kernel_name = ''Identity'', input_types = [1], num_outputs = 1,
                 runner_device = ''cpu'', IsAsync = False,
                 compute = (\<lambda>ins. \<lparr>out_status = Status_OK,
                                      out_tensors = (\<lambda>i. if i = 0 then ins ! 0 else None)\<rparr>),
                 completes_inline = False\<rparr>)
                 \<lparr>location = ''loc'',
         fallback_request_state =
           Some \<lparr>log_device_placement = False, custom_device = None\<rparr>\<rparr> ''Identity'' ''cpu'' [\<lparr>dtype = 1, buffer = [8]\<rparr>] [None] () w1 of
            Inl f \<Rightarrow> False
          | Inr (c', rs', w2) \<Rightarrow>
              input_tf_tensors (thread_run_state w2) = []
            \<and> invocations w2 = [\<lparr>inv_kernel = ''Identity'', inv_async = False,
                                   inv_inputs = [Some \<lparr>dtype = 1, buffer = [3]\<rparr>]\<rparr>,
                                  \<lparr>inv_kernel = ''Identity'', inv_async = False,
                                   inv_inputs = [Some \<lparr>dtype = 1, buffer = [8]\<rparr>]\<rparr>]))"
  using scratch_tensors_cleared_between_invocations
          [where conv = code and to_tf = Inr and dts = "\<lambda>d. ''t''"
             and get_or_create = "\<lambda>loc op dev n attrs. Inr \<lparr>kernel_name = ''Identity'', input_types = [1], num_outputs = 1,
                 runner_device = ''cpu'', IsAsync = False,
                 compute = (\<lambda>ins. \<lparr>out_status = Status_OK,
                                      out_tensors = (\<lambda>i. if i = 0 then ins ! 0 else None)\<rparr>),
                 completes_inline = False\<rparr>"
             and exec = "\<lparr>location = ''loc'',
         fallback_request_state =
           Some \<lparr>log_device_placement = False, custom_device = None\<rparr>\<rparr>"
             and frs = "\<lparr>log_device_placement = False, custom_device = None\<rparr>"
             and op_name = "''Identity''" and device_name = "''cpu''"
             and arguments = "[\<lparr>dtype = 1, buffer = [8]\<rparr>]" and results = "[None]" and attrs = "()"
             and kernel_runner = "\<lparr>kernel_name = ''Identity'', input_types = [1], num_outputs = 1,
                 runner_device = ''cpu'', IsAsync = False,
                 compute = (\<lambda>ins. \<lparr>out_status = Status_OK,
                                      out_tensors = (\<lambda>i. if i = 0 then ins ! 0 else None)\<rparr>),
                 completes_inline = False\<rparr>" and ts = "[\<lparr>dtype = 1, buffer = [8]\<rparr>]"
             and tbl = "[7 \<mapsto> \<lparr>kernel_name = ''Identity'', input_types = [1], num_outputs = 1,
                 runner_device = ''cpu'', IsAsync = False,
                 compute = (\<lambda>ins. \<lparr>out_status = Status_OK,
                                      out_tensors = (\<lambda>i. if i = 0 then ins ! 0 else None)\<rparr>),
                 completes_inline = False\<rparr>]" and args = "[\<lparr>arg_value = 0, IsUnique = False\<rparr>]"
             and op_chain = None and frame = "\<lparr>frame_device = ''cpu'', frame_op_key = 7, frame_op_name = ''tf.Identity''\<rparr>"
             and w = "\<lparr>heap = [Concrete (TensorValue \<lparr>ft_tensor = \<lparr>dtype = 1, buffer = [3]\<rparr>, is_immutable = False\<rparr>)],
         work_queue = [], pending = [], invocations = [],
         thread_run_state =
           \<lparr>input_tf_tensors = [], input_tf_tensor_values = [],
            params = \<lparr>p_device = [], p_op_kernel = []\<rparr>\<rparr>\<rparr>"]
  by (simp add: Let_def KernelFallbackExecuteOp_def OpKernelRunnerTable_Get_def
      resize_values_def get_FallbackTensor_def SetUpParams_def with_cleanup_def
      clean_up_inputs_def KernelFallbackExecuteCompatSyncInternal_def OpKernelContext_def
      kernel_runs_def deref_def ok_def Status_OK_def MakeAvailableAsyncValueRef_def
      alloc_av_def FallbackTensor_def KernelFallbackExecuteCompatCoreRuntimeDispatch_def
      ValidateInputTypes_def rebind_values_def)

end
